theory Spec2Isabelle
  imports Main "HOL-Library.Word"
begin

unbundle bit_operations_syntax

section \<open>The SRTP engine of srtp.c\<close>

text \<open>
  A shallow embedding of \<^verbatim>\<open>src/srtp/srtp.c\<close>. Structs are records, enums are
  datatypes, status codes are values, and every function that mutates the session, the
  crypto objects or the packet returns the updated state. The cipher, MAC and replay
  primitives live in other files of the library; they are parameters of the model (the
  records \<open>cipher_ops\<close>, \<open>auth_ops\<close>, ... below), so that every theorem holds
  for any implementation of them.
\<close>

subsection \<open>Status codes and identifiers\<close>

text \<open>
  Modelled from the spec: the status codes of err.h (section 7 lists them); a code of
  err.h that srtp.c never names is \<open>srtp_err_status_other\<close>.
\<close>

datatype srtp_err_status_t =
    srtp_err_status_ok
  | srtp_err_status_bad_param
  | srtp_err_status_alloc_fail
  | srtp_err_status_init_fail
  | srtp_err_status_no_ctx
  | srtp_err_status_replay_fail
  | srtp_err_status_replay_old
  | srtp_err_status_key_expired
  | srtp_err_status_auth_fail
  | srtp_err_status_cipher_fail
  | srtp_err_status_parse_err
  | srtp_err_status_cant_check
  | srtp_err_status_other nat

text \<open>
  Modelled from the spec: the cipher and authenticator identifiers of crypto_types.h
  (section 4.A: AES_ICM (128/192/256), AES_128_GCM, AES_256_GCM, NULL_CIPHER; HMAC_SHA1,
  NULL_AUTH). \<open>SRTP_AES_128_ICM\<close> is another name of \<open>SRTP_AES_ICM\<close>.
\<close>

datatype srtp_cipher_type_id_t =
    SRTP_NULL_CIPHER
  | SRTP_AES_ICM
  | SRTP_AES_192_ICM
  | SRTP_AES_256_ICM
  | SRTP_AES_128_GCM
  | SRTP_AES_256_GCM
  | SRTP_OTHER_CIPHER nat

abbreviation SRTP_AES_128_ICM :: srtp_cipher_type_id_t where
  "SRTP_AES_128_ICM \<equiv> SRTP_AES_ICM"

datatype srtp_auth_type_id_t = SRTP_NULL_AUTH | SRTP_HMAC_SHA1 | SRTP_OTHER_AUTH nat

text \<open>
  The security services are a bit mask in C: none = 0, confidentiality = 1,
  authentication = 2, both = 3. \<open>sec_serv_bits\<close> gives the mask, and the test
  \<^verbatim>\<open>services & sec_serv_conf\<close> of the source is \<open>serv_and\<close>.
\<close>

datatype srtp_sec_serv_t = sec_serv_none | sec_serv_conf | sec_serv_auth | sec_serv_conf_and_auth

fun sec_serv_bits :: "srtp_sec_serv_t \<Rightarrow> nat" where
  "sec_serv_bits sec_serv_none = 0"
| "sec_serv_bits sec_serv_conf = 1"
| "sec_serv_bits sec_serv_auth = 2"
| "sec_serv_bits sec_serv_conf_and_auth = 3"

definition serv_and :: "srtp_sec_serv_t \<Rightarrow> srtp_sec_serv_t \<Rightarrow> bool" where
  "serv_and s t = (sec_serv_bits s AND sec_serv_bits t \<noteq> 0)"

datatype srtp_profile_t =
    srtp_profile_reserved
  | srtp_profile_aes128_cm_sha1_80
  | srtp_profile_aes128_cm_sha1_32
  | srtp_profile_aes256_cm_sha1_80
  | srtp_profile_aes256_cm_sha1_32
  | srtp_profile_null_sha1_80
  | srtp_profile_null_sha1_32

datatype srtp_ssrc_type_t = ssrc_undefined | ssrc_specific | ssrc_any_inbound | ssrc_any_outbound

datatype direction_t = dir_unknown | dir_srtp_sender | dir_srtp_receiver

datatype srtp_cipher_direction_t = direction_encrypt | direction_decrypt

datatype srtp_event_t =
  event_ssrc_collision | event_key_soft_limit | event_key_hard_limit | event_packet_index_limit

datatype srtp_key_event_t =
  srtp_key_event_normal | srtp_key_event_soft_limit | srtp_key_event_hard_limit

subsection \<open>Policies\<close>

record srtp_crypto_policy_t =
  cipher_type :: srtp_cipher_type_id_t
  cipher_key_len :: int
  auth_type :: srtp_auth_type_id_t
  auth_key_len :: int
  auth_tag_len :: int
  sec_serv :: srtp_sec_serv_t

record srtp_ssrc_t =
  ssrc_type :: srtp_ssrc_type_t
  ssrc_value :: "32 word"

text \<open>
  \<open>srtp_policy_t\<close>: the fields carry the prefix \<open>pol_\<close> because the stream context
  has fields of the same names. A NULL key or EKT policy is \<open>None\<close>; the \<open>next\<close>
  link is the tail of a list of policies.
\<close>

record 'ek srtp_policy_t =
  pol_ssrc :: srtp_ssrc_t
  pol_rtp :: srtp_crypto_policy_t
  pol_rtcp :: srtp_crypto_policy_t
  pol_key :: "8 word list option"
  pol_ekt :: "'ek option"
  pol_window_size :: nat
  pol_allow_repeat_tx :: int

definition srtp_crypto_policy_set_rtp_default :: "srtp_crypto_policy_t \<Rightarrow> srtp_crypto_policy_t" where
  "srtp_crypto_policy_set_rtp_default p =
     p\<lparr>cipher_type := SRTP_AES_ICM, cipher_key_len := 30, auth_type := SRTP_HMAC_SHA1,
       auth_key_len := 20, auth_tag_len := 10, sec_serv := sec_serv_conf_and_auth\<rparr>"

definition srtp_crypto_policy_set_rtcp_default :: "srtp_crypto_policy_t \<Rightarrow> srtp_crypto_policy_t" where
  "srtp_crypto_policy_set_rtcp_default p =
     p\<lparr>cipher_type := SRTP_AES_ICM, cipher_key_len := 30, auth_type := SRTP_HMAC_SHA1,
       auth_key_len := 20, auth_tag_len := 10, sec_serv := sec_serv_conf_and_auth\<rparr>"

text \<open>
  Modelled from the spec: \<^verbatim>\<open>srtp_crypto_policy_set_aes_cm_128_hmac_sha1_80\<close> is a
  macro of srtp.h, which is not under src; it names the default RTP policy of RFC 3711
  (AES-128 counter mode, HMAC-SHA1 with an 80-bit tag), which
  \<open>srtp_crypto_policy_set_rtp_default\<close> sets.
\<close>

definition srtp_crypto_policy_set_aes_cm_128_hmac_sha1_80 ::
  "srtp_crypto_policy_t \<Rightarrow> srtp_crypto_policy_t" where
  "srtp_crypto_policy_set_aes_cm_128_hmac_sha1_80 p = srtp_crypto_policy_set_rtp_default p"

definition srtp_crypto_policy_set_aes_cm_128_hmac_sha1_32 ::
  "srtp_crypto_policy_t \<Rightarrow> srtp_crypto_policy_t" where
  "srtp_crypto_policy_set_aes_cm_128_hmac_sha1_32 p =
     p\<lparr>cipher_type := SRTP_AES_ICM, cipher_key_len := 30, auth_type := SRTP_HMAC_SHA1,
       auth_key_len := 20, auth_tag_len := 4, sec_serv := sec_serv_conf_and_auth\<rparr>"

definition srtp_crypto_policy_set_aes_cm_128_null_auth ::
  "srtp_crypto_policy_t \<Rightarrow> srtp_crypto_policy_t" where
  "srtp_crypto_policy_set_aes_cm_128_null_auth p =
     p\<lparr>cipher_type := SRTP_AES_ICM, cipher_key_len := 30, auth_type := SRTP_NULL_AUTH,
       auth_key_len := 0, auth_tag_len := 0, sec_serv := sec_serv_conf\<rparr>"

definition srtp_crypto_policy_set_null_cipher_hmac_sha1_80 ::
  "srtp_crypto_policy_t \<Rightarrow> srtp_crypto_policy_t" where
  "srtp_crypto_policy_set_null_cipher_hmac_sha1_80 p =
     p\<lparr>cipher_type := SRTP_NULL_CIPHER, cipher_key_len := 0, auth_type := SRTP_HMAC_SHA1,
       auth_key_len := 20, auth_tag_len := 10, sec_serv := sec_serv_auth\<rparr>"

definition srtp_crypto_policy_set_null_cipher_hmac_null ::
  "srtp_crypto_policy_t \<Rightarrow> srtp_crypto_policy_t" where
  "srtp_crypto_policy_set_null_cipher_hmac_null p =
     p\<lparr>cipher_type := SRTP_NULL_CIPHER, cipher_key_len := 0, auth_type := SRTP_NULL_AUTH,
       auth_key_len := 0, auth_tag_len := 0, sec_serv := sec_serv_none\<rparr>"

definition srtp_crypto_policy_set_aes_cm_256_hmac_sha1_80 ::
  "srtp_crypto_policy_t \<Rightarrow> srtp_crypto_policy_t" where
  "srtp_crypto_policy_set_aes_cm_256_hmac_sha1_80 p =
     p\<lparr>cipher_type := SRTP_AES_ICM, cipher_key_len := 46, auth_type := SRTP_HMAC_SHA1,
       auth_key_len := 20, auth_tag_len := 10, sec_serv := sec_serv_conf_and_auth\<rparr>"

definition srtp_crypto_policy_set_aes_cm_256_hmac_sha1_32 ::
  "srtp_crypto_policy_t \<Rightarrow> srtp_crypto_policy_t" where
  "srtp_crypto_policy_set_aes_cm_256_hmac_sha1_32 p =
     p\<lparr>cipher_type := SRTP_AES_ICM, cipher_key_len := 46, auth_type := SRTP_HMAC_SHA1,
       auth_key_len := 20, auth_tag_len := 4, sec_serv := sec_serv_conf_and_auth\<rparr>"

definition srtp_crypto_policy_set_aes_cm_256_null_auth ::
  "srtp_crypto_policy_t \<Rightarrow> srtp_crypto_policy_t" where
  "srtp_crypto_policy_set_aes_cm_256_null_auth p =
     p\<lparr>cipher_type := SRTP_AES_ICM, cipher_key_len := 46, auth_type := SRTP_NULL_AUTH,
       auth_key_len := 0, auth_tag_len := 0, sec_serv := sec_serv_conf\<rparr>"

text \<open>
  The profile helpers write the policy through a pointer and return a status; the model
  returns both. On \<open>bad_param\<close> the policy is untouched.
\<close>

fun srtp_crypto_policy_set_from_profile_for_rtp ::
  "srtp_crypto_policy_t \<Rightarrow> srtp_profile_t \<Rightarrow> srtp_err_status_t \<times> srtp_crypto_policy_t" where
  "srtp_crypto_policy_set_from_profile_for_rtp policy srtp_profile_aes128_cm_sha1_80 =
     (srtp_err_status_ok, srtp_crypto_policy_set_aes_cm_128_hmac_sha1_80 policy)"
| "srtp_crypto_policy_set_from_profile_for_rtp policy srtp_profile_aes128_cm_sha1_32 =
     (srtp_err_status_ok, srtp_crypto_policy_set_aes_cm_128_hmac_sha1_32 policy)"
| "srtp_crypto_policy_set_from_profile_for_rtp policy srtp_profile_null_sha1_80 =
     (srtp_err_status_ok, srtp_crypto_policy_set_null_cipher_hmac_sha1_80 policy)"
| "srtp_crypto_policy_set_from_profile_for_rtp policy srtp_profile_aes256_cm_sha1_80 =
     (srtp_err_status_ok, srtp_crypto_policy_set_aes_cm_256_hmac_sha1_80 policy)"
| "srtp_crypto_policy_set_from_profile_for_rtp policy srtp_profile_aes256_cm_sha1_32 =
     (srtp_err_status_ok, srtp_crypto_policy_set_aes_cm_256_hmac_sha1_32 policy)"
| "srtp_crypto_policy_set_from_profile_for_rtp policy srtp_profile_null_sha1_32 =
     (srtp_err_status_bad_param, policy)"
| "srtp_crypto_policy_set_from_profile_for_rtp policy srtp_profile_reserved =
     (srtp_err_status_bad_param, policy)"

fun srtp_crypto_policy_set_from_profile_for_rtcp ::
  "srtp_crypto_policy_t \<Rightarrow> srtp_profile_t \<Rightarrow> srtp_err_status_t \<times> srtp_crypto_policy_t" where
  "srtp_crypto_policy_set_from_profile_for_rtcp policy srtp_profile_aes128_cm_sha1_80 =
     (srtp_err_status_ok, srtp_crypto_policy_set_aes_cm_128_hmac_sha1_80 policy)"
| "srtp_crypto_policy_set_from_profile_for_rtcp policy srtp_profile_aes128_cm_sha1_32 =
     (srtp_err_status_ok, srtp_crypto_policy_set_aes_cm_128_hmac_sha1_80 policy)"
| "srtp_crypto_policy_set_from_profile_for_rtcp policy srtp_profile_null_sha1_80 =
     (srtp_err_status_ok, srtp_crypto_policy_set_null_cipher_hmac_sha1_80 policy)"
| "srtp_crypto_policy_set_from_profile_for_rtcp policy srtp_profile_aes256_cm_sha1_80 =
     (srtp_err_status_ok, srtp_crypto_policy_set_aes_cm_256_hmac_sha1_80 policy)"
| "srtp_crypto_policy_set_from_profile_for_rtcp policy srtp_profile_aes256_cm_sha1_32 =
     (srtp_err_status_ok, srtp_crypto_policy_set_aes_cm_256_hmac_sha1_80 policy)"
| "srtp_crypto_policy_set_from_profile_for_rtcp policy srtp_profile_null_sha1_32 =
     (srtp_err_status_bad_param, policy)"
| "srtp_crypto_policy_set_from_profile_for_rtcp policy srtp_profile_reserved =
     (srtp_err_status_bad_param, policy)"

subsection \<open>Key lengths\<close>

text \<open>
  \<open>base_key_length\<close> switches on the identifier of the cipher type. Lengths are C
  ints; the model uses \<open>int\<close> (a key length is far from the bounds of a C int, where
  the subtraction would be undefined).
\<close>

fun base_key_length :: "srtp_cipher_type_id_t \<Rightarrow> int \<Rightarrow> int" where
  "base_key_length SRTP_AES_ICM key_length = key_length - 14"
| "base_key_length SRTP_AES_192_ICM key_length = key_length - 14"
| "base_key_length SRTP_AES_256_ICM key_length = key_length - 14"
| "base_key_length SRTP_AES_128_GCM key_length = 16"
| "base_key_length SRTP_AES_256_GCM key_length = 32"
| "base_key_length SRTP_NULL_CIPHER key_length = key_length"
| "base_key_length (SRTP_OTHER_CIPHER n) key_length = key_length"

subsection \<open>Memory, bytes and the byte order of the host\<close>

text \<open>
  The packet is the memory behind the pointer that the caller hands in: a byte at each
  offset from it. The caller owns a buffer that is longer than the packet (the tag and
  the trailer are appended in place), so the model reads and writes at any offset.
\<close>

type_synonym mem = "int \<Rightarrow> 8 word"

definition mem_read :: "mem \<Rightarrow> int \<Rightarrow> int \<Rightarrow> 8 word list" where
  "mem_read m off n = map (\<lambda>i. m (off + int i)) [0..<nat n]"

definition mem_write :: "mem \<Rightarrow> int \<Rightarrow> 8 word list \<Rightarrow> mem" where
  "mem_write m off bs =
     (\<lambda>a. if off \<le> a \<and> a < off + int (length bs) then bs ! nat (a - off) else m a)"

definition mem_of_list :: "8 word list \<Rightarrow> mem" where
  "mem_of_list bs = mem_write (\<lambda>a. 0) 0 bs"

text \<open>\<open>fit n bs\<close>: what an array of \<open>n\<close> bytes holds after \<open>bs\<close> is copied to its start.\<close>

definition fit :: "nat \<Rightarrow> 8 word list \<Rightarrow> 8 word list" where
  "fit n bs = take n (bs @ replicate n 0)"

text \<open>\<open>buf_write v off bs\<close>: the array \<open>v\<close> after \<open>bs\<close> is copied to its offset \<open>off\<close>.\<close>

definition buf_write :: "8 word list \<Rightarrow> nat \<Rightarrow> 8 word list \<Rightarrow> 8 word list" where
  "buf_write v off bs = take off v @ bs @ drop (off + length bs) v"

definition be_cat :: "8 word list \<Rightarrow> 'a::len word" where
  "be_cat bs = foldl (\<lambda>w b. push_bit 8 w OR ucast b) 0 bs"

definition be16 :: "16 word \<Rightarrow> 8 word list" where
  "be16 w = [ucast (drop_bit 8 w), ucast w]"

definition be32 :: "32 word \<Rightarrow> 8 word list" where
  "be32 w = [ucast (drop_bit 24 w), ucast (drop_bit 16 w), ucast (drop_bit 8 w), ucast w]"

definition be64 :: "64 word \<Rightarrow> 8 word list" where
  "be64 w = [ucast (drop_bit 56 w), ucast (drop_bit 48 w), ucast (drop_bit 40 w),
             ucast (drop_bit 32 w), ucast (drop_bit 24 w), ucast (drop_bit 16 w),
             ucast (drop_bit 8 w), ucast w]"

text \<open>
  The host is little-endian (\<open>le\<close>) or big-endian. \<open>store\<close> gives the bytes a variable
  occupies in memory, \<open>load\<close> reads a variable from its bytes, and \<open>htons\<close>,
  \<open>htonl\<close>, \<open>ntohs\<close>, \<open>ntohl\<close> and \<open>be64_to_cpu\<close> swap the bytes of a value on a
  little-endian host and are the identity on a big-endian one.
\<close>

definition host_bytes :: "bool \<Rightarrow> 8 word list \<Rightarrow> 8 word list" where
  "host_bytes le bs = (if le then rev bs else bs)"

definition store16 :: "bool \<Rightarrow> 16 word \<Rightarrow> 8 word list" where
  "store16 le w = host_bytes le (be16 w)"

definition store32 :: "bool \<Rightarrow> 32 word \<Rightarrow> 8 word list" where
  "store32 le w = host_bytes le (be32 w)"

definition store64 :: "bool \<Rightarrow> 64 word \<Rightarrow> 8 word list" where
  "store64 le w = host_bytes le (be64 w)"

definition load16 :: "bool \<Rightarrow> 8 word list \<Rightarrow> 16 word" where
  "load16 le bs = be_cat (host_bytes le bs)"

definition load32 :: "bool \<Rightarrow> 8 word list \<Rightarrow> 32 word" where
  "load32 le bs = be_cat (host_bytes le bs)"

definition htons :: "bool \<Rightarrow> 16 word \<Rightarrow> 16 word" where
  "htons le w = (if le then be_cat (rev (be16 w)) else w)"

definition ntohs :: "bool \<Rightarrow> 16 word \<Rightarrow> 16 word" where
  "ntohs le w = htons le w"

definition htonl :: "bool \<Rightarrow> 32 word \<Rightarrow> 32 word" where
  "htonl le w = (if le then be_cat (rev (be32 w)) else w)"

definition ntohl :: "bool \<Rightarrow> 32 word \<Rightarrow> 32 word" where
  "ntohl le w = htonl le w"

definition be64_to_cpu :: "bool \<Rightarrow> 64 word \<Rightarrow> 64 word" where
  "be64_to_cpu le w = (if le then be_cat (rev (be64 w)) else w)"

text \<open>
  Modelled from the spec: the constants of the SRTCP trailer (srtp_priv.h is not under
  src): the high bit of the trailer word is the E bit, the low 31 bits are the index
  (section 4.F).
\<close>

definition SRTCP_E_BIT :: "32 word" where "SRTCP_E_BIT = 0x80000000"
definition SRTCP_E_BYTE_BIT :: "8 word" where "SRTCP_E_BYTE_BIT = 0x80"
definition SRTCP_INDEX_MASK :: "32 word" where "SRTCP_INDEX_MASK = 0x7fffffff"

text \<open>
  Modelled from the spec: the header structs of srtp_priv.h follow the wire format
  (section 4.F): in the first byte of an RTP header the low four bits are CC and bit 4
  is X; the sequence number is at bytes 2-3 and the SSRC at bytes 8-11; the SSRC of an
  RTCP header is at bytes 4-7; an RTP extension header is a 16-bit profile field and a
  16-bit length. A field read gives the value the host sees in the variable.
\<close>

definition hdr_cc :: "mem \<Rightarrow> int" where
  "hdr_cc hdr = uint (hdr 0 AND 0x0F)"

definition hdr_x :: "mem \<Rightarrow> int" where
  "hdr_x hdr = uint (drop_bit 4 (hdr 0) AND 1)"

definition hdr_seq :: "bool \<Rightarrow> mem \<Rightarrow> 16 word" where
  "hdr_seq le hdr = load16 le (mem_read hdr 2 2)"

definition hdr_ssrc :: "bool \<Rightarrow> mem \<Rightarrow> 32 word" where
  "hdr_ssrc le hdr = load32 le (mem_read hdr 8 4)"

definition rtcp_hdr_ssrc :: "bool \<Rightarrow> mem \<Rightarrow> 32 word" where
  "rtcp_hdr_ssrc le hdr = load32 le (mem_read hdr 4 4)"

definition xtn_hdr_length :: "bool \<Rightarrow> mem \<Rightarrow> int \<Rightarrow> 16 word" where
  "xtn_hdr_length le hdr off = load16 le (mem_read hdr (off + 2) 2)"

text \<open>
  Modelled from the spec: \<open>octet_string_is_eq\<close> (datatypes.c is not under src) compares
  the first \<open>len\<close> bytes and is non-zero, here \<open>True\<close>, iff they differ (section 4.A).
\<close>

definition octet_string_is_eq :: "8 word list \<Rightarrow> 8 word list \<Rightarrow> int \<Rightarrow> bool" where
  "octet_string_is_eq a b len = (take (nat len) a \<noteq> take (nat len) b)"

definition srtp_validate_rtp_header :: "bool \<Rightarrow> mem \<Rightarrow> int \<Rightarrow> srtp_err_status_t" where
  "srtp_validate_rtp_header le hdr pkt_octet_len =
     (let rtp_header_len = 12 + 4 * hdr_cc hdr;
          rtp_header_len = (if hdr_x hdr = 1 then rtp_header_len + 4 else rtp_header_len)
      in if pkt_octet_len < rtp_header_len then srtp_err_status_bad_param
         else if hdr_x hdr = 1 then
           (let profile_len = uint (ntohs le (xtn_hdr_length le hdr (12 + 4 * hdr_cc hdr)));
                rtp_header_len = rtp_header_len + profile_len * 4
            in if pkt_octet_len < rtp_header_len then srtp_err_status_bad_param
               else srtp_err_status_ok)
         else srtp_err_status_ok)"

subsection \<open>Crypto objects and the primitives\<close>

text \<open>
  A cipher object has a type identifier (\<^verbatim>\<open>type->id\<close>), an algorithm tag, a key
  length and an internal state; an authenticator has a tag length, a key length, a
  prefix length and an internal state. The internal states are type parameters.

  Modelled from the spec: the primitives of the crypto kernel (cipher.c, auth.c, rdbx.c,
  rdb.c, key.c, ekt.c, alloc.c are not under src) are the fields of the records below
  (sections 4.A and 4.B give their contracts). A primitive gets the object and returns a
  status and the new internal state. A primitive that works on a buffer gets the bytes
  of the region and returns the bytes it leaves there; the length it reports back
  through its length pointer is the length of the list it returns.
\<close>

record 'c srtp_cipher_t =
  cipher_type_id :: srtp_cipher_type_id_t
  algorithm :: srtp_cipher_type_id_t
  key_len :: int
  cipher_state :: 'c

record 'a srtp_auth_t =
  out_len :: int
  auth_key_length :: int
  prefix_len :: int
  auth_state :: 'a

record 'c cipher_ops =
  c_alloc :: "srtp_cipher_type_id_t \<Rightarrow> int \<Rightarrow> int \<Rightarrow> srtp_err_status_t \<times> 'c srtp_cipher_t"
  c_dealloc :: "'c srtp_cipher_t \<Rightarrow> srtp_err_status_t"
  c_init :: "'c srtp_cipher_t \<Rightarrow> 8 word list \<Rightarrow> srtp_err_status_t \<times> 'c"
  c_set_iv :: "'c srtp_cipher_t \<Rightarrow> 8 word list \<Rightarrow> srtp_cipher_direction_t \<Rightarrow> srtp_err_status_t \<times> 'c"
  c_set_aad :: "'c srtp_cipher_t \<Rightarrow> 8 word list \<Rightarrow> srtp_err_status_t \<times> 'c"
  c_encrypt :: "'c srtp_cipher_t \<Rightarrow> 8 word list \<Rightarrow> srtp_err_status_t \<times> 'c \<times> 8 word list"
  c_decrypt :: "'c srtp_cipher_t \<Rightarrow> 8 word list \<Rightarrow> srtp_err_status_t \<times> 'c \<times> 8 word list"
  c_output :: "'c srtp_cipher_t \<Rightarrow> int \<Rightarrow> srtp_err_status_t \<times> 'c \<times> 8 word list"
  c_get_tag :: "'c srtp_cipher_t \<Rightarrow> int \<Rightarrow> srtp_err_status_t \<times> 'c \<times> 8 word list"

record 'a auth_ops =
  a_alloc :: "srtp_auth_type_id_t \<Rightarrow> int \<Rightarrow> int \<Rightarrow> srtp_err_status_t \<times> 'a srtp_auth_t"
  a_dealloc :: "'a srtp_auth_t \<Rightarrow> srtp_err_status_t"
  a_init :: "'a srtp_auth_t \<Rightarrow> 8 word list \<Rightarrow> srtp_err_status_t \<times> 'a"
  a_start :: "'a srtp_auth_t \<Rightarrow> srtp_err_status_t \<times> 'a"
  a_update :: "'a srtp_auth_t \<Rightarrow> 8 word list \<Rightarrow> srtp_err_status_t \<times> 'a"
  a_compute :: "'a srtp_auth_t \<Rightarrow> 8 word list \<Rightarrow> srtp_err_status_t \<times> 'a \<times> 8 word list"

record 'x rdbx_ops =
  rdbx_init :: "'x \<Rightarrow> nat \<Rightarrow> srtp_err_status_t \<times> 'x"
  rdbx_dealloc :: "'x \<Rightarrow> srtp_err_status_t \<times> 'x"
  rdbx_estimate_index :: "'x \<Rightarrow> 16 word \<Rightarrow> int \<times> 64 word"
  rdbx_check :: "'x \<Rightarrow> int \<Rightarrow> srtp_err_status_t"
  rdbx_add_index :: "'x \<Rightarrow> int \<Rightarrow> 'x"
  rdbx_get_window_size :: "'x \<Rightarrow> nat"
  rdbx_get_packet_index :: "'x \<Rightarrow> 64 word"

record 'r rdb_ops =
  rdb_init :: "'r \<Rightarrow> 'r"
  rdb_check :: "'r \<Rightarrow> 32 word \<Rightarrow> srtp_err_status_t"
  rdb_add_index :: "'r \<Rightarrow> 32 word \<Rightarrow> 'r"
  rdb_increment :: "'r \<Rightarrow> srtp_err_status_t \<times> 'r"
  rdb_get_value :: "'r \<Rightarrow> 32 word"

record 'l limit_ops =
  key_limit_set :: "'l \<Rightarrow> 64 word \<Rightarrow> 'l"
  key_limit_update :: "'l \<Rightarrow> srtp_key_event_t \<times> 'l"
  key_limit_clone :: "nat \<Rightarrow> srtp_err_status_t \<times> nat"

subsection \<open>Streams, sessions and the state of the library\<close>

text \<open>
  A stream context holds its replay databases, salts and flags itself and points to its
  ciphers, authenticators and key limit, which a clone shares with its template:
  \<open>rtp_cipher\<close>, \<open>rtp_auth\<close>, \<open>rtcp_cipher\<close>, \<open>rtcp_auth\<close> and \<open>limit\<close> are
  addresses into the stores of the \<open>world\<close> below. The \<open>next\<close> link of a stream is
  the tail of the list \<open>stream_list\<close>; a NULL template or EKT pointer is \<open>None\<close>.
  The SSRC field holds the value as the host sees it (it is stored with \<open>htonl\<close>).
\<close>

record ('x, 'r, 'e) srtp_stream_ctx_t =
  ssrc :: "32 word"
  rtp_cipher :: nat
  rtp_auth :: nat
  rtp_rdbx :: 'x
  rtp_services :: srtp_sec_serv_t
  rtcp_cipher :: nat
  rtcp_auth :: nat
  rtcp_rdb :: 'r
  rtcp_services :: srtp_sec_serv_t
  limit :: nat
  direction :: direction_t
  allow_repeat_tx :: int
  ekt :: "'e option"
  salt :: "8 word list"
  c_salt :: "8 word list"

record ('x, 'r, 'e) srtp_ctx_t =
  stream_list :: "('x, 'r, 'e) srtp_stream_ctx_t list"
  stream_template :: "('x, 'r, 'e) srtp_stream_ctx_t option"
  user_data :: "nat option"

record ('x, 'r, 'e) ekt_ops =
  ekt_alloc :: "'e option \<Rightarrow> srtp_err_status_t \<times> 'e option"
  ekt_stream_init_from_policy :: "'e option \<Rightarrow> 'e option \<Rightarrow> srtp_err_status_t \<times> 'e option"
  ekt_write_data :: "'e \<Rightarrow> mem \<Rightarrow> int \<Rightarrow> int \<Rightarrow> int \<Rightarrow> 64 word \<Rightarrow> mem \<times> int"
  ekt_octets_after_base_tag :: "'e \<Rightarrow> int"
  stream_init_from_ekt ::
    "('x, 'r, 'e) srtp_stream_ctx_t \<Rightarrow> mem \<Rightarrow> int \<Rightarrow> srtp_err_status_t \<times> ('x, 'r, 'e) srtp_stream_ctx_t"

text \<open>
  The environment: the byte order of the host, the primitives, and the allocator.
  \<open>crypto_alloc n\<close> tells whether the \<open>n\<close>-th call of \<^verbatim>\<open>srtp_crypto_alloc\<close>
  succeeds; \<open>uninit_stream\<close> and \<open>uninit_limit\<close> are the contents of fresh memory.
\<close>

record ('c, 'a, 'l, 'x, 'r, 'e) env =
  host_le :: bool
  cops :: "'c cipher_ops"
  aops :: "'a auth_ops"
  xops :: "'x rdbx_ops"
  rops :: "'r rdb_ops"
  lops :: "'l limit_ops"
  eops :: "('x, 'r, 'e) ekt_ops"
  crypto_alloc :: "nat \<Rightarrow> bool"
  uninit_stream :: "('x, 'r, 'e) srtp_stream_ctx_t"
  uninit_limit :: 'l

text \<open>
  The state: the session, the stores of crypto objects with the next free address of
  each, the number of allocations made, and the events handed to the event handler
  (\<^verbatim>\<open>srtp_handle_event\<close> is a macro of srtp_priv.h; the model logs the event with
  the SSRC of its stream). Freed objects stay in their store.
\<close>

record ('c, 'a, 'l, 'x, 'r, 'e) world =
  session :: "('x, 'r, 'e) srtp_ctx_t"
  ciphers :: "nat \<Rightarrow> 'c srtp_cipher_t"
  n_ciphers :: nat
  auths :: "nat \<Rightarrow> 'a srtp_auth_t"
  n_auths :: nat
  limits :: "nat \<Rightarrow> 'l"
  n_limits :: nat
  n_allocs :: nat
  events :: "(srtp_event_t \<times> 32 word) list"

record packet =
  pkt_hdr :: mem
  pkt_octet_len :: int

text \<open>
  A pointer to a stream of the session points into the list or at the template.
\<close>

datatype stream_ref = in_list nat | in_template

fun stream_at :: "('x, 'r, 'e) srtp_ctx_t \<Rightarrow> stream_ref \<Rightarrow> ('x, 'r, 'e) srtp_stream_ctx_t" where
  "stream_at ctx (in_list i) = stream_list ctx ! i"
| "stream_at ctx in_template = the (stream_template ctx)"

fun upd_stream_at ::
  "stream_ref \<Rightarrow> (('x, 'r, 'e) srtp_stream_ctx_t \<Rightarrow> ('x, 'r, 'e) srtp_stream_ctx_t) \<Rightarrow>
   ('x, 'r, 'e) srtp_ctx_t \<Rightarrow> ('x, 'r, 'e) srtp_ctx_t" where
  "upd_stream_at (in_list i) f ctx = ctx\<lparr>stream_list := (stream_list ctx)[i := f (stream_list ctx ! i)]\<rparr>"
| "upd_stream_at in_template f ctx = ctx\<lparr>stream_template := map_option f (stream_template ctx)\<rparr>"

definition upd_stream ::
  "stream_ref \<Rightarrow> (('x, 'r, 'e) srtp_stream_ctx_t \<Rightarrow> ('x, 'r, 'e) srtp_stream_ctx_t) \<Rightarrow>
   ('c, 'a, 'l, 'x, 'r, 'e) world \<Rightarrow> ('c, 'a, 'l, 'x, 'r, 'e) world" where
  "upd_stream sref f w = w\<lparr>session := upd_stream_at sref f (session w)\<rparr>"

definition set_cipher_state :: "nat \<Rightarrow> 'c \<Rightarrow> ('c, 'a, 'l, 'x, 'r, 'e) world \<Rightarrow> ('c, 'a, 'l, 'x, 'r, 'e) world" where
  "set_cipher_state p c w = w\<lparr>ciphers := (ciphers w)(p := (ciphers w p)\<lparr>cipher_state := c\<rparr>)\<rparr>"

definition set_auth_state :: "nat \<Rightarrow> 'a \<Rightarrow> ('c, 'a, 'l, 'x, 'r, 'e) world \<Rightarrow> ('c, 'a, 'l, 'x, 'r, 'e) world" where
  "set_auth_state p a w = w\<lparr>auths := (auths w)(p := (auths w p)\<lparr>auth_state := a\<rparr>)\<rparr>"

definition srtp_handle_event ::
  "('c, 'a, 'l, 'x, 'r, 'e) world \<Rightarrow> ('x, 'r, 'e) srtp_stream_ctx_t \<Rightarrow> srtp_event_t \<Rightarrow>
   ('c, 'a, 'l, 'x, 'r, 'e) world" where
  "srtp_handle_event w stream ev = w\<lparr>events := events w @ [(ev, ssrc stream)]\<rparr>"

text \<open>
  \<open>srtp_get_stream\<close> walks the list and returns the first stream with the SSRC, as its
  position, or \<open>None\<close> for NULL.
\<close>

fun get_stream_from :: "('x, 'r, 'e) srtp_stream_ctx_t list \<Rightarrow> 32 word \<Rightarrow> nat \<Rightarrow> nat option" where
  "get_stream_from [] v i = None"
| "get_stream_from (s # ss) v i = (if ssrc s = v then Some i else get_stream_from ss v (Suc i))"

definition srtp_get_stream :: "('x, 'r, 'e) srtp_ctx_t \<Rightarrow> 32 word \<Rightarrow> nat option" where
  "srtp_get_stream srtp v = get_stream_from (stream_list srtp) v 0"

subsection \<open>The IV of the AEAD ciphers\<close>

text \<open>
  \<open>v128_t\<close> is a union of byte, 16-bit, 32-bit and 64-bit views of 16 bytes: the model
  keeps the 16 bytes, and an assignment to \<^verbatim>\<open>v16[k]\<close> or \<^verbatim>\<open>v32[k]\<close> stores the
  bytes of the value, in the byte order of the host, at offset \<open>2k\<close> or \<open>4k\<close>.
\<close>

definition srtp_calc_aead_iv ::
  "bool \<Rightarrow> ('x, 'r, 'e) srtp_stream_ctx_t \<Rightarrow> 64 word \<Rightarrow> mem \<Rightarrow> 8 word list" where
  "srtp_calc_aead_iv le stream seq hdr =
     (let local_roc = (ucast (drop_bit 16 seq) :: 32 word);
          local_seq = (ucast seq :: 16 word);
          in0 = replicate 16 0;
          salt0 = replicate 16 0;
          in1 = buf_write in0 10 (store16 le (htons le local_seq));
          local_roc = htonl le local_roc;
          in2 = buf_write in1 6 (store32 le local_roc);
          in3 = buf_write in2 2 (mem_read hdr 8 4);
          salt1 = buf_write salt0 0 (fit 12 (salt stream))
      in map2 (XOR) in3 salt1)"

definition srtp_calc_aead_iv_srtcp ::
  "bool \<Rightarrow> ('x, 'r, 'e) srtp_stream_ctx_t \<Rightarrow> 32 word \<Rightarrow> mem \<Rightarrow> 8 word list" where
  "srtp_calc_aead_iv_srtcp le stream seq_num hdr =
     (let in0 = replicate 16 0;
          salt0 = replicate 16 0;
          in1 = buf_write in0 0 (store16 le 0);
          in2 = buf_write in1 2 (mem_read hdr 4 4);
          in3 = buf_write in2 6 (store16 le 0);
          in4 = buf_write in3 8 (store32 le (0x7FFFFFFF AND htonl le seq_num));
          salt1 = buf_write salt0 0 (fit 12 (c_salt stream))
      in map2 (XOR) in4 salt1)"

text \<open>
  The IV as the spec words it (section 4.G, RTCP GCM): the bytes
  \<open>00 00 | SSRC | 00 00 | idx AND 0x7FFFFFFF\<close>, the index in network byte order,
  XORed with the 12 bytes of the RTCP salt.
\<close>

definition srtcp_aead_iv_spec :: "8 word list \<Rightarrow> 8 word list \<Rightarrow> 32 word \<Rightarrow> 8 word list" where
  "srtcp_aead_iv_spec ssrc_bytes salt12 idx =
     map2 (XOR) ([0, 0] @ ssrc_bytes @ [0, 0] @ be32 (idx AND 0x7FFFFFFF)) salt12"

subsection \<open>Allocating, keying and initialising a stream\<close>

text \<open>
  \<open>srtp_stream_alloc\<close> returns the status, the new stream and the state. On a
  failure the source deallocates what it has allocated so far and ignores the status of
  that; the objects stay in the stores of the model, and the stream that is returned
  with the failure is not used by the caller.
\<close>

definition store_cipher ::
  "'c srtp_cipher_t \<Rightarrow> ('c, 'a, 'l, 'x, 'r, 'e) world \<Rightarrow> ('c, 'a, 'l, 'x, 'r, 'e) world" where
  "store_cipher c w = w\<lparr>ciphers := (ciphers w)(n_ciphers w := c), n_ciphers := Suc (n_ciphers w)\<rparr>"

definition store_auth ::
  "'a srtp_auth_t \<Rightarrow> ('c, 'a, 'l, 'x, 'r, 'e) world \<Rightarrow> ('c, 'a, 'l, 'x, 'r, 'e) world" where
  "store_auth a w = w\<lparr>auths := (auths w)(n_auths w := a), n_auths := Suc (n_auths w)\<rparr>"

definition count_alloc :: "('c, 'a, 'l, 'x, 'r, 'e) world \<Rightarrow> ('c, 'a, 'l, 'x, 'r, 'e) world" where
  "count_alloc w = w\<lparr>n_allocs := Suc (n_allocs w)\<rparr>"

definition srtp_stream_alloc ::
  "('c, 'a, 'l, 'x, 'r, 'e) env \<Rightarrow> ('c, 'a, 'l, 'x, 'r, 'e) world \<Rightarrow> 'e srtp_policy_t \<Rightarrow>
   srtp_err_status_t \<times> ('x, 'r, 'e) srtp_stream_ctx_t \<times> ('c, 'a, 'l, 'x, 'r, 'e) world" where
  "srtp_stream_alloc E w p =
     (if \<not> crypto_alloc E (n_allocs w) then (srtp_err_status_alloc_fail, uninit_stream E, count_alloc w)
      else
        let w = count_alloc w;
            str = uninit_stream E;
            (stat, c) = c_alloc (cops E) (cipher_type (pol_rtp p)) (cipher_key_len (pol_rtp p))
                          (auth_tag_len (pol_rtp p))
        in if stat \<noteq> srtp_err_status_ok then (stat, str, w)
        else
          let str = str\<lparr>rtp_cipher := n_ciphers w\<rparr>;
              w = store_cipher c w;
              (stat, a) = a_alloc (aops E) (auth_type (pol_rtp p)) (auth_key_len (pol_rtp p))
                            (auth_tag_len (pol_rtp p))
          in if stat \<noteq> srtp_err_status_ok then (stat, str, w)
          else
            let str = str\<lparr>rtp_auth := n_auths w\<rparr>;
                w = store_auth a w
            in if \<not> crypto_alloc E (n_allocs w) then (srtp_err_status_alloc_fail, uninit_stream E, count_alloc w)
            else
              let str = str\<lparr>limit := n_limits w\<rparr>;
                  w = count_alloc (w\<lparr>limits := (limits w)(n_limits w := uninit_limit E),
                                     n_limits := Suc (n_limits w)\<rparr>);
                  (stat, c) = c_alloc (cops E) (cipher_type (pol_rtcp p))
                                (cipher_key_len (pol_rtcp p)) (auth_tag_len (pol_rtcp p))
              in if stat \<noteq> srtp_err_status_ok then (stat, str, w)
              else
                let str = str\<lparr>rtcp_cipher := n_ciphers w\<rparr>;
                    w = store_cipher c w;
                    (stat, a) = a_alloc (aops E) (auth_type (pol_rtcp p))
                                  (auth_key_len (pol_rtcp p)) (auth_tag_len (pol_rtcp p))
                in if stat \<noteq> srtp_err_status_ok then (stat, str, w)
                else
                  let str = str\<lparr>rtcp_auth := n_auths w\<rparr>;
                      w = store_auth a w;
                      (stat, e) = ekt_alloc (eops E) (pol_ekt p)
                  in if stat \<noteq> srtp_err_status_ok then (stat, str, w)
                  else (srtp_err_status_ok, str\<lparr>ekt := e\<rparr>, w))"

text \<open>
  \<open>srtp_stream_clone\<close>: the clone points to the ciphers, authenticators and key limit
  of the template and gets replay databases of its own. With a failure the source sets
  the result pointer to NULL; the model returns the template then, and no caller uses it.
\<close>

definition srtp_stream_clone ::
  "('c, 'a, 'l, 'x, 'r, 'e) env \<Rightarrow> ('c, 'a, 'l, 'x, 'r, 'e) world \<Rightarrow>
   ('x, 'r, 'e) srtp_stream_ctx_t \<Rightarrow> 32 word \<Rightarrow>
   srtp_err_status_t \<times> ('x, 'r, 'e) srtp_stream_ctx_t \<times> ('c, 'a, 'l, 'x, 'r, 'e) world" where
  "srtp_stream_clone E w template ssrc_v =
     (if \<not> crypto_alloc E (n_allocs w) then (srtp_err_status_alloc_fail, template, count_alloc w)
      else
        let w = count_alloc w;
            str = (uninit_stream E)\<lparr>rtp_cipher := rtp_cipher template,
                    rtp_auth := rtp_auth template,
                    rtcp_cipher := rtcp_cipher template,
                    rtcp_auth := rtcp_auth template\<rparr>;
            (status, lim) = key_limit_clone (lops E) (limit template)
        in if status \<noteq> srtp_err_status_ok then (status, template, w)
        else
          let str = str\<lparr>limit := lim\<rparr>;
              (status, x) = rdbx_init (xops E) (rtp_rdbx str)
                              (rdbx_get_window_size (xops E) (rtp_rdbx template))
          in if status \<noteq> srtp_err_status_ok then (status, template, w)
          else
            (srtp_err_status_ok,
             str\<lparr>rtp_rdbx := x,
                     rtcp_rdb := rdb_init (rops E) (rtcp_rdb str),
                     allow_repeat_tx := allow_repeat_tx template,
                     ssrc := ssrc_v,
                     direction := direction template,
                     rtp_services := rtp_services template,
                     rtcp_services := rtcp_services template,
                     ekt := ekt template,
                     salt := fit 12 (salt template),
                     c_salt := fit 12 (c_salt template)\<rparr>,
             w))"

subsubsection \<open>Key derivation\<close>

datatype srtp_prf_label =
    label_rtp_encryption
  | label_rtp_msg_auth
  | label_rtp_salt
  | label_rtcp_encryption
  | label_rtcp_msg_auth
  | label_rtcp_salt

fun label_byte :: "srtp_prf_label \<Rightarrow> 8 word" where
  "label_byte label_rtp_encryption = 0x00"
| "label_byte label_rtp_msg_auth = 0x01"
| "label_byte label_rtp_salt = 0x02"
| "label_byte label_rtcp_encryption = 0x03"
| "label_byte label_rtcp_msg_auth = 0x04"
| "label_byte label_rtcp_salt = 0x05"

text \<open>The key derivation context is the address of its cipher.\<close>

definition srtp_kdf_init ::
  "('c, 'a, 'l, 'x, 'r, 'e) env \<Rightarrow> ('c, 'a, 'l, 'x, 'r, 'e) world \<Rightarrow> srtp_cipher_type_id_t \<Rightarrow>
   8 word list \<Rightarrow> int \<Rightarrow> srtp_err_status_t \<times> nat \<times> ('c, 'a, 'l, 'x, 'r, 'e) world" where
  "srtp_kdf_init E w cipher_id key len =
     (let (stat, c) = c_alloc (cops E) cipher_id len 0
      in if stat \<noteq> srtp_err_status_ok then (stat, n_ciphers w, w)
      else
        let kdf = n_ciphers w;
            w = store_cipher c w;
            (stat, cs) = c_init (cops E) (ciphers w kdf) key;
            w = set_cipher_state kdf cs w
        in if stat \<noteq> srtp_err_status_ok then (stat, kdf, w)
           else (srtp_err_status_ok, kdf, w))"

text \<open>
  \<open>srtp_kdf_generate\<close> writes \<open>len\<close> bytes of key stream at offset \<open>off\<close> of the
  buffer \<open>key\<close>.
\<close>

definition srtp_kdf_generate ::
  "('c, 'a, 'l, 'x, 'r, 'e) env \<Rightarrow> ('c, 'a, 'l, 'x, 'r, 'e) world \<Rightarrow> nat \<Rightarrow> srtp_prf_label \<Rightarrow>
   8 word list \<Rightarrow> nat \<Rightarrow> int \<Rightarrow> srtp_err_status_t \<times> ('c, 'a, 'l, 'x, 'r, 'e) world \<times> 8 word list" where
  "srtp_kdf_generate E w kdf label key off len =
     (let nonce = (replicate 16 0)[7 := label_byte label];
          (status, cs) = c_set_iv (cops E) (ciphers w kdf) nonce direction_encrypt;
          w = set_cipher_state kdf cs w
      in if status \<noteq> srtp_err_status_ok then (status, w, key)
      else
        let key = buf_write key off (replicate (nat len) 0);
            (status, cs, out) = c_encrypt (cops E) (ciphers w kdf) (replicate (nat len) 0);
            w = set_cipher_state kdf cs w;
            key = buf_write key off out
        in if status \<noteq> srtp_err_status_ok then (status, w, key)
           else (srtp_err_status_ok, w, key))"

definition srtp_kdf_clear ::
  "('c, 'a, 'l, 'x, 'r, 'e) env \<Rightarrow> ('c, 'a, 'l, 'x, 'r, 'e) world \<Rightarrow> nat \<Rightarrow> srtp_err_status_t" where
  "srtp_kdf_clear E w kdf = c_dealloc (cops E) (ciphers w kdf)"

text \<open>
  \<open>srtp_stream_init_keys_rtcp\<close> is the second half of \<open>srtp_stream_init_keys\<close>, from
  the comment "now initialize SRTCP keys" to the return: it gets the key derivation
  context and the temporary key buffer of the first half.
\<close>

definition srtp_stream_init_keys_rtcp ::
  "('c, 'a, 'l, 'x, 'r, 'e) env \<Rightarrow> ('c, 'a, 'l, 'x, 'r, 'e) world \<Rightarrow>
   ('x, 'r, 'e) srtp_stream_ctx_t \<Rightarrow> nat \<Rightarrow> 8 word list \<Rightarrow> int \<Rightarrow>
   srtp_err_status_t \<times> ('x, 'r, 'e) srtp_stream_ctx_t \<times> ('c, 'a, 'l, 'x, 'r, 'e) world" where
  "srtp_stream_init_keys_rtcp E w srtp kdf tmp_key rtcp_keylen =
     (let rtcp_base_key_len =
            base_key_length (cipher_type_id (ciphers w (rtcp_cipher srtp))) rtcp_keylen;
          rtcp_salt_len = rtcp_keylen - rtcp_base_key_len;
          (stat, w, tmp_key) =
            srtp_kdf_generate E w kdf label_rtcp_encryption tmp_key 0 rtcp_base_key_len
      in if stat \<noteq> srtp_err_status_ok then (srtp_err_status_init_fail, srtp, w)
      else
        let (stat, w, tmp_key) =
              (if rtcp_salt_len > 0
               then srtp_kdf_generate E w kdf label_rtcp_salt tmp_key
                      (nat rtcp_base_key_len) rtcp_salt_len
               else (srtp_err_status_ok, w, tmp_key))
        in if stat \<noteq> srtp_err_status_ok then (srtp_err_status_init_fail, srtp, w)
        else
          let srtp = (if rtcp_salt_len > 0
                      then srtp\<lparr>c_salt := fit 12 (drop (nat rtcp_base_key_len) tmp_key)\<rparr>
                      else srtp);
              (stat, cs) = c_init (cops E) (ciphers w (rtcp_cipher srtp)) tmp_key;
              w = set_cipher_state (rtcp_cipher srtp) cs w
          in if stat \<noteq> srtp_err_status_ok then (srtp_err_status_init_fail, srtp, w)
          else
            let (stat, w, tmp_key) =
                  srtp_kdf_generate E w kdf label_rtcp_msg_auth tmp_key 0
                    (auth_key_length (auths w (rtcp_auth srtp)))
            in if stat \<noteq> srtp_err_status_ok then (srtp_err_status_init_fail, srtp, w)
            else
              let (stat, as) = a_init (aops E) (auths w (rtcp_auth srtp)) tmp_key;
                  w = set_auth_state (rtcp_auth srtp) as w
              in if stat \<noteq> srtp_err_status_ok then (srtp_err_status_init_fail, srtp, w)
              else if srtp_kdf_clear E w kdf \<noteq> srtp_err_status_ok
              then (srtp_err_status_init_fail, srtp, w)
              else (srtp_err_status_ok, srtp, w))"

definition srtp_stream_init_keys ::
  "('c, 'a, 'l, 'x, 'r, 'e) env \<Rightarrow> ('c, 'a, 'l, 'x, 'r, 'e) world \<Rightarrow>
   ('x, 'r, 'e) srtp_stream_ctx_t \<Rightarrow> 8 word list \<Rightarrow>
   srtp_err_status_t \<times> ('x, 'r, 'e) srtp_stream_ctx_t \<times> ('c, 'a, 'l, 'x, 'r, 'e) world" where
  "srtp_stream_init_keys E w srtp key =
     (let kdf_keylen = 30;
          rtp_keylen = key_len (ciphers w (rtp_cipher srtp));
          rtcp_keylen = key_len (ciphers w (rtcp_cipher srtp));
          rtp_base_key_len = base_key_length (cipher_type_id (ciphers w (rtp_cipher srtp))) rtp_keylen;
          rtp_salt_len = rtp_keylen - rtp_base_key_len;
          kdf_keylen = (if rtp_keylen > kdf_keylen then 46 else kdf_keylen);
          kdf_keylen = (if rtcp_keylen > kdf_keylen then 46 else kdf_keylen);
          tmp_key = buf_write (replicate 256 0) 0 (fit (nat (rtp_base_key_len + rtp_salt_len)) key);
          (stat, kdf, w) = srtp_kdf_init E w SRTP_AES_ICM tmp_key kdf_keylen
      in if stat \<noteq> srtp_err_status_ok then (srtp_err_status_init_fail, srtp, w)
      else
        let (stat, w, tmp_key) = srtp_kdf_generate E w kdf label_rtp_encryption tmp_key 0 rtp_base_key_len
        in if stat \<noteq> srtp_err_status_ok then (srtp_err_status_init_fail, srtp, w)
        else
          let (stat, w, tmp_key) =
                (if rtp_salt_len > 0
                 then srtp_kdf_generate E w kdf label_rtp_salt tmp_key (nat rtp_base_key_len) rtp_salt_len
                 else (srtp_err_status_ok, w, tmp_key))
          in if stat \<noteq> srtp_err_status_ok then (srtp_err_status_init_fail, srtp, w)
          else
            let srtp = (if rtp_salt_len > 0
                        then srtp\<lparr>salt := fit 12 (drop (nat rtp_base_key_len) tmp_key)\<rparr> else srtp);
                (stat, cs) = c_init (cops E) (ciphers w (rtp_cipher srtp)) tmp_key;
                w = set_cipher_state (rtp_cipher srtp) cs w
            in if stat \<noteq> srtp_err_status_ok then (srtp_err_status_init_fail, srtp, w)
            else
              let (stat, w, tmp_key) =
                    srtp_kdf_generate E w kdf label_rtp_msg_auth tmp_key 0
                      (auth_key_length (auths w (rtp_auth srtp)))
              in if stat \<noteq> srtp_err_status_ok then (srtp_err_status_init_fail, srtp, w)
              else
                let (stat, as) = a_init (aops E) (auths w (rtp_auth srtp)) tmp_key;
                    w = set_auth_state (rtp_auth srtp) as w
                in if stat \<noteq> srtp_err_status_ok then (srtp_err_status_init_fail, srtp, w)
                   else srtp_stream_init_keys_rtcp E w srtp kdf tmp_key rtcp_keylen)"

text \<open>
  \<open>srtp_stream_init\<close>. The master key of the policy is a pointer; a NULL key gives no
  bytes. The window size of the policy is an unsigned long.
\<close>

definition key_bytes :: "'e srtp_policy_t \<Rightarrow> 8 word list" where
  "key_bytes p = (case pol_key p of None \<Rightarrow> [] | Some k \<Rightarrow> k)"

definition srtp_stream_init ::
  "('c, 'a, 'l, 'x, 'r, 'e) env \<Rightarrow> ('c, 'a, 'l, 'x, 'r, 'e) world \<Rightarrow>
   ('x, 'r, 'e) srtp_stream_ctx_t \<Rightarrow> 'e srtp_policy_t \<Rightarrow>
   srtp_err_status_t \<times> ('x, 'r, 'e) srtp_stream_ctx_t \<times> ('c, 'a, 'l, 'x, 'r, 'e) world" where
  "srtp_stream_init E w srtp p =
     (if pol_window_size p \<noteq> 0 \<and> (pol_window_size p < 64 \<or> pol_window_size p \<ge> 0x8000)
      then (srtp_err_status_bad_param, srtp, w)
      else
        let (err, x) = (if pol_window_size p \<noteq> 0
                        then rdbx_init (xops E) (rtp_rdbx srtp) (pol_window_size p)
                        else rdbx_init (xops E) (rtp_rdbx srtp) 128);
            srtp = srtp\<lparr>rtp_rdbx := x\<rparr>
        in if err \<noteq> srtp_err_status_ok then (err, srtp, w)
        else
          let w = w\<lparr>limits := (limits w)(limit srtp :=
                      key_limit_set (lops E) (limits w (limit srtp)) 0xffffffffffff)\<rparr>;
              srtp = srtp\<lparr>ssrc := htonl (host_le E) (ssrc_value (pol_ssrc p)),
                       rtp_services := sec_serv (pol_rtp p),
                       rtcp_services := sec_serv (pol_rtcp p),
                       direction := dir_unknown,
                       rtcp_rdb := rdb_init (rops E) (rtcp_rdb srtp)\<rparr>
          in if pol_allow_repeat_tx p \<noteq> 0 \<and> pol_allow_repeat_tx p \<noteq> 1
             then (srtp_err_status_bad_param,
                   srtp\<lparr>rtp_rdbx := snd (rdbx_dealloc (xops E) (rtp_rdbx srtp))\<rparr>, w)
             else
               let srtp = srtp\<lparr>allow_repeat_tx := pol_allow_repeat_tx p\<rparr>;
                   (err, srtp, w) = srtp_stream_init_keys E w srtp (key_bytes p)
               in if err \<noteq> srtp_err_status_ok
                  then (err, srtp\<lparr>rtp_rdbx := snd (rdbx_dealloc (xops E) (rtp_rdbx srtp))\<rparr>, w)
                  else
                    let (err, e) = ekt_stream_init_from_policy (eops E) (ekt srtp) (pol_ekt p);
                        srtp = srtp\<lparr>ekt := e\<rparr>
                    in if err \<noteq> srtp_err_status_ok
                       then (err, srtp\<lparr>rtp_rdbx := snd (rdbx_dealloc (xops E) (rtp_rdbx srtp))\<rparr>, w)
                       else (srtp_err_status_ok, srtp, w))"

subsection \<open>The primitives on the stored objects\<close>

text \<open>
  The calls of the source on a cipher or an authenticator of a stream: the primitive
  runs on the object at the address and its new internal state is stored there.
  \<open>auth_compute\<close> leaves \<open>out_len\<close> bytes in the tag buffer.
\<close>

definition srtp_cipher_set_iv ::
  "('c, 'a, 'l, 'x, 'r, 'e) env \<Rightarrow> ('c, 'a, 'l, 'x, 'r, 'e) world \<Rightarrow> nat \<Rightarrow> 8 word list \<Rightarrow>
   srtp_cipher_direction_t \<Rightarrow> srtp_err_status_t \<times> ('c, 'a, 'l, 'x, 'r, 'e) world" where
  "srtp_cipher_set_iv E w c iv dir =
     (let (st, cs) = c_set_iv (cops E) (ciphers w c) iv dir in (st, set_cipher_state c cs w))"

definition srtp_cipher_set_aad ::
  "('c, 'a, 'l, 'x, 'r, 'e) env \<Rightarrow> ('c, 'a, 'l, 'x, 'r, 'e) world \<Rightarrow> nat \<Rightarrow> 8 word list \<Rightarrow>
   srtp_err_status_t \<times> ('c, 'a, 'l, 'x, 'r, 'e) world" where
  "srtp_cipher_set_aad E w c aad =
     (let (st, cs) = c_set_aad (cops E) (ciphers w c) aad in (st, set_cipher_state c cs w))"

definition srtp_cipher_encrypt ::
  "('c, 'a, 'l, 'x, 'r, 'e) env \<Rightarrow> ('c, 'a, 'l, 'x, 'r, 'e) world \<Rightarrow> nat \<Rightarrow> 8 word list \<Rightarrow>
   srtp_err_status_t \<times> ('c, 'a, 'l, 'x, 'r, 'e) world \<times> 8 word list" where
  "srtp_cipher_encrypt E w c buf =
     (let (st, cs, out) = c_encrypt (cops E) (ciphers w c) buf in (st, set_cipher_state c cs w, out))"

definition srtp_cipher_decrypt ::
  "('c, 'a, 'l, 'x, 'r, 'e) env \<Rightarrow> ('c, 'a, 'l, 'x, 'r, 'e) world \<Rightarrow> nat \<Rightarrow> 8 word list \<Rightarrow>
   srtp_err_status_t \<times> ('c, 'a, 'l, 'x, 'r, 'e) world \<times> 8 word list" where
  "srtp_cipher_decrypt E w c buf =
     (let (st, cs, out) = c_decrypt (cops E) (ciphers w c) buf in (st, set_cipher_state c cs w, out))"

definition srtp_cipher_output ::
  "('c, 'a, 'l, 'x, 'r, 'e) env \<Rightarrow> ('c, 'a, 'l, 'x, 'r, 'e) world \<Rightarrow> nat \<Rightarrow> int \<Rightarrow>
   srtp_err_status_t \<times> ('c, 'a, 'l, 'x, 'r, 'e) world \<times> 8 word list" where
  "srtp_cipher_output E w c len =
     (let (st, cs, out) = c_output (cops E) (ciphers w c) len in (st, set_cipher_state c cs w, out))"

definition srtp_cipher_get_tag ::
  "('c, 'a, 'l, 'x, 'r, 'e) env \<Rightarrow> ('c, 'a, 'l, 'x, 'r, 'e) world \<Rightarrow> nat \<Rightarrow> int \<Rightarrow>
   srtp_err_status_t \<times> ('c, 'a, 'l, 'x, 'r, 'e) world \<times> 8 word list" where
  "srtp_cipher_get_tag E w c len =
     (let (st, cs, out) = c_get_tag (cops E) (ciphers w c) len in (st, set_cipher_state c cs w, out))"

definition auth_start ::
  "('c, 'a, 'l, 'x, 'r, 'e) env \<Rightarrow> ('c, 'a, 'l, 'x, 'r, 'e) world \<Rightarrow> nat \<Rightarrow>
   srtp_err_status_t \<times> ('c, 'a, 'l, 'x, 'r, 'e) world" where
  "auth_start E w a = (let (st, as) = a_start (aops E) (auths w a) in (st, set_auth_state a as w))"

definition auth_update ::
  "('c, 'a, 'l, 'x, 'r, 'e) env \<Rightarrow> ('c, 'a, 'l, 'x, 'r, 'e) world \<Rightarrow> nat \<Rightarrow> 8 word list \<Rightarrow>
   srtp_err_status_t \<times> ('c, 'a, 'l, 'x, 'r, 'e) world" where
  "auth_update E w a buf =
     (let (st, as) = a_update (aops E) (auths w a) buf in (st, set_auth_state a as w))"

definition auth_compute ::
  "('c, 'a, 'l, 'x, 'r, 'e) env \<Rightarrow> ('c, 'a, 'l, 'x, 'r, 'e) world \<Rightarrow> nat \<Rightarrow> 8 word list \<Rightarrow>
   srtp_err_status_t \<times> ('c, 'a, 'l, 'x, 'r, 'e) world \<times> 8 word list" where
  "auth_compute E w a buf =
     (let (st, as, tag) = a_compute (aops E) (auths w a) buf
      in (st, set_auth_state a as w, fit (nat (out_len (auths w a))) tag))"

definition srtp_key_limit_update ::
  "('c, 'a, 'l, 'x, 'r, 'e) env \<Rightarrow> ('c, 'a, 'l, 'x, 'r, 'e) world \<Rightarrow> nat \<Rightarrow>
   srtp_key_event_t \<times> ('c, 'a, 'l, 'x, 'r, 'e) world" where
  "srtp_key_limit_update E w l =
     (let (ev, l') = key_limit_update (lops E) (limits w l) in (ev, w\<lparr>limits := (limits w)(l := l')\<rparr>))"

text \<open>
  Modelled from the spec: the EKT hooks of ekt.c, which is not under src. EKT is outside
  the spec (section 1: only its hooks are acknowledged); the source performs "EKT
  processing if needed", so with no EKT data on the stream (a NULL pointer) a hook does
  nothing and no octets follow the base tag. With EKT data the hook is a parameter.
\<close>

definition srtp_ekt_write_data ::
  "('c, 'a, 'l, 'x, 'r, 'e) env \<Rightarrow> 'e option \<Rightarrow> mem \<Rightarrow> int \<Rightarrow> int \<Rightarrow> int \<Rightarrow> 64 word \<Rightarrow> mem \<times> int" where
  "srtp_ekt_write_data E ek hdr base_tag base_tag_len packet_len pkt_index =
     (case ek of None \<Rightarrow> (hdr, packet_len)
      | Some e \<Rightarrow> ekt_write_data (eops E) e hdr base_tag base_tag_len packet_len pkt_index)"

definition srtp_ekt_octets_after_base_tag :: "('c, 'a, 'l, 'x, 'r, 'e) env \<Rightarrow> 'e option \<Rightarrow> int" where
  "srtp_ekt_octets_after_base_tag E ek =
     (case ek of None \<Rightarrow> 0 | Some e \<Rightarrow> ekt_octets_after_base_tag (eops E) e)"

subsection \<open>Steps that the four data paths share\<close>

text \<open>
  The source repeats these steps in each function; the model names them once.
  \<open>rtp_enc_start\<close> is the offset of the encrypted portion of an RTP packet: after the
  CSRCs and, with the X bit, after the header extension. \<open>pin_direction\<close> is the check
  of the direction of a stream: an unknown direction is set, another one is reported
  as an SSRC collision. \<open>clone_if_template\<close> is the promotion of the provisional
  stream on the receive paths: a clone of the template is put at the head of the list.
\<close>

definition rtp_enc_start :: "bool \<Rightarrow> mem \<Rightarrow> int" where
  "rtp_enc_start le hdr =
     (let enc_start = 12 + 4 * hdr_cc hdr
      in if hdr_x hdr = 1
         then enc_start + 4 * (uint (ntohs le (xtn_hdr_length le hdr enc_start)) + 1)
         else enc_start)"

definition pin_direction ::
  "direction_t \<Rightarrow> stream_ref \<Rightarrow> ('c, 'a, 'l, 'x, 'r, 'e) world \<Rightarrow> ('c, 'a, 'l, 'x, 'r, 'e) world" where
  "pin_direction d sref w =
     (let stream = stream_at (session w) sref
      in if direction stream \<noteq> d
         then (if direction stream = dir_unknown
               then upd_stream sref (\<lambda>s. s\<lparr>direction := d\<rparr>) w
               else srtp_handle_event w stream event_ssrc_collision)
         else w)"

definition push_stream ::
  "('x, 'r, 'e) srtp_stream_ctx_t \<Rightarrow> ('c, 'a, 'l, 'x, 'r, 'e) world \<Rightarrow> ('c, 'a, 'l, 'x, 'r, 'e) world" where
  "push_stream new_stream w =
     w\<lparr>session := (session w)\<lparr>stream_list := new_stream # stream_list (session w)\<rparr>\<rparr>"

fun clone_if_template ::
  "('c, 'a, 'l, 'x, 'r, 'e) env \<Rightarrow> ('c, 'a, 'l, 'x, 'r, 'e) world \<Rightarrow> stream_ref \<Rightarrow> 32 word \<Rightarrow>
   srtp_err_status_t \<times> ('c, 'a, 'l, 'x, 'r, 'e) world \<times> stream_ref" where
  "clone_if_template E w (in_list i) v = (srtp_err_status_ok, w, in_list i)"
| "clone_if_template E w in_template v =
     (let (status, new_stream, w) = srtp_stream_clone E w (stream_at (session w) in_template) v
      in if status \<noteq> srtp_err_status_ok then (status, w, in_template)
         else (srtp_err_status_ok, push_stream new_stream w, in_list 0))"

definition is_aead :: "srtp_cipher_type_id_t \<Rightarrow> bool" where
  "is_aead alg = (alg = SRTP_AES_128_GCM \<or> alg = SRTP_AES_256_GCM)"

subsection \<open>Protecting and unprotecting RTP\<close>

definition srtp_protect_aead ::
  "('c, 'a, 'l, 'x, 'r, 'e) env \<Rightarrow> ('c, 'a, 'l, 'x, 'r, 'e) world \<Rightarrow> stream_ref \<Rightarrow> packet \<Rightarrow>
   srtp_err_status_t \<times> ('c, 'a, 'l, 'x, 'r, 'e) world \<times> packet" where
  "srtp_protect_aead E w sref pk =
     (let le = host_le E;
          hdr = pkt_hdr pk;
          stream = stream_at (session w) sref;
          (ev, w) = srtp_key_limit_update E w (limit stream)
      in if ev = srtp_key_event_hard_limit
         then (srtp_err_status_key_expired, srtp_handle_event w stream event_key_hard_limit, pk)
      else
        let w = (if ev = srtp_key_event_normal then w
                 else srtp_handle_event w stream event_key_soft_limit);
            tag_len = out_len (auths w (rtp_auth stream));
            enc_start = rtp_enc_start le hdr
        in if \<not> enc_start < pkt_octet_len pk then (srtp_err_status_parse_err, w, pk)
        else
          let enc_octet_len = pkt_octet_len pk - enc_start;
              (delta, est) = rdbx_estimate_index (xops E) (rtp_rdbx stream) (ntohs le (hdr_seq le hdr));
              status = rdbx_check (xops E) (rtp_rdbx stream) delta
          in if status \<noteq> srtp_err_status_ok \<and>
                (status \<noteq> srtp_err_status_replay_fail \<or> allow_repeat_tx stream = 0)
             then (status, w, pk)
          else
            let w = (if status = srtp_err_status_ok
                     then upd_stream sref (\<lambda>s. s\<lparr>rtp_rdbx := rdbx_add_index (xops E) (rtp_rdbx s) delta\<rparr>) w
                     else w);
                iv = srtp_calc_aead_iv le stream est hdr;
                (status, w) = srtp_cipher_set_iv E w (rtp_cipher stream) iv direction_encrypt
            in if status \<noteq> srtp_err_status_ok then (srtp_err_status_cipher_fail, w, pk)
            else
              let aad_len = enc_start;
                  (status, w) = srtp_cipher_set_aad E w (rtp_cipher stream) (mem_read hdr 0 aad_len)
              in if status \<noteq> srtp_err_status_ok then (srtp_err_status_cipher_fail, w, pk)
              else
                let (status, w, out) =
                      srtp_cipher_encrypt E w (rtp_cipher stream) (mem_read hdr enc_start enc_octet_len);
                    hdr = mem_write hdr enc_start out;
                    enc_octet_len = int (length out);
                    pk = pk\<lparr>pkt_hdr := hdr\<rparr>
                in if status \<noteq> srtp_err_status_ok then (srtp_err_status_cipher_fail, w, pk)
                else
                  let (status, w, tag) = srtp_cipher_get_tag E w (rtp_cipher stream) tag_len;
                      hdr = mem_write hdr (enc_start + enc_octet_len) tag;
                      tag_len = int (length tag);
                      pk = pk\<lparr>pkt_hdr := hdr\<rparr>
                  in if status \<noteq> srtp_err_status_ok then (srtp_err_status_cipher_fail, w, pk)
                     else (srtp_err_status_ok, w, pk\<lparr>pkt_octet_len := pkt_octet_len pk + tag_len\<rparr>))"

definition srtp_unprotect_aead ::
  "('c, 'a, 'l, 'x, 'r, 'e) env \<Rightarrow> ('c, 'a, 'l, 'x, 'r, 'e) world \<Rightarrow> stream_ref \<Rightarrow> int \<Rightarrow> 64 word \<Rightarrow>
   packet \<Rightarrow> srtp_err_status_t \<times> ('c, 'a, 'l, 'x, 'r, 'e) world \<times> packet" where
  "srtp_unprotect_aead E w sref delta est pk =
     (let le = host_le E;
          hdr = pkt_hdr pk;
          stream = stream_at (session w) sref;
          tag_len = out_len (auths w (rtp_auth stream));
          iv = srtp_calc_aead_iv le stream est hdr;
          (status, w) = srtp_cipher_set_iv E w (rtp_cipher stream) iv direction_decrypt
      in if status \<noteq> srtp_err_status_ok then (srtp_err_status_cipher_fail, w, pk)
      else
        let enc_start = rtp_enc_start le hdr
        in if \<not> enc_start < pkt_octet_len pk then (srtp_err_status_parse_err, w, pk)
        else
          let enc_octet_len = pkt_octet_len pk - enc_start
          in if enc_octet_len < tag_len then (srtp_err_status_cipher_fail, w, pk)
          else
            let (ev, w) = srtp_key_limit_update E w (limit stream)
            in if ev = srtp_key_event_hard_limit
               then (srtp_err_status_key_expired, srtp_handle_event w stream event_key_hard_limit, pk)
            else
              let w = (if ev = srtp_key_event_soft_limit
                       then srtp_handle_event w stream event_key_soft_limit else w);
                  aad_len = enc_start;
                  (status, w) = srtp_cipher_set_aad E w (rtp_cipher stream) (mem_read hdr 0 aad_len)
              in if status \<noteq> srtp_err_status_ok then (srtp_err_status_cipher_fail, w, pk)
              else
                let (status, w, out) =
                      srtp_cipher_decrypt E w (rtp_cipher stream) (mem_read hdr enc_start enc_octet_len);
                    hdr = mem_write hdr enc_start out;
                    pk = pk\<lparr>pkt_hdr := hdr\<rparr>
                in if status \<noteq> srtp_err_status_ok then (status, w, pk)
                else
                  let w = pin_direction dir_srtp_receiver sref w;
                      (status, w, sref) = clone_if_template E w sref (hdr_ssrc le hdr)
                  in if status \<noteq> srtp_err_status_ok then (status, w, pk)
                  else
                    let w = upd_stream sref
                              (\<lambda>s. s\<lparr>rtp_rdbx := rdbx_add_index (xops E) (rtp_rdbx s) delta\<rparr>) w
                    in (srtp_err_status_ok, w, pk\<lparr>pkt_octet_len := pkt_octet_len pk - tag_len\<rparr>))"

text \<open>
  The IV of the counter mode ciphers and of the others, for RTP: \<^verbatim>\<open>iv.v32[0] = 0\<close>,
  \<^verbatim>\<open>iv.v32[1] = hdr->ssrc\<close>, \<^verbatim>\<open>iv.v64[1] = be64_to_cpu(est << 16)\<close>, and
  \<^verbatim>\<open>iv.v64[0] = 0\<close>, \<^verbatim>\<open>iv.v64[1] = be64_to_cpu(est)\<close>.
\<close>

definition rtp_iv :: "bool \<Rightarrow> srtp_cipher_type_id_t \<Rightarrow> mem \<Rightarrow> 64 word \<Rightarrow> 8 word list" where
  "rtp_iv le type_id hdr est =
     (if type_id = SRTP_AES_ICM \<or> type_id = SRTP_AES_256_ICM
      then store32 le 0 @ store32 le (hdr_ssrc le hdr) @ store64 le (be64_to_cpu le (push_bit 16 est))
      else store64 le 0 @ store64 le (be64_to_cpu le est))"

definition srtp_protect ::
  "('c, 'a, 'l, 'x, 'r, 'e) env \<Rightarrow> ('c, 'a, 'l, 'x, 'r, 'e) world \<Rightarrow> packet \<Rightarrow>
   srtp_err_status_t \<times> ('c, 'a, 'l, 'x, 'r, 'e) world \<times> packet" where
  "srtp_protect E w pk =
     (let le = host_le E;
          hdr = pkt_hdr pk;
          status = srtp_validate_rtp_header le hdr (pkt_octet_len pk)
      in if status \<noteq> srtp_err_status_ok then (status, w, pk)
      else if pkt_octet_len pk < 12 then (srtp_err_status_bad_param, w, pk)
      else
        let (status, w, sref) =
              (case srtp_get_stream (session w) (hdr_ssrc le hdr) of
                 Some i \<Rightarrow> (srtp_err_status_ok, w, in_list i)
               | None \<Rightarrow>
                   (case stream_template (session w) of
                      Some template \<Rightarrow>
                        (let (status, new_stream, w) = srtp_stream_clone E w template (hdr_ssrc le hdr)
                         in if status \<noteq> srtp_err_status_ok then (status, w, in_template)
                            else (srtp_err_status_ok,
                                  upd_stream (in_list 0) (\<lambda>s. s\<lparr>direction := dir_srtp_sender\<rparr>)
                                    (push_stream new_stream w),
                                  in_list 0))
                    | None \<Rightarrow> (srtp_err_status_no_ctx, w, in_template)))
        in if status \<noteq> srtp_err_status_ok then (status, w, pk)
        else
          let w = pin_direction dir_srtp_sender sref w;
              stream = stream_at (session w) sref
          in if is_aead (algorithm (ciphers w (rtp_cipher stream)))
             then srtp_protect_aead E w sref pk
          else
            let (ev, w) = srtp_key_limit_update E w (limit stream)
            in if ev = srtp_key_event_hard_limit
               then (srtp_err_status_key_expired, srtp_handle_event w stream event_key_hard_limit, pk)
            else
              let w = (if ev = srtp_key_event_soft_limit
                       then srtp_handle_event w stream event_key_soft_limit else w);
                  tag_len = out_len (auths w (rtp_auth stream));
                  conf = serv_and (rtp_services stream) sec_serv_conf;
                  enc_start = rtp_enc_start le hdr
              in if conf \<and> hdr_x hdr = 1 \<and> \<not> enc_start < pkt_octet_len pk
                 then (srtp_err_status_parse_err, w, pk)
              else
                let enc_octet_len = (if conf then (pkt_octet_len pk - enc_start) mod 2 ^ 32 else 0);
                    auth = serv_and (rtp_services stream) sec_serv_auth;
                    auth_tag = pkt_octet_len pk;
                    (delta, est) = rdbx_estimate_index (xops E) (rtp_rdbx stream) (ntohs le (hdr_seq le hdr));
                    status = rdbx_check (xops E) (rtp_rdbx stream) delta
                in if status \<noteq> srtp_err_status_ok \<and>
                      (status \<noteq> srtp_err_status_replay_fail \<or> allow_repeat_tx stream = 0)
                   then (status, w, pk)
                else
                  let w = (if status = srtp_err_status_ok
                           then upd_stream sref
                                  (\<lambda>s. s\<lparr>rtp_rdbx := rdbx_add_index (xops E) (rtp_rdbx s) delta\<rparr>) w
                           else w);
                      iv = rtp_iv le (cipher_type_id (ciphers w (rtp_cipher stream))) hdr est;
                      (status, w) = srtp_cipher_set_iv E w (rtp_cipher stream) iv direction_encrypt
                  in if status \<noteq> srtp_err_status_ok then (srtp_err_status_cipher_fail, w, pk)
                  else
                    let est = be64_to_cpu le (push_bit 16 est);
                        prefix_len = prefix_len (auths w (rtp_auth stream));
                        (status, w, hdr) =
                          (if auth \<and> prefix_len \<noteq> 0
                           then (let (status, w, out) = srtp_cipher_output E w (rtp_cipher stream) prefix_len
                                 in (status, w, mem_write hdr auth_tag out))
                           else (srtp_err_status_ok, w, hdr));
                        pk = pk\<lparr>pkt_hdr := hdr\<rparr>
                    in if status \<noteq> srtp_err_status_ok then (srtp_err_status_cipher_fail, w, pk)
                    else
                      let (status, w, hdr) =
                            (if conf
                             then (let (status, w, out) =
                                         srtp_cipher_encrypt E w (rtp_cipher stream)
                                           (mem_read hdr enc_start enc_octet_len)
                                   in (status, w, mem_write hdr enc_start out))
                             else (srtp_err_status_ok, w, hdr));
                          pk = pk\<lparr>pkt_hdr := hdr\<rparr>
                      in if status \<noteq> srtp_err_status_ok then (srtp_err_status_cipher_fail, w, pk)
                      else if \<not> auth then (srtp_err_status_ok, w, pk)
                      else
                        let (status, w) = auth_start E w (rtp_auth stream)
                        in if status \<noteq> srtp_err_status_ok then (status, w, pk)
                        else
                          let (status, w) =
                                auth_update E w (rtp_auth stream) (mem_read hdr 0 (pkt_octet_len pk))
                          in if status \<noteq> srtp_err_status_ok then (status, w, pk)
                          else
                            let (status, w, tag) =
                                  auth_compute E w (rtp_auth stream) (take 4 (store64 le est));
                                pk = pk\<lparr>pkt_hdr := mem_write hdr auth_tag tag\<rparr>
                            in if status \<noteq> srtp_err_status_ok then (srtp_err_status_auth_fail, w, pk)
                               else (srtp_err_status_ok, w,
                                     pk\<lparr>pkt_octet_len := pkt_octet_len pk + tag_len\<rparr>))"

text \<open>
  \<open>srtp_unprotect_finish\<close> is the end of \<open>srtp_unprotect\<close>, from the update of the
  key limit after the check of the tag to the return.
\<close>

definition srtp_unprotect_finish ::
  "('c, 'a, 'l, 'x, 'r, 'e) env \<Rightarrow> ('c, 'a, 'l, 'x, 'r, 'e) world \<Rightarrow> stream_ref \<Rightarrow> int \<Rightarrow> int \<Rightarrow>
   int option \<Rightarrow> int \<Rightarrow> packet \<Rightarrow> srtp_err_status_t \<times> ('c, 'a, 'l, 'x, 'r, 'e) world \<times> packet" where
  "srtp_unprotect_finish E w sref delta tag_len enc_start enc_octet_len pk =
     (let le = host_le E;
          hdr = pkt_hdr pk;
          stream = stream_at (session w) sref;
          (ev, w) = srtp_key_limit_update E w (limit stream)
      in if ev = srtp_key_event_hard_limit
         then (srtp_err_status_key_expired, srtp_handle_event w stream event_key_hard_limit, pk)
      else
        let w = (if ev = srtp_key_event_soft_limit
                 then srtp_handle_event w stream event_key_soft_limit else w);
            (status, w, hdr) =
              (case enc_start of
                 Some e \<Rightarrow>
                   (let (status, w, out) =
                          srtp_cipher_decrypt E w (rtp_cipher stream) (mem_read hdr e enc_octet_len)
                    in (status, w, mem_write hdr e out))
               | None \<Rightarrow> (srtp_err_status_ok, w, hdr));
            pk = pk\<lparr>pkt_hdr := hdr\<rparr>
        in if status \<noteq> srtp_err_status_ok then (srtp_err_status_cipher_fail, w, pk)
        else
          let w = pin_direction dir_srtp_receiver sref w;
              (status, w, sref) = clone_if_template E w sref (hdr_ssrc le hdr)
          in if status \<noteq> srtp_err_status_ok then (status, w, pk)
          else
            let w = upd_stream sref
                      (\<lambda>s. s\<lparr>rtp_rdbx := rdbx_add_index (xops E) (rtp_rdbx s) delta\<rparr>) w
            in (srtp_err_status_ok, w, pk\<lparr>pkt_octet_len := pkt_octet_len pk - tag_len\<rparr>))"

definition srtp_unprotect ::
  "('c, 'a, 'l, 'x, 'r, 'e) env \<Rightarrow> ('c, 'a, 'l, 'x, 'r, 'e) world \<Rightarrow> packet \<Rightarrow>
   srtp_err_status_t \<times> ('c, 'a, 'l, 'x, 'r, 'e) world \<times> packet" where
  "srtp_unprotect E w pk =
     (let le = host_le E;
          hdr = pkt_hdr pk;
          status = srtp_validate_rtp_header le hdr (pkt_octet_len pk)
      in if status \<noteq> srtp_err_status_ok then (status, w, pk)
      else if pkt_octet_len pk < 12 then (srtp_err_status_bad_param, w, pk)
      else
        let (status, sref, delta, est) =
              (case srtp_get_stream (session w) (hdr_ssrc le hdr) of
                 None \<Rightarrow>
                   (case stream_template (session w) of
                      Some template \<Rightarrow>
                        (let est = (ucast (ntohs le (hdr_seq le hdr)) :: 64 word)
                         in (srtp_err_status_ok, in_template, uint est, est))
                    | None \<Rightarrow> (srtp_err_status_no_ctx, in_template, 0, 0))
               | Some i \<Rightarrow>
                   (let stream = stream_at (session w) (in_list i);
                        (delta, est) =
                          rdbx_estimate_index (xops E) (rtp_rdbx stream) (ntohs le (hdr_seq le hdr))
                    in (rdbx_check (xops E) (rtp_rdbx stream) delta, in_list i, delta, est)))
        in if status \<noteq> srtp_err_status_ok then (status, w, pk)
        else
          let stream = stream_at (session w) sref
          in if is_aead (algorithm (ciphers w (rtp_cipher stream)))
             then srtp_unprotect_aead E w sref delta est pk
          else
            let tag_len = out_len (auths w (rtp_auth stream));
                iv = rtp_iv le (cipher_type_id (ciphers w (rtp_cipher stream))) hdr est;
                (status, w) = srtp_cipher_set_iv E w (rtp_cipher stream) iv direction_decrypt
            in if status \<noteq> srtp_err_status_ok then (srtp_err_status_cipher_fail, w, pk)
            else
              let est = be64_to_cpu le (push_bit 16 est);
                  conf = serv_and (rtp_services stream) sec_serv_conf;
                  enc_start = rtp_enc_start le hdr
              in if conf \<and> \<not> enc_start < pkt_octet_len pk then (srtp_err_status_parse_err, w, pk)
              else
                let enc_octet_len =
                      (if conf then (pkt_octet_len pk - tag_len - enc_start) mod 2 ^ 32 else 0);
                    auth = serv_and (rtp_services stream) sec_serv_auth;
                    auth_tag = pkt_octet_len pk - tag_len
                in if \<not> auth
                   then srtp_unprotect_finish E w sref delta tag_len
                          (if conf then Some enc_start else None) enc_octet_len pk
                else
                  let (status, w) =
                        (if prefix_len (auths w (rtp_auth stream)) \<noteq> 0
                         then (let (status, w, out) =
                                     srtp_cipher_output E w (rtp_cipher stream)
                                       (prefix_len (auths w (rtp_auth stream)))
                               in (status, w))
                         else (srtp_err_status_ok, w))
                  in if status \<noteq> srtp_err_status_ok then (srtp_err_status_cipher_fail, w, pk)
                  else
                    let (status, w) = auth_start E w (rtp_auth stream)
                    in if status \<noteq> srtp_err_status_ok then (status, w, pk)
                    else
                      let (status, w) =
                            auth_update E w (rtp_auth stream) (mem_read hdr 0 (pkt_octet_len pk - tag_len));
                          (status, w, tmp_tag) =
                            auth_compute E w (rtp_auth stream) (take 4 (store64 le est))
                      in if status \<noteq> srtp_err_status_ok then (srtp_err_status_auth_fail, w, pk)
                      else if octet_string_is_eq tmp_tag (mem_read hdr auth_tag tag_len) tag_len
                      then (srtp_err_status_auth_fail, w, pk)
                      else srtp_unprotect_finish E w sref delta tag_len
                             (if conf then Some enc_start else None) enc_octet_len pk)"

subsection \<open>Protecting and unprotecting RTCP\<close>

text \<open>
  The IV of the counter mode cipher and of the others, for RTCP: \<^verbatim>\<open>iv.v32[0] = 0\<close>,
  \<^verbatim>\<open>iv.v32[1] = hdr->ssrc\<close>, \<^verbatim>\<open>iv.v32[2] = htonl(seq_num >> 16)\<close>,
  \<^verbatim>\<open>iv.v32[3] = htonl(seq_num << 16)\<close>, and three zero words and
  \<^verbatim>\<open>htonl(seq_num)\<close>.
\<close>

definition rtcp_iv :: "bool \<Rightarrow> srtp_cipher_type_id_t \<Rightarrow> mem \<Rightarrow> 32 word \<Rightarrow> 8 word list" where
  "rtcp_iv le type_id hdr seq_num =
     (if type_id = SRTP_AES_ICM
      then store32 le 0 @ store32 le (rtcp_hdr_ssrc le hdr) @
           store32 le (htonl le (drop_bit 16 seq_num)) @ store32 le (htonl le (push_bit 16 seq_num))
      else store32 le 0 @ store32 le 0 @ store32 le 0 @ store32 le (htonl le seq_num))"

definition srtp_protect_rtcp_aead ::
  "('c, 'a, 'l, 'x, 'r, 'e) env \<Rightarrow> ('c, 'a, 'l, 'x, 'r, 'e) world \<Rightarrow> stream_ref \<Rightarrow> packet \<Rightarrow>
   srtp_err_status_t \<times> ('c, 'a, 'l, 'x, 'r, 'e) world \<times> packet" where
  "srtp_protect_rtcp_aead E w sref pk =
     (let le = host_le E;
          hdr = pkt_hdr pk;
          stream = stream_at (session w) sref;
          tag_len = out_len (auths w (rtcp_auth stream));
          enc_start = 8;
          enc_octet_len = pkt_octet_len pk - 8;
          trailer = enc_start + enc_octet_len + tag_len;
          conf = serv_and (rtcp_services stream) sec_serv_conf;
          hdr = mem_write hdr trailer (store32 le (if conf then htonl le SRTCP_E_BIT else 0));
          enc_octet_len = (if conf then enc_octet_len else 0);
          auth_tag = pkt_octet_len pk;
          (status, r) = rdb_increment (rops E) (rtcp_rdb stream);
          w = upd_stream sref (\<lambda>s. s\<lparr>rtcp_rdb := r\<rparr>) w
      in if status \<noteq> srtp_err_status_ok then (status, w, pk\<lparr>pkt_hdr := hdr\<rparr>)
      else
        let seq_num = rdb_get_value (rops E) r;
            hdr = mem_write hdr trailer
                    (store32 le (load32 le (mem_read hdr trailer 4) OR htonl le seq_num));
            pk = pk\<lparr>pkt_hdr := hdr\<rparr>;
            iv = srtp_calc_aead_iv_srtcp le stream seq_num hdr;
            (status, w) = srtp_cipher_set_iv E w (rtcp_cipher stream) iv direction_encrypt
        in if status \<noteq> srtp_err_status_ok then (srtp_err_status_cipher_fail, w, pk)
        else
          let (status, w) =
                (if conf then srtp_cipher_set_aad E w (rtcp_cipher stream) (mem_read hdr 0 8)
                 else srtp_cipher_set_aad E w (rtcp_cipher stream) (mem_read hdr 0 (pkt_octet_len pk)))
          in if status \<noteq> srtp_err_status_ok then (srtp_err_status_cipher_fail, w, pk)
          else
            let tseq = htonl le (load32 le (mem_read hdr trailer 4));
                (status, w) = srtp_cipher_set_aad E w (rtcp_cipher stream) (store32 le tseq)
            in if status \<noteq> srtp_err_status_ok then (srtp_err_status_cipher_fail, w, pk)
            else
              let (status, w, hdr) =
                    (if conf
                     then (let (status, w, out) =
                                 srtp_cipher_encrypt E w (rtcp_cipher stream)
                                   (mem_read hdr enc_start enc_octet_len)
                           in (status, w, mem_write hdr enc_start out))
                     else (let (status, w, out) = srtp_cipher_encrypt E w (rtcp_cipher stream) []
                           in (status, w, hdr)));
                  pk = pk\<lparr>pkt_hdr := hdr\<rparr>
              in if status \<noteq> srtp_err_status_ok then (srtp_err_status_cipher_fail, w, pk)
              else
                let (status, w, tag) = srtp_cipher_get_tag E w (rtcp_cipher stream) tag_len;
                    pk = pk\<lparr>pkt_hdr := mem_write hdr auth_tag tag\<rparr>;
                    tag_len = int (length tag)
                in if status \<noteq> srtp_err_status_ok then (srtp_err_status_cipher_fail, w, pk)
                   else (srtp_err_status_ok, w,
                         pk\<lparr>pkt_octet_len := pkt_octet_len pk + (tag_len + 4)\<rparr>))"

definition srtp_unprotect_rtcp_aead ::
  "('c, 'a, 'l, 'x, 'r, 'e) env \<Rightarrow> ('c, 'a, 'l, 'x, 'r, 'e) world \<Rightarrow> stream_ref \<Rightarrow> packet \<Rightarrow>
   srtp_err_status_t \<times> ('c, 'a, 'l, 'x, 'r, 'e) world \<times> packet" where
  "srtp_unprotect_rtcp_aead E w sref pk =
     (let le = host_le E;
          hdr = pkt_hdr pk;
          stream = stream_at (session w) sref;
          tag_len = out_len (auths w (rtcp_auth stream));
          trailer = pkt_octet_len pk - 4;
          enc_octet_len = pkt_octet_len pk - (8 + 4);
          auth_tag = pkt_octet_len pk - tag_len - 4;
          e_bit = (hdr trailer AND SRTCP_E_BYTE_BIT \<noteq> 0);
          enc_octet_len = (if e_bit then enc_octet_len else 0);
          seq_num = ntohl le (load32 le (mem_read hdr trailer 4)) AND SRTCP_INDEX_MASK;
          status = rdb_check (rops E) (rtcp_rdb stream) seq_num
      in if status \<noteq> srtp_err_status_ok then (status, w, pk)
      else
        let iv = srtp_calc_aead_iv_srtcp le stream seq_num hdr;
            (status, w) = srtp_cipher_set_iv E w (rtcp_cipher stream) iv direction_decrypt
        in if status \<noteq> srtp_err_status_ok then (srtp_err_status_cipher_fail, w, pk)
        else
          let (status, w) =
                (if e_bit then srtp_cipher_set_aad E w (rtcp_cipher stream) (mem_read hdr 0 8)
                 else srtp_cipher_set_aad E w (rtcp_cipher stream)
                        (mem_read hdr 0 (pkt_octet_len pk - tag_len - 4)))
          in if status \<noteq> srtp_err_status_ok then (srtp_err_status_cipher_fail, w, pk)
          else
            let tseq = htonl le (load32 le (mem_read hdr trailer 4));
                (status, w) = srtp_cipher_set_aad E w (rtcp_cipher stream) (store32 le tseq)
            in if status \<noteq> srtp_err_status_ok then (srtp_err_status_cipher_fail, w, pk)
            else
              let (status, w, hdr) =
                    (if e_bit
                     then (let (status, w, out) =
                                 srtp_cipher_decrypt E w (rtcp_cipher stream) (mem_read hdr 8 enc_octet_len)
                           in (status, w, mem_write hdr 8 out))
                     else (let (status, w, out) =
                                 srtp_cipher_decrypt E w (rtcp_cipher stream) (mem_read hdr auth_tag tag_len)
                           in (status, w, mem_write hdr auth_tag out)));
                  pk = pk\<lparr>pkt_hdr := hdr\<rparr>
              in if status \<noteq> srtp_err_status_ok then (status, w, pk)
              else
                let pk = pk\<lparr>pkt_octet_len := pkt_octet_len pk - (tag_len + 4)\<rparr>;
                    w = pin_direction dir_srtp_receiver sref w;
                    (status, w, sref) = clone_if_template E w sref (rtcp_hdr_ssrc le hdr)
                in if status \<noteq> srtp_err_status_ok then (status, w, pk)
                else
                  (srtp_err_status_ok,
                   upd_stream sref (\<lambda>s. s\<lparr>rtcp_rdb := rdb_add_index (rops E) (rtcp_rdb s) seq_num\<rparr>) w,
                   pk))"

text \<open>
  \<open>rtcp_sender_stream\<close> is the start of \<open>srtp_protect_rtcp\<close>: the lookup of the stream
  by the SSRC of the header, the clone of the template for a new SSRC, and the check of
  the direction. \<open>srtp_protect_rtcp_hmac\<close> is the rest of the function after the
  dispatch to the AEAD handler.
\<close>

definition rtcp_sender_stream ::
  "('c, 'a, 'l, 'x, 'r, 'e) env \<Rightarrow> ('c, 'a, 'l, 'x, 'r, 'e) world \<Rightarrow> packet \<Rightarrow>
   srtp_err_status_t \<times> ('c, 'a, 'l, 'x, 'r, 'e) world \<times> stream_ref" where
  "rtcp_sender_stream E w pk =
     (let v = rtcp_hdr_ssrc (host_le E) (pkt_hdr pk);
          (status, w, sref) =
            (case srtp_get_stream (session w) v of
               Some i \<Rightarrow> (srtp_err_status_ok, w, in_list i)
             | None \<Rightarrow>
                 (case stream_template (session w) of
                    Some template \<Rightarrow>
                      (let (status, new_stream, w) = srtp_stream_clone E w template v
                       in if status \<noteq> srtp_err_status_ok then (status, w, in_template)
                          else (srtp_err_status_ok, push_stream new_stream w, in_list 0))
                  | None \<Rightarrow> (srtp_err_status_no_ctx, w, in_template)))
      in if status \<noteq> srtp_err_status_ok then (status, w, sref)
         else (srtp_err_status_ok, pin_direction dir_srtp_sender sref w, sref))"

definition srtp_protect_rtcp_hmac ::
  "('c, 'a, 'l, 'x, 'r, 'e) env \<Rightarrow> ('c, 'a, 'l, 'x, 'r, 'e) world \<Rightarrow> stream_ref \<Rightarrow> packet \<Rightarrow>
   srtp_err_status_t \<times> ('c, 'a, 'l, 'x, 'r, 'e) world \<times> packet" where
  "srtp_protect_rtcp_hmac E w sref pk =
     (let le = host_le E;
          hdr = pkt_hdr pk;
          stream = stream_at (session w) sref;
          tag_len = out_len (auths w (rtcp_auth stream));
          enc_start = 8;
          enc_octet_len = pkt_octet_len pk - 8;
          trailer = enc_start + enc_octet_len;
          conf = serv_and (rtcp_services stream) sec_serv_conf;
          hdr = mem_write hdr trailer (store32 le (if conf then htonl le SRTCP_E_BIT else 0));
          enc_octet_len = (if conf then enc_octet_len else 0);
          auth_tag = pkt_octet_len pk + 4;
          (hdr, len) = srtp_ekt_write_data E (ekt stream) hdr auth_tag tag_len (pkt_octet_len pk)
                         (rdbx_get_packet_index (xops E) (rtp_rdbx stream));
          pk = pk\<lparr>pkt_hdr := hdr, pkt_octet_len := len\<rparr>;
          (status, r) = rdb_increment (rops E) (rtcp_rdb stream);
          w = upd_stream sref (\<lambda>s. s\<lparr>rtcp_rdb := r\<rparr>) w
      in if status \<noteq> srtp_err_status_ok then (status, w, pk)
      else
        let seq_num = rdb_get_value (rops E) r;
            hdr = mem_write hdr trailer
                    (store32 le (load32 le (mem_read hdr trailer 4) OR htonl le seq_num));
            pk = pk\<lparr>pkt_hdr := hdr\<rparr>;
            iv = rtcp_iv le (cipher_type_id (ciphers w (rtcp_cipher stream))) hdr seq_num;
            (status, w) = srtp_cipher_set_iv E w (rtcp_cipher stream) iv direction_encrypt
        in if status \<noteq> srtp_err_status_ok then (srtp_err_status_cipher_fail, w, pk)
        else
          let (status, w, out) =
                srtp_cipher_output E w (rtcp_cipher stream) (prefix_len (auths w (rtcp_auth stream)));
              hdr = mem_write hdr auth_tag out;
              pk = pk\<lparr>pkt_hdr := hdr\<rparr>
          in if status \<noteq> srtp_err_status_ok then (srtp_err_status_cipher_fail, w, pk)
          else
            let (status, w, hdr) =
                  (if conf
                   then (let (status, w, out) =
                               srtp_cipher_encrypt E w (rtcp_cipher stream)
                                 (mem_read hdr enc_start enc_octet_len)
                         in (status, w, mem_write hdr enc_start out))
                   else (srtp_err_status_ok, w, hdr));
                pk = pk\<lparr>pkt_hdr := hdr\<rparr>
            in if status \<noteq> srtp_err_status_ok then (srtp_err_status_cipher_fail, w, pk)
            else
              let (status, w) = auth_start E w (rtcp_auth stream);
                  (status, w, tag) =
                    auth_compute E w (rtcp_auth stream) (mem_read hdr 0 (pkt_octet_len pk + 4));
                  pk = pk\<lparr>pkt_hdr := mem_write hdr auth_tag tag\<rparr>
              in if status \<noteq> srtp_err_status_ok then (srtp_err_status_auth_fail, w, pk)
                 else (srtp_err_status_ok, w,
                       pk\<lparr>pkt_octet_len := pkt_octet_len pk + (tag_len + 4)\<rparr>))"

definition srtp_protect_rtcp ::
  "('c, 'a, 'l, 'x, 'r, 'e) env \<Rightarrow> ('c, 'a, 'l, 'x, 'r, 'e) world \<Rightarrow> packet \<Rightarrow>
   srtp_err_status_t \<times> ('c, 'a, 'l, 'x, 'r, 'e) world \<times> packet" where
  "srtp_protect_rtcp E w pk =
     (if pkt_octet_len pk < 8 then (srtp_err_status_bad_param, w, pk)
      else
        let (status, w, sref) = rtcp_sender_stream E w pk
        in if status \<noteq> srtp_err_status_ok then (status, w, pk)
           else if is_aead (algorithm (ciphers w (rtp_cipher (stream_at (session w) sref))))
           then srtp_protect_rtcp_aead E w sref pk
           else srtp_protect_rtcp_hmac E w sref pk)"

text \<open>
  \<open>rtcp_receiver_stream\<close> is the start of \<open>srtp_unprotect_rtcp\<close>: the lookup of the
  stream; for a new SSRC the template is the provisional stream, initialised from the
  EKT field of the packet when it carries EKT data. \<open>srtp_unprotect_rtcp_hmac\<close> is the
  rest of the function after the dispatch to the AEAD handler.
\<close>

definition rtcp_receiver_stream ::
  "('c, 'a, 'l, 'x, 'r, 'e) env \<Rightarrow> ('c, 'a, 'l, 'x, 'r, 'e) world \<Rightarrow> packet \<Rightarrow>
   srtp_err_status_t \<times> ('c, 'a, 'l, 'x, 'r, 'e) world \<times> stream_ref" where
  "rtcp_receiver_stream E w pk =
     (case srtp_get_stream (session w) (rtcp_hdr_ssrc (host_le E) (pkt_hdr pk)) of
        Some i \<Rightarrow> (srtp_err_status_ok, w, in_list i)
      | None \<Rightarrow>
          (case stream_template (session w) of
             Some template \<Rightarrow>
               (if ekt template \<noteq> None
                then (let (status, t) =
                            stream_init_from_ekt (eops E) template (pkt_hdr pk) (pkt_octet_len pk)
                      in (status, upd_stream in_template (\<lambda>s. t) w, in_template))
                else (srtp_err_status_ok, w, in_template))
           | None \<Rightarrow> (srtp_err_status_no_ctx, w, in_template)))"

definition srtp_unprotect_rtcp_hmac ::
  "('c, 'a, 'l, 'x, 'r, 'e) env \<Rightarrow> ('c, 'a, 'l, 'x, 'r, 'e) world \<Rightarrow> stream_ref \<Rightarrow> packet \<Rightarrow>
   srtp_err_status_t \<times> ('c, 'a, 'l, 'x, 'r, 'e) world \<times> packet" where
  "srtp_unprotect_rtcp_hmac E w sref pk =
     (let le = host_le E;
          hdr = pkt_hdr pk;
          stream = stream_at (session w) sref;
          tag_len = out_len (auths w (rtcp_auth stream));
          sec_serv_confidentiality =
            (rtcp_services stream = sec_serv_conf \<or> rtcp_services stream = sec_serv_conf_and_auth);
          enc_octet_len = pkt_octet_len pk - (8 + tag_len + 4);
          trailer = pkt_octet_len pk - (tag_len + 4);
          e_bit_in_packet = (hdr trailer AND SRTCP_E_BYTE_BIT = SRTCP_E_BYTE_BIT)
      in if e_bit_in_packet \<noteq> sec_serv_confidentiality then (srtp_err_status_cant_check, w, pk)
      else
        let enc_octet_len = (if sec_serv_confidentiality then enc_octet_len else 0);
            auth_len = pkt_octet_len pk - tag_len;
            auth_tag = auth_len;
            in_packet = (ekt stream = None);
            auth_tag = (if in_packet then auth_tag
                        else auth_tag - srtp_ekt_octets_after_base_tag E (ekt stream));
            tag_copy = mem_read hdr auth_tag tag_len;
            hdr = (if in_packet then hdr else mem_write hdr auth_tag (replicate (nat tag_len) 0));
            auth_len = (if in_packet then auth_len else auth_len + tag_len);
            pk = pk\<lparr>pkt_hdr := hdr\<rparr>;
            seq_num = ntohl le (load32 le (mem_read hdr trailer 4)) AND SRTCP_INDEX_MASK;
            status = rdb_check (rops E) (rtcp_rdb stream) seq_num
        in if status \<noteq> srtp_err_status_ok then (status, w, pk)
        else
          let iv = rtcp_iv le (cipher_type_id (ciphers w (rtcp_cipher stream))) hdr seq_num;
              (status, w) = srtp_cipher_set_iv E w (rtcp_cipher stream) iv direction_decrypt
          in if status \<noteq> srtp_err_status_ok then (srtp_err_status_cipher_fail, w, pk)
          else
            let (status, w) = auth_start E w (rtcp_auth stream);
                (status, w, tmp_tag) = auth_compute E w (rtcp_auth stream) (mem_read hdr 0 auth_len)
            in if status \<noteq> srtp_err_status_ok then (srtp_err_status_auth_fail, w, pk)
            else if octet_string_is_eq tmp_tag tag_copy tag_len then (srtp_err_status_auth_fail, w, pk)
            else
              let prefix_len = prefix_len (auths w (rtcp_auth stream));
                  (status, w, hdr) =
                    (if prefix_len \<noteq> 0
                     then (let (status, w, out) = srtp_cipher_output E w (rtcp_cipher stream) prefix_len
                           in (status, w, if in_packet then mem_write hdr auth_tag out else hdr))
                     else (srtp_err_status_ok, w, hdr));
                  pk = pk\<lparr>pkt_hdr := hdr\<rparr>
              in if status \<noteq> srtp_err_status_ok then (srtp_err_status_cipher_fail, w, pk)
              else
                let (status, w, hdr) =
                      (if sec_serv_confidentiality
                       then (let (status, w, out) =
                                   srtp_cipher_decrypt E w (rtcp_cipher stream) (mem_read hdr 8 enc_octet_len)
                             in (status, w, mem_write hdr 8 out))
                       else (srtp_err_status_ok, w, hdr));
                    pk = pk\<lparr>pkt_hdr := hdr\<rparr>
                in if status \<noteq> srtp_err_status_ok then (srtp_err_status_cipher_fail, w, pk)
                else
                  let pk = pk\<lparr>pkt_octet_len := pkt_octet_len pk - (tag_len + 4)\<rparr>;
                      pk = pk\<lparr>pkt_octet_len :=
                                pkt_octet_len pk - srtp_ekt_octets_after_base_tag E (ekt stream)\<rparr>;
                      w = pin_direction dir_srtp_receiver sref w;
                      (status, w, sref) = clone_if_template E w sref (rtcp_hdr_ssrc le hdr)
                  in if status \<noteq> srtp_err_status_ok then (status, w, pk)
                  else
                    (srtp_err_status_ok,
                     upd_stream sref (\<lambda>s. s\<lparr>rtcp_rdb := rdb_add_index (rops E) (rtcp_rdb s) seq_num\<rparr>) w,
                     pk))"

text \<open>
  The first length check of \<open>srtp_unprotect_rtcp\<close> compares the int length with a
  sum that has the type of \<^verbatim>\<open>sizeof\<close>: the length is converted to an unsigned value,
  and a negative length, a large value then, passes. The second check is made on ints.
\<close>

definition srtp_unprotect_rtcp ::
  "('c, 'a, 'l, 'x, 'r, 'e) env \<Rightarrow> ('c, 'a, 'l, 'x, 'r, 'e) world \<Rightarrow> packet \<Rightarrow>
   srtp_err_status_t \<times> ('c, 'a, 'l, 'x, 'r, 'e) world \<times> packet" where
  "srtp_unprotect_rtcp E w pk =
     (if 0 \<le> pkt_octet_len pk \<and> pkt_octet_len pk < 8 + 4 then (srtp_err_status_bad_param, w, pk)
      else
        let (status, w, sref) = rtcp_receiver_stream E w pk
        in if status \<noteq> srtp_err_status_ok then (status, w, pk)
        else
          let stream = stream_at (session w) sref;
              tag_len = out_len (auths w (rtcp_auth stream))
          in if pkt_octet_len pk < 8 + tag_len + 4 then (srtp_err_status_bad_param, w, pk)
             else if is_aead (algorithm (ciphers w (rtp_cipher stream)))
             then srtp_unprotect_rtcp_aead E w sref pk
             else srtp_unprotect_rtcp_hmac E w sref pk)"

subsection \<open>The session\<close>

text \<open>
  \<open>srtp_stream_dealloc\<close> and \<open>srtp_dealloc\<close> free the objects of a stream and of the
  session; the model gives the status (the first failure of a primitive stops the work).
\<close>

definition srtp_stream_dealloc ::
  "('c, 'a, 'l, 'x, 'r, 'e) env \<Rightarrow> ('c, 'a, 'l, 'x, 'r, 'e) world \<Rightarrow>
   ('x, 'r, 'e) srtp_stream_ctx_t \<Rightarrow> srtp_err_status_t" where
  "srtp_stream_dealloc E w stream =
     (let shared = (\<lambda>f. case stream_template (session w) of
                          None \<Rightarrow> False | Some t \<Rightarrow> f stream = f t);
          status = (if shared rtp_cipher then srtp_err_status_ok
                    else c_dealloc (cops E) (ciphers w (rtp_cipher stream)))
      in if status \<noteq> srtp_err_status_ok then status
      else
        let status = (if shared rtp_auth then srtp_err_status_ok
                      else a_dealloc (aops E) (auths w (rtp_auth stream)))
        in if status \<noteq> srtp_err_status_ok then status
        else
          let status = (if shared rtcp_cipher then srtp_err_status_ok
                        else c_dealloc (cops E) (ciphers w (rtcp_cipher stream)))
          in if status \<noteq> srtp_err_status_ok then status
          else
            let status = (if shared rtcp_auth then srtp_err_status_ok
                          else a_dealloc (aops E) (auths w (rtcp_auth stream)))
            in if status \<noteq> srtp_err_status_ok then status
            else
              let status = fst (rdbx_dealloc (xops E) (rtp_rdbx stream))
              in if status \<noteq> srtp_err_status_ok then status else srtp_err_status_ok)"

fun dealloc_streams ::
  "('c, 'a, 'l, 'x, 'r, 'e) env \<Rightarrow> ('c, 'a, 'l, 'x, 'r, 'e) world \<Rightarrow>
   ('x, 'r, 'e) srtp_stream_ctx_t list \<Rightarrow> srtp_err_status_t" where
  "dealloc_streams E w [] = srtp_err_status_ok"
| "dealloc_streams E w (stream # rest) =
     (let status = srtp_stream_dealloc E w stream
      in if status \<noteq> srtp_err_status_ok then status else dealloc_streams E w rest)"

definition srtp_dealloc ::
  "('c, 'a, 'l, 'x, 'r, 'e) env \<Rightarrow> ('c, 'a, 'l, 'x, 'r, 'e) world \<Rightarrow> srtp_err_status_t" where
  "srtp_dealloc E w =
     (let status = dealloc_streams E w (stream_list (session w))
      in if status \<noteq> srtp_err_status_ok then status
      else
        (case stream_template (session w) of
           None \<Rightarrow> srtp_err_status_ok
         | Some t \<Rightarrow>
             (let status = a_dealloc (aops E) (auths w (rtcp_auth t))
              in if status \<noteq> srtp_err_status_ok then status
              else
                let status = c_dealloc (cops E) (ciphers w (rtcp_cipher t))
                in if status \<noteq> srtp_err_status_ok then status
                else
                  let status = c_dealloc (cops E) (ciphers w (rtp_cipher t))
                  in if status \<noteq> srtp_err_status_ok then status
                  else
                    let status = a_dealloc (aops E) (auths w (rtp_auth t))
                    in if status \<noteq> srtp_err_status_ok then status
                    else
                      let status = fst (rdbx_dealloc (xops E) (rtp_rdbx t))
                      in if status \<noteq> srtp_err_status_ok then status else srtp_err_status_ok)))"

text \<open>
  \<open>srtp_add_stream\<close>: a NULL session or policy is \<open>None\<close>. The stream that is not
  linked into the session on an error return is lost, as in the source.
\<close>

fun srtp_add_stream ::
  "('c, 'a, 'l, 'x, 'r, 'e) env \<Rightarrow> ('c, 'a, 'l, 'x, 'r, 'e) world option \<Rightarrow> 'e srtp_policy_t option \<Rightarrow>
   srtp_err_status_t \<times> ('c, 'a, 'l, 'x, 'r, 'e) world option" where
  "srtp_add_stream E None policy = (srtp_err_status_bad_param, None)"
| "srtp_add_stream E (Some w) None = (srtp_err_status_bad_param, Some w)"
| "srtp_add_stream E (Some w) (Some policy) =
     (if pol_key policy = None then (srtp_err_status_bad_param, Some w)
      else
        let (status, tmp, w) = srtp_stream_alloc E w policy
        in if status \<noteq> srtp_err_status_ok then (status, Some w)
        else
          let (status, tmp, w) = srtp_stream_init E w tmp policy
          in if status \<noteq> srtp_err_status_ok then (status, Some w)
          else
                (case ssrc_type (pol_ssrc policy) of
                   ssrc_any_outbound \<Rightarrow>
                     (if stream_template (session w) \<noteq> None then (srtp_err_status_bad_param, Some w)
                      else (srtp_err_status_ok,
                            Some (w\<lparr>session := (session w)\<lparr>stream_template :=
                                     Some (tmp\<lparr>direction := dir_srtp_sender\<rparr>)\<rparr>\<rparr>)))
                 | ssrc_any_inbound \<Rightarrow>
                     (if stream_template (session w) \<noteq> None then (srtp_err_status_bad_param, Some w)
                      else (srtp_err_status_ok,
                            Some (w\<lparr>session := (session w)\<lparr>stream_template :=
                                     Some (tmp\<lparr>direction := dir_srtp_receiver\<rparr>)\<rparr>\<rparr>)))
                 | ssrc_specific \<Rightarrow> (srtp_err_status_ok, Some (push_stream tmp w))
                 | ssrc_undefined \<Rightarrow> (srtp_err_status_bad_param, Some w)))"

text \<open>
  \<open>srtp_create\<close>: \<open>session_ptr\<close> tells whether the pointer that receives the session
  is not NULL. The new session replaces the session of the state. \<open>create_streams\<close> is
  the loop over the list of policies; when a policy fails the source calls
  \<open>srtp_dealloc\<close>, ignores its status and returns the status of the failure.
\<close>

fun create_streams ::
  "('c, 'a, 'l, 'x, 'r, 'e) env \<Rightarrow> ('c, 'a, 'l, 'x, 'r, 'e) world \<Rightarrow> 'e srtp_policy_t list \<Rightarrow>
   srtp_err_status_t \<times> ('c, 'a, 'l, 'x, 'r, 'e) world" where
  "create_streams E w [] = (srtp_err_status_ok, w)"
| "create_streams E w (policy # rest) =
     (case srtp_add_stream E (Some w) (Some policy) of
        (stat, Some w) \<Rightarrow>
          if stat \<noteq> srtp_err_status_ok then (let d = srtp_dealloc E w in (stat, w))
          else create_streams E w rest
      | (stat, None) \<Rightarrow> (stat, w))"

definition srtp_create ::
  "('c, 'a, 'l, 'x, 'r, 'e) env \<Rightarrow> ('c, 'a, 'l, 'x, 'r, 'e) world \<Rightarrow> bool \<Rightarrow> 'e srtp_policy_t list \<Rightarrow>
   srtp_err_status_t \<times> ('c, 'a, 'l, 'x, 'r, 'e) world" where
  "srtp_create E w session_ptr policy =
     (if \<not> session_ptr then (srtp_err_status_bad_param, w)
      else if \<not> crypto_alloc E (n_allocs w) then (srtp_err_status_alloc_fail, count_alloc w)
      else
        let w = count_alloc w;
            w = w\<lparr>session := \<lparr>stream_list = [], stream_template = None, user_data = None\<rparr>\<rparr>
        in create_streams E w policy)"

subsection \<open>Conditions on a session\<close>

text \<open>
  \<open>template_pinned\<close>: the template of the session, if there is one, has a direction.
  \<open>srtp_add_stream\<close> installs a template as a sender or as a receiver, and no data
  path sets a direction back to unknown. \<open>template_without_ekt\<close>: the template
  carries no EKT data.
\<close>

definition template_pinned :: "('x, 'r, 'e) srtp_ctx_t \<Rightarrow> bool" where
  "template_pinned ctx =
     (case stream_template ctx of None \<Rightarrow> True | Some t \<Rightarrow> direction t \<noteq> dir_unknown)"

definition template_without_ekt :: "('x, 'r, 'e) srtp_ctx_t \<Rightarrow> bool" where
  "template_without_ekt ctx =
     (case stream_template ctx of None \<Rightarrow> True | Some t \<Rightarrow> ekt t = None)"

subsection \<open>An instance of the primitives\<close>

text \<open>
  A small instance of the environment, to run the model on concrete packets: the cipher
  XORs every byte with 0x55 and its tag is a run of 0xAA, the tag of the authenticator
  repeats the sum of the bytes, the replay databases keep the last index, and every
  allocation succeeds.
\<close>

definition demo_cops :: "nat cipher_ops" where
  "demo_cops = \<lparr>
     c_alloc = (\<lambda>id kl tl. (srtp_err_status_ok, \<lparr>cipher_type_id = id, algorithm = id, key_len = kl, cipher_state = 0\<rparr>)),
     c_dealloc = (\<lambda>c. srtp_err_status_ok),
     c_init = (\<lambda>c k. (srtp_err_status_ok, 1)),
     c_set_iv = (\<lambda>c iv d. (srtp_err_status_ok, 2)),
     c_set_aad = (\<lambda>c aad. (srtp_err_status_ok, 3)),
     c_encrypt = (\<lambda>c buf. (srtp_err_status_ok, 4, map (\<lambda>b. b XOR 0x55) buf)),
     c_decrypt = (\<lambda>c buf. (srtp_err_status_ok, 5, map (\<lambda>b. b XOR 0x55) buf)),
     c_output = (\<lambda>c n. (srtp_err_status_ok, 6, replicate (nat n) 0)),
     c_get_tag = (\<lambda>c n. (srtp_err_status_ok, 7, replicate (nat n) 0xAA)) \<rparr>"

definition demo_aops :: "nat auth_ops" where
  "demo_aops = \<lparr>
     a_alloc = (\<lambda>id kl tl. (srtp_err_status_ok, \<lparr>out_len = tl, auth_key_length = kl, prefix_len = 0, auth_state = 0\<rparr>)),
     a_dealloc = (\<lambda>a. srtp_err_status_ok),
     a_init = (\<lambda>a k. (srtp_err_status_ok, 0)),
     a_start = (\<lambda>a. (srtp_err_status_ok, 0)),
     a_update = (\<lambda>a buf. (srtp_err_status_ok, auth_state a + unat (foldr (+) buf 0))),
     a_compute = (\<lambda>a buf. (srtp_err_status_ok, 0,
                    replicate (nat (out_len a)) (of_nat (auth_state a) + foldr (+) buf 0))) \<rparr>"

definition demo_xops :: "(nat \<times> int) rdbx_ops" where
  "demo_xops = \<lparr>
     rdbx_init = (\<lambda>x ws. (if ws = 0 then srtp_err_status_bad_param else srtp_err_status_ok, (ws, -1))),
     rdbx_dealloc = (\<lambda>x. (srtp_err_status_ok, x)),
     rdbx_estimate_index = (\<lambda>x s. (uint s - snd x, ucast s)),
     rdbx_check = (\<lambda>x delta. if delta > 0 then srtp_err_status_ok
                    else if delta = 0 then srtp_err_status_replay_fail else srtp_err_status_replay_old),
     rdbx_add_index = (\<lambda>x delta. (fst x, snd x + delta)),
     rdbx_get_window_size = fst,
     rdbx_get_packet_index = (\<lambda>x. of_int (snd x)) \<rparr>"

definition demo_rops :: "nat rdb_ops" where
  "demo_rops = \<lparr>
     rdb_init = (\<lambda>r. 0),
     rdb_check = (\<lambda>r idx. if r < unat idx \<or> r = 0 then srtp_err_status_ok else srtp_err_status_replay_fail),
     rdb_add_index = (\<lambda>r idx. unat idx),
     rdb_increment = (\<lambda>r. (srtp_err_status_ok, Suc r)),
     rdb_get_value = of_nat \<rparr>"

definition demo_lops :: "nat limit_ops" where
  "demo_lops = \<lparr>
     key_limit_set = (\<lambda>l v. unat v),
     key_limit_update = (\<lambda>l. (if l = 0 then srtp_key_event_hard_limit else srtp_key_event_normal, l - 1)),
     key_limit_clone = (\<lambda>p. (srtp_err_status_ok, p)) \<rparr>"

definition demo_eops :: "(nat \<times> int, nat, unit) ekt_ops" where
  "demo_eops = \<lparr>
     ekt_alloc = (\<lambda>p. (srtp_err_status_ok, p)),
     ekt_stream_init_from_policy = (\<lambda>e p. (srtp_err_status_ok, e)),
     ekt_write_data = (\<lambda>e m tag tl len idx. (m, len)),
     ekt_octets_after_base_tag = (\<lambda>e. 0),
     stream_init_from_ekt = (\<lambda>s m len. (srtp_err_status_ok, s)) \<rparr>"

definition demo_stream :: "(nat \<times> int, nat, unit) srtp_stream_ctx_t" where
  "demo_stream = \<lparr>ssrc = 0, rtp_cipher = 0, rtp_auth = 0, rtp_rdbx = (0, 0), rtp_services = sec_serv_none,
     rtcp_cipher = 0, rtcp_auth = 0, rtcp_rdb = 0, rtcp_services = sec_serv_none, limit = 0,
     direction = dir_unknown, allow_repeat_tx = 0, ekt = None, salt = [], c_salt = []\<rparr>"

definition demo_env :: "bool \<Rightarrow> (nat, nat, nat, nat \<times> int, nat, unit) env" where
  "demo_env le = \<lparr>host_le = le, cops = demo_cops, aops = demo_aops, xops = demo_xops, rops = demo_rops,
     lops = demo_lops, eops = demo_eops, crypto_alloc = (\<lambda>n. True), uninit_stream = demo_stream,
     uninit_limit = 0\<rparr>"

definition demo_world :: "(nat, nat, nat, nat \<times> int, nat, unit) world" where
  "demo_world = \<lparr>session = \<lparr>stream_list = [], stream_template = None, user_data = None\<rparr>,
     ciphers = (\<lambda>p. \<lparr>cipher_type_id = SRTP_NULL_CIPHER, algorithm = SRTP_NULL_CIPHER, key_len = 0, cipher_state = 0\<rparr>),
     n_ciphers = 0,
     auths = (\<lambda>p. \<lparr>out_len = 0, auth_key_length = 0, prefix_len = 0, auth_state = 0\<rparr>),
     n_auths = 0, limits = (\<lambda>p. 0), n_limits = 0, n_allocs = 0, events = []\<rparr>"

text \<open>
  A policy for the SSRC 0xCAFEBABE with HMAC-SHA1 and a 10-byte tag, the session that
  \<open>srtp_create\<close> makes of one such policy on a little-endian host, and packets of
  that SSRC: an RTP packet with sequence number 1, four bytes of payload and a tag, and
  an RTCP packet with eight bytes of payload and the bytes that follow it.
\<close>

definition demo_policy ::
  "srtp_ssrc_type_t \<Rightarrow> srtp_cipher_type_id_t \<Rightarrow> srtp_cipher_type_id_t \<Rightarrow> srtp_sec_serv_t \<Rightarrow>
   nat \<Rightarrow> unit srtp_policy_t" where
  "demo_policy ty rtp_c rtcp_c serv ws =
     \<lparr>pol_ssrc = \<lparr>ssrc_type = ty, ssrc_value = 0xCAFEBABE\<rparr>,
      pol_rtp = \<lparr>cipher_type = rtp_c, cipher_key_len = 30, auth_type = SRTP_HMAC_SHA1,
                 auth_key_len = 20, auth_tag_len = 10, sec_serv = sec_serv_conf_and_auth\<rparr>,
      pol_rtcp = \<lparr>cipher_type = rtcp_c, cipher_key_len = 30, auth_type = SRTP_HMAC_SHA1,
                  auth_key_len = 20, auth_tag_len = 10, sec_serv = serv\<rparr>,
      pol_key = Some [1, 2, 3, 4, 5, 6, 7, 8, 9, 10, 11, 12, 13, 14, 15, 16, 17, 18, 19, 20,
                      21, 22, 23, 24, 25, 26, 27, 28, 29, 30],
      pol_ekt = None, pol_window_size = ws, pol_allow_repeat_tx = 0\<rparr>"

definition demo_session ::
  "srtp_ssrc_type_t \<Rightarrow> srtp_cipher_type_id_t \<Rightarrow> srtp_cipher_type_id_t \<Rightarrow> srtp_sec_serv_t \<Rightarrow>
   (nat, nat, nat, nat \<times> int, nat, unit) world" where
  "demo_session ty rtp_c rtcp_c serv =
     snd (srtp_create (demo_env True) demo_world True [demo_policy ty rtp_c rtcp_c serv 0])"

definition rtp_pkt :: "8 word list \<Rightarrow> packet" where
  "rtp_pkt tag =
     \<lparr>pkt_hdr = mem_of_list ([0x80, 0, 0, 1, 0, 0, 0, 0, 0xCA, 0xFE, 0xBA, 0xBE,
                               0x1D, 0x10, 0x19, 0x19] @ tag),
      pkt_octet_len = 16 + int (length tag)\<rparr>"

definition rtcp_pkt :: "8 word list \<Rightarrow> packet" where
  "rtcp_pkt rest =
     \<lparr>pkt_hdr = mem_of_list ([0x80, 0xC8, 0, 3, 0xCA, 0xFE, 0xBA, 0xBE,
                               1, 2, 3, 4, 5, 6, 7, 8] @ rest),
      pkt_octet_len = 16 + int (length rest)\<rparr>"

text \<open>
  \<open>demo_keyed\<close> writes out the state that \<open>srtp_create\<close> leaves for one policy of a
  specific SSRC whose RTCP cipher is AES-ICM (lemma \<open>demo_session_keyed\<close>): one stream,
  its RTP cipher and authenticator at address 0, its RTCP ones at address 1, and the
  cipher of the key derivation at address 2.
\<close>

definition demo_keyed ::
  "srtp_cipher_type_id_t \<Rightarrow> srtp_sec_serv_t \<Rightarrow> (nat, nat, nat, nat \<times> int, nat, unit) world" where
  "demo_keyed rtp_c serv =
     \<lparr>session =
        \<lparr>stream_list =
           [\<lparr>ssrc = 3199925962, rtp_cipher = 0, rtp_auth = 0,
             rtp_rdbx = (128, - 1), rtp_services = sec_serv_conf_and_auth,
             rtcp_cipher = Suc 0, rtcp_auth = Suc 0, rtcp_rdb = 0,
             rtcp_services = serv, limit = 0,
             direction = dir_unknown, allow_repeat_tx = 0, ekt = None,
             salt = [85, 85, 85, 85, 85, 85, 85, 85, 85, 85, 85, 85],
             c_salt = [85, 85, 85, 85, 85, 85, 85, 85, 85, 85, 85, 85]\<rparr>],
         stream_template = None, user_data = None\<rparr>,
      ciphers =
        (\<lambda>p. \<lparr>cipher_type_id = SRTP_NULL_CIPHER, algorithm = SRTP_NULL_CIPHER, key_len = 0,
               cipher_state = 0\<rparr>)
        (0 := \<lparr>cipher_type_id = rtp_c, algorithm = rtp_c, key_len = 30, cipher_state = Suc 0\<rparr>,
         Suc 0 := \<lparr>cipher_type_id = SRTP_AES_ICM, algorithm = SRTP_AES_ICM, key_len = 30, cipher_state = Suc 0\<rparr>,
         Suc (Suc 0) := \<lparr>cipher_type_id = SRTP_AES_ICM, algorithm = SRTP_AES_ICM, key_len = 30, cipher_state = 4\<rparr>),
      n_ciphers = Suc (Suc (Suc 0)),
      auths =
        (\<lambda>p. \<lparr>out_len = 0, auth_key_length = 0, prefix_len = 0, auth_state = 0\<rparr>)
        (0 := \<lparr>out_len = 10, auth_key_length = 20, prefix_len = 0, auth_state = 0\<rparr>,
         Suc 0 := \<lparr>out_len = 10, auth_key_length = 20, prefix_len = 0, auth_state = 0\<rparr>),
      n_auths = Suc (Suc 0), limits = (\<lambda>p. 0)(0 := 281474976710655),
      n_limits = Suc 0, n_allocs = Suc (Suc (Suc 0)), events = []\<rparr>"

text \<open>
  \<open>demo_allocated\<close> and \<open>demo_allocated_stream\<close> write out the state and the stream
  that \<open>srtp_stream_alloc\<close> returns in \<open>demo_world\<close> for a policy of AES-ICM ciphers
  (lemma \<open>demo_alloc\<close>).
\<close>

definition demo_allocated :: "(nat, nat, nat, nat \<times> int, nat, unit) world" where
  "demo_allocated =
     \<lparr>session = \<lparr>stream_list = [], stream_template = None, user_data = None\<rparr>,
      ciphers =
        (\<lambda>p. \<lparr>cipher_type_id = SRTP_NULL_CIPHER, algorithm = SRTP_NULL_CIPHER, key_len = 0,
               cipher_state = 0\<rparr>)
        (0 := \<lparr>cipher_type_id = SRTP_AES_ICM, algorithm = SRTP_AES_ICM, key_len = 30, cipher_state = 0\<rparr>,
         Suc 0 := \<lparr>cipher_type_id = SRTP_AES_ICM, algorithm = SRTP_AES_ICM, key_len = 30, cipher_state = 0\<rparr>),
      n_ciphers = Suc (Suc 0),
      auths =
        (\<lambda>p. \<lparr>out_len = 0, auth_key_length = 0, prefix_len = 0, auth_state = 0\<rparr>)
        (0 := \<lparr>out_len = 10, auth_key_length = 20, prefix_len = 0, auth_state = 0\<rparr>,
         Suc 0 := \<lparr>out_len = 10, auth_key_length = 20, prefix_len = 0, auth_state = 0\<rparr>),
      n_auths = Suc (Suc 0), limits = (\<lambda>p. 0)(0 := 0),
      n_limits = Suc 0, n_allocs = Suc (Suc 0), events = []\<rparr>"

definition demo_allocated_stream :: "(nat \<times> int, nat, unit) srtp_stream_ctx_t" where
  "demo_allocated_stream = demo_stream\<lparr>rtcp_cipher := Suc 0, rtcp_auth := Suc 0\<rparr>"

text \<open>
  An instance with EKT hooks, for streams that carry EKT data: \<open>ekt_write_data\<close> adds
  24 octets after the base tag, and \<open>stream_init_from_ekt\<close> primes the stream from the
  packet by setting the rollover counter of its RTP replay database to 1, that is,
  the index to 65536. \<open>ekt_policy\<close> is the wildcard policy with an EKT sub-policy,
  \<open>demo_template\<close> writes out the state that \<open>srtp_create\<close> leaves for one
  inbound wildcard policy, with or without EKT data (lemma \<open>demo_template_created\<close>),
  and \<open>demo_keyed_ekt\<close> is the state for one specific SSRC with EKT data.
\<close>

definition demo_eops_ekt :: "(nat \<times> int, nat, unit) ekt_ops" where
  "demo_eops_ekt = \<lparr>
     ekt_alloc = (\<lambda>p. (srtp_err_status_ok, p)),
     ekt_stream_init_from_policy = (\<lambda>e p. (srtp_err_status_ok, e)),
     ekt_write_data = (\<lambda>e m tag tl len idx. (m, len + 24)),
     ekt_octets_after_base_tag = (\<lambda>e. 24),
     stream_init_from_ekt = (\<lambda>s m len. (srtp_err_status_ok, s\<lparr>rtp_rdbx := (fst (rtp_rdbx s), 65536)\<rparr>)) \<rparr>"

definition demo_env_ekt :: "(nat, nat, nat, nat \<times> int, nat, unit) env" where
  "demo_env_ekt = (demo_env True)\<lparr>eops := demo_eops_ekt\<rparr>"

definition ekt_policy :: "srtp_ssrc_type_t \<Rightarrow> unit srtp_policy_t" where
  "ekt_policy ty =
     (demo_policy ty SRTP_AES_ICM SRTP_AES_ICM sec_serv_conf_and_auth 0)\<lparr>pol_ekt := Some ()\<rparr>"

definition demo_template :: "unit option \<Rightarrow> (nat, nat, nat, nat \<times> int, nat, unit) world" where
  "demo_template ek =
     (demo_keyed SRTP_AES_ICM sec_serv_conf_and_auth)
       \<lparr>session :=
          \<lparr>stream_list = [],
           stream_template =
             Some ((hd (stream_list (session (demo_keyed SRTP_AES_ICM sec_serv_conf_and_auth))))
                     \<lparr>direction := dir_srtp_receiver, ekt := ek\<rparr>),
           user_data = None\<rparr>\<rparr>"

definition demo_keyed_ekt :: "(nat, nat, nat, nat \<times> int, nat, unit) world" where
  "demo_keyed_ekt =
     upd_stream (in_list 0) (\<lambda>s. s\<lparr>ekt := Some ()\<rparr>) (demo_keyed SRTP_AES_ICM sec_serv_conf_and_auth)"

section \<open>Theorems\<close>

subsection \<open>The session under the primitives and the data paths\<close>

text \<open>
  The primitives change the crypto objects and never the session; a failing call of a
  receive path leaves the session as it was.
\<close>


lemma session_set_cipher_state [simp]: "session (set_cipher_state p c w) = session w"
  by (simp add: set_cipher_state_def)

lemma session_set_auth_state [simp]: "session (set_auth_state p a w) = session w"
  by (simp add: set_auth_state_def)

lemma session_handle_event [simp]: "session (srtp_handle_event w s ev) = session w"
  by (simp add: srtp_handle_event_def)

lemma session_count_alloc [simp]: "session (count_alloc w) = session w"
  by (simp add: count_alloc_def)

lemma session_cipher_set_iv: "srtp_cipher_set_iv E w c iv d = (st, w') \<Longrightarrow> session w' = session w"
  by (auto simp: srtp_cipher_set_iv_def split: prod.splits)

lemma session_cipher_set_aad: "srtp_cipher_set_aad E w c aad = (st, w') \<Longrightarrow> session w' = session w"
  by (auto simp: srtp_cipher_set_aad_def split: prod.splits)

lemma session_cipher_encrypt: "srtp_cipher_encrypt E w c buf = (st, w', out) \<Longrightarrow> session w' = session w"
  by (auto simp: srtp_cipher_encrypt_def split: prod.splits)

lemma session_cipher_decrypt: "srtp_cipher_decrypt E w c buf = (st, w', out) \<Longrightarrow> session w' = session w"
  by (auto simp: srtp_cipher_decrypt_def split: prod.splits)

lemma session_cipher_output: "srtp_cipher_output E w c n = (st, w', out) \<Longrightarrow> session w' = session w"
  by (auto simp: srtp_cipher_output_def split: prod.splits)

lemma session_cipher_get_tag: "srtp_cipher_get_tag E w c n = (st, w', out) \<Longrightarrow> session w' = session w"
  by (auto simp: srtp_cipher_get_tag_def split: prod.splits)

lemma session_auth_start: "auth_start E w a = (st, w') \<Longrightarrow> session w' = session w"
  by (auto simp: auth_start_def split: prod.splits)

lemma session_auth_update: "auth_update E w a buf = (st, w') \<Longrightarrow> session w' = session w"
  by (auto simp: auth_update_def split: prod.splits)

lemma session_auth_compute: "auth_compute E w a buf = (st, w', tag) \<Longrightarrow> session w' = session w"
  by (auto simp: auth_compute_def split: prod.splits)

lemma session_key_limit_update: "srtp_key_limit_update E w l = (ev, w') \<Longrightarrow> session w' = session w"
  by (auto simp: srtp_key_limit_update_def split: prod.splits)

lemma session_stream_clone: "srtp_stream_clone E w t v = (st, ns, w') \<Longrightarrow> session w' = session w"
  by (auto simp: srtp_stream_clone_def Let_def split: prod.splits if_splits)

lemmas session_prims = session_cipher_set_iv session_cipher_set_aad session_cipher_encrypt
  session_cipher_decrypt session_cipher_output session_cipher_get_tag session_auth_start
  session_auth_update session_auth_compute session_key_limit_update session_stream_clone

lemma clone_if_template_error:
  "clone_if_template E w sref v = (st, w', sref') \<Longrightarrow> st \<noteq> srtp_err_status_ok \<Longrightarrow> session w' = session w"
  by (cases sref) (auto simp: Let_def split: prod.splits if_splits dest: session_stream_clone)

lemma pin_direction_template:
  "stream_template (session w) = Some t \<Longrightarrow> direction t \<noteq> dir_unknown \<Longrightarrow>
   session (pin_direction d in_template w) = session w"
  by (simp add: pin_direction_def Let_def)

lemma unprotect_finish_error:
  assumes "srtp_unprotect_finish E w sref delta tag_len enc_start enc_octet_len pk = (st, w', pk')"
    and "st \<noteq> srtp_err_status_ok"
    and "sref = in_template \<longrightarrow> (\<exists>t. stream_template (session w) = Some t \<and> direction t \<noteq> dir_unknown)"
  shows "session w' = session w"
proof (cases sref)
  case (in_list i)
  with assms show ?thesis
    unfolding srtp_unprotect_finish_def Let_def
    by (auto split: prod.splits if_splits option.splits dest!: session_prims)
next
  case in_template
  with assms show ?thesis
    unfolding srtp_unprotect_finish_def Let_def
    by (auto split: prod.splits if_splits option.splits dest!: session_prims simp: pin_direction_template)
qed



lemma unprotect_aead_error:
  assumes "srtp_unprotect_aead E w sref delta est pk = (st, w', pk')"
    and "st \<noteq> srtp_err_status_ok"
    and "sref = in_template \<longrightarrow> (\<exists>t. stream_template (session w) = Some t \<and> direction t \<noteq> dir_unknown)"
  shows "session w' = session w"
proof (cases sref)
  case (in_list i)
  with assms show ?thesis
    unfolding srtp_unprotect_aead_def Let_def
    by (auto split: prod.splits if_splits option.splits dest!: session_prims)
next
  case in_template
  with assms show ?thesis
    unfolding srtp_unprotect_aead_def Let_def
    by (auto split: prod.splits if_splits option.splits dest!: session_prims simp: pin_direction_template)
qed

lemma unprotect_error:
  assumes "srtp_unprotect E w pk = (st, w', pk')"
    and "st \<noteq> srtp_err_status_ok"
    and "template_pinned (session w)"
  shows "session w' = session w"
  using assms
  unfolding srtp_unprotect_def Let_def template_pinned_def
  by (auto split: prod.splits if_splits option.splits
      dest!: session_prims dest: unprotect_aead_error unprotect_finish_error)



lemma session_upd_stream [simp]: "session (upd_stream sref f w) = upd_stream_at sref f (session w)"
  by (simp add: upd_stream_def)

lemma unprotect_rtcp_aead_error:
  assumes "srtp_unprotect_rtcp_aead E w sref pk = (st, w', pk')"
    and "st \<noteq> srtp_err_status_ok"
    and "sref = in_template \<longrightarrow> (\<exists>t. stream_template (session w) = Some t \<and> direction t \<noteq> dir_unknown)"
  shows "session w' = session w"
proof (cases sref)
  case (in_list i)
  with assms show ?thesis
    unfolding srtp_unprotect_rtcp_aead_def Let_def
    by (auto split: prod.splits if_splits option.splits dest!: session_prims)
next
  case in_template
  with assms show ?thesis
    unfolding srtp_unprotect_rtcp_aead_def Let_def
    by (auto split: prod.splits if_splits option.splits dest!: session_prims simp: pin_direction_template)
qed

lemma unprotect_rtcp_hmac_error:
  assumes "srtp_unprotect_rtcp_hmac E w sref pk = (st, w', pk')"
    and "st \<noteq> srtp_err_status_ok"
    and "sref = in_template \<longrightarrow> (\<exists>t. stream_template (session w) = Some t \<and> direction t \<noteq> dir_unknown)"
  shows "session w' = session w"
proof (cases sref)
  case (in_list i)
  with assms show ?thesis
    unfolding srtp_unprotect_rtcp_hmac_def Let_def
    by (auto split: prod.splits if_splits option.splits dest!: session_prims)
next
  case in_template
  with assms show ?thesis
    unfolding srtp_unprotect_rtcp_hmac_def Let_def
    by (auto split: prod.splits if_splits option.splits dest!: session_prims simp: pin_direction_template)
qed

lemma rtcp_receiver_stream_session:
  assumes "rtcp_receiver_stream E w pk = (st, w', sref)"
    and "template_without_ekt (session w)"
  shows "w' = w \<and> (st = srtp_err_status_ok \<longrightarrow> sref = in_template \<longrightarrow> stream_template (session w) \<noteq> None)"
  using assms unfolding rtcp_receiver_stream_def template_without_ekt_def
  by (auto split: option.splits if_splits prod.splits)

lemma unprotect_rtcp_error:
  assumes "srtp_unprotect_rtcp E w pk = (st, w', pk')"
    and "st \<noteq> srtp_err_status_ok"
    and "template_pinned (session w)"
    and "template_without_ekt (session w)"
  shows "session w' = session w"
proof (cases "rtcp_receiver_stream E w pk")
  case (fields st1 w1 sref)
  from rtcp_receiver_stream_session[OF fields assms(4)]
  have w1: "w1 = w" and tm: "st1 = srtp_err_status_ok \<Longrightarrow> sref = in_template \<Longrightarrow> stream_template (session w) \<noteq> None"
    by auto
  from assms(3) have pinned: "\<And>t. stream_template (session w) = Some t \<Longrightarrow> direction t \<noteq> dir_unknown"
    by (simp add: template_pinned_def)
  show ?thesis
  proof (cases "st1 = srtp_err_status_ok")
    case False
    with assms(1) fields w1 show ?thesis
      by (auto simp: srtp_unprotect_rtcp_def split: if_splits)
  next
    case True
    with tm pinned have cond: "sref = in_template \<longrightarrow> (\<exists>t. stream_template (session w) = Some t \<and> direction t \<noteq> dir_unknown)"
      by auto
    from assms(1,2) fields w1 True show ?thesis
      unfolding srtp_unprotect_rtcp_def Let_def
      by (auto split: if_splits dest: unprotect_rtcp_aead_error[OF _ _ cond] unprotect_rtcp_hmac_error[OF _ _ cond])
  qed
qed



lemma session_store_cipher [simp]: "session (store_cipher c w) = session w"
  by (simp add: store_cipher_def)

lemma session_store_auth [simp]: "session (store_auth c w) = session w"
  by (simp add: store_auth_def)

lemma session_kdf_init: "srtp_kdf_init E w cid key len = (st, kdf, w') \<Longrightarrow> session w' = session w"
  by (auto simp: srtp_kdf_init_def Let_def split: prod.splits if_splits)

lemma session_kdf_generate:
  "srtp_kdf_generate E w kdf l key off len = (st, w', key') \<Longrightarrow> session w' = session w"
  by (auto simp: srtp_kdf_generate_def Let_def split: prod.splits if_splits)

lemma init_keys_rtcp_keeps:
  "srtp_stream_init_keys_rtcp E w s kdf tk n = (st, s', w') \<Longrightarrow>
   rtp_rdbx s' = rtp_rdbx s \<and> ekt s' = ekt s \<and> direction s' = direction s \<and> session w' = session w"
  unfolding srtp_stream_init_keys_rtcp_def Let_def
  by (auto split: prod.splits if_splits dest!: session_kdf_generate)

lemma init_keys_keeps:
  "srtp_stream_init_keys E w s k = (st, s', w') \<Longrightarrow>
   rtp_rdbx s' = rtp_rdbx s \<and> ekt s' = ekt s \<and> direction s' = direction s \<and> session w' = session w"
  unfolding srtp_stream_init_keys_def Let_def
  by (auto split: prod.splits if_splits dest!: session_kdf_generate session_kdf_init init_keys_rtcp_keeps)

subsection \<open>Allocation and initialisation of a stream\<close>

lemma stream_alloc_session:
  "srtp_stream_alloc E w p = (st, tmp, w') \<Longrightarrow> session w' = session w"
  unfolding srtp_stream_alloc_def Let_def
  by (auto split: prod.splits if_splits)

lemma stream_init_keeps:
  "srtp_stream_init E w s p = (st, s', w') \<Longrightarrow> session w' = session w"
  unfolding srtp_stream_init_def Let_def
  by (auto split: prod.splits if_splits dest!: init_keys_keeps)

lemma stream_init_reject:
  "pol_window_size p \<noteq> 0 \<Longrightarrow> pol_window_size p < 64 \<or> 0x8000 \<le> pol_window_size p \<Longrightarrow>
   srtp_stream_init E w s p = (srtp_err_status_bad_param, s, w)"
  by (simp add: srtp_stream_init_def)

lemma stream_init_default:
  "srtp_stream_init E w s (p\<lparr>pol_window_size := 0\<rparr>) = srtp_stream_init E w s (p\<lparr>pol_window_size := 128\<rparr>)"
proof -
  have sel: "\<And>n. key_bytes (p\<lparr>pol_window_size := n\<rparr>) = key_bytes p"
    "\<And>n. pol_ssrc (p\<lparr>pol_window_size := n\<rparr>) = pol_ssrc p"
    "\<And>n. pol_rtp (p\<lparr>pol_window_size := n\<rparr>) = pol_rtp p"
    "\<And>n. pol_rtcp (p\<lparr>pol_window_size := n\<rparr>) = pol_rtcp p"
    "\<And>n. pol_ekt (p\<lparr>pol_window_size := n\<rparr>) = pol_ekt p"
    "\<And>n. pol_allow_repeat_tx (p\<lparr>pol_window_size := n\<rparr>) = pol_allow_repeat_tx p"
    "\<And>n. pol_window_size (p\<lparr>pol_window_size := n\<rparr>) = n"
    by (simp_all add: key_bytes_def)
  show ?thesis
    unfolding srtp_stream_init_def sel
    by simp
qed

lemma stream_init_rdbx_fail:
  assumes "pol_window_size p = 0 \<or> (64 \<le> pol_window_size p \<and> pol_window_size p < 0x8000)"
    and "fst (rdbx_init (xops E) (rtp_rdbx s) (if pol_window_size p = 0 then 128 else pol_window_size p)) \<noteq> srtp_err_status_ok"
  shows "fst (srtp_stream_init E w s p) = fst (rdbx_init (xops E) (rtp_rdbx s) (if pol_window_size p = 0 then 128 else pol_window_size p))"
proof -
  obtain err x where r: "rdbx_init (xops E) (rtp_rdbx s) (if pol_window_size p = 0 then 128 else pol_window_size p) = (err, x)"
    by (cases "rdbx_init (xops E) (rtp_rdbx s) (if pol_window_size p = 0 then 128 else pol_window_size p)")
  with assms(2) have e: "err \<noteq> srtp_err_status_ok" by simp
  show ?thesis
  proof (cases "pol_window_size p = 0")
    case True
    with r e show ?thesis by (simp add: srtp_stream_init_def)
  next
    case False
    with assms(1) r e show ?thesis by (simp add: srtp_stream_init_def)
  qed
qed

lemma stream_init_rdbx_ok:
  "srtp_stream_init E w s p = (srtp_err_status_ok, s', w') \<Longrightarrow>
   rtp_rdbx s' = snd (rdbx_init (xops E) (rtp_rdbx s) (if pol_window_size p = 0 then 128 else pol_window_size p))"
  unfolding srtp_stream_init_def Let_def
  by (auto split: prod.splits if_splits dest!: init_keys_keeps)

subsection \<open>The salts of the key schedule and the direction of a template\<close>

text \<open>
  The salts that a successful key schedule leaves in the stream, and the invariant of
  the sessions that \<open>srtp_create\<close> and \<open>srtp_add_stream\<close> build: a template has a
  direction.
\<close>

lemma init_keys_rtcp_salts:
  assumes "srtp_stream_init_keys_rtcp E w s kdf tk n = (srtp_err_status_ok, s', w')"
  shows "salt s' = salt s \<and>
    c_salt s' =
      (let B = base_key_length (cipher_type_id (ciphers w (rtcp_cipher s))) n;
           (w1, K1) = snd (srtp_kdf_generate E w kdf label_rtcp_encryption tk 0 B);
           K2 = snd (snd (srtp_kdf_generate E w1 kdf label_rtcp_salt K1 (nat B) (n - B)))
       in if 0 < n - B then fit 12 (drop (nat B) K2) else c_salt s)"
  using assms
  unfolding srtp_stream_init_keys_rtcp_def Let_def
  by (auto split: prod.splits if_splits)

lemma init_keys_salt:
  assumes "srtp_stream_init_keys E w s key = (srtp_err_status_ok, s', w')"
  shows "salt s' =
      (let L = key_len (ciphers w (rtp_cipher s));
           B = base_key_length (cipher_type_id (ciphers w (rtp_cipher s))) L;
           tmp = buf_write (replicate 256 0) 0 (fit (nat L) key);
           kk = (if 30 < L \<or> 30 < key_len (ciphers w (rtcp_cipher s)) then 46 else 30);
           (kdf, w0) = snd (srtp_kdf_init E w SRTP_AES_ICM tmp kk);
           (w1, K1) = snd (srtp_kdf_generate E w0 kdf label_rtp_encryption tmp 0 B);
           K2 = snd (snd (srtp_kdf_generate E w1 kdf label_rtp_salt K1 (nat B) (L - B)))
       in if 0 < L - B then fit 12 (drop (nat B) K2) else salt s)"
  using assms
  unfolding srtp_stream_init_keys_def Let_def
  by (auto split: prod.splits if_splits dest!: init_keys_rtcp_salts)

lemma add_stream_pinned:
  assumes "template_pinned (session w)" and "srtp_add_stream E (Some w) (Some p) = (st, Some w')"
  shows "template_pinned (session w')"
proof (cases "pol_key p = None")
  case True
  with assms show ?thesis by simp
next
  case False
  obtain st1 tmp w1 where a: "srtp_stream_alloc E w p = (st1, tmp, w1)"
    by (cases "srtp_stream_alloc E w p")
  obtain st2 tmp' w2 where i: "srtp_stream_init E w1 tmp p = (st2, tmp', w2)"
    by (cases "srtp_stream_init E w1 tmp p")
  have s1: "session w1 = session w" using a by (rule stream_alloc_session)
  have s2: "session w2 = session w1" using i by (rule stream_init_keeps)
  from assms False a i s1 s2 show ?thesis
    by (cases "ssrc_type (pol_ssrc p)")
       (auto simp: template_pinned_def push_stream_def split: if_splits option.splits)
qed

lemma create_streams_pinned:
  "template_pinned (session w) \<Longrightarrow> create_streams E w ps = (st, w') \<Longrightarrow> template_pinned (session w')"
proof (induction ps arbitrary: w)
  case Nil
  then show ?case by simp
next
  case (Cons p ps)
  obtain st1 r where r: "srtp_add_stream E (Some w) (Some p) = (st1, r)"
    by (cases "srtp_add_stream E (Some w) (Some p)")
  show ?case
  proof (cases r)
    case None
    with Cons.prems r show ?thesis by simp
  next
    case (Some w1)
    with r Cons.prems(1) have p1: "template_pinned (session w1)" by (auto dest: add_stream_pinned)
    from Cons.prems(2) r Some p1 Cons.IH[OF p1] show ?thesis
      by (auto simp: Let_def split: if_splits)
  qed
qed

lemma create_pinned:
  assumes "srtp_create E w sp ps = (srtp_err_status_ok, w')"
  shows "template_pinned (session w')"
proof -
  let ?w0 = "(count_alloc w)\<lparr>session := \<lparr>stream_list = [], stream_template = None, user_data = None\<rparr>\<rparr>"
  have p0: "template_pinned (session ?w0)" by (simp add: template_pinned_def)
  from assms have "create_streams E ?w0 ps = (srtp_err_status_ok, w')"
    by (simp add: srtp_create_def Let_def split: if_splits)
  from create_streams_pinned[OF p0 this] show ?thesis .
qed

subsection \<open>Memory and the authentication tag\<close>

lemma length_fit [simp]: "length (fit n bs) = n"
  by (simp add: fit_def)

lemma length_mem_read [simp]: "length (mem_read m off n) = nat n"
  by (simp add: mem_read_def)

lemma mem_read_write_fit [simp]:
  "mem_read (mem_write m off (fit (nat n) bs)) off n = fit (nat n) bs"
  by (auto simp: mem_read_def mem_write_def intro!: nth_equalityI)

lemma mem_read_write_before [simp]:
  "off' + n \<le> off \<Longrightarrow> mem_read (mem_write m off bs) off' n = mem_read m off' n"
  by (auto simp: mem_read_def mem_write_def)

lemma mem_read_step: "0 < n \<Longrightarrow> mem_read m off n = m off # mem_read m (off + 1) (n - 1)"
proof -
  assume n: "0 < n"
  then obtain k where k: "nat n = Suc k" by (cases "nat n") auto
  then have k': "nat (n - 1) = k" by simp
  have "map (\<lambda>i. m (off + int i)) [0..<Suc k] = m off # map (\<lambda>i. m (off + 1 + int i)) [0..<k]"
    by (simp add: upt_conv_Cons map_Suc_upt[symmetric] ac_simps del: upt_Suc)
  then show ?thesis by (simp add: mem_read_def k k')
qed

lemma mem_read_done: "n \<le> 0 \<Longrightarrow> mem_read m off n = []"
  by (simp add: mem_read_def)

lemma replicate_numeral: "replicate (numeral k) x = x # replicate (pred_numeral k) x"
  by (simp add: numeral_eq_Suc)

lemma auths_set_cipher_state [simp]: "auths (set_cipher_state p c w) = auths w"
  by (simp add: set_cipher_state_def)

lemma auths_upd_stream [simp]: "auths (upd_stream sref f w) = auths w"
  by (simp add: upd_stream_def)

lemma auths_cipher_set_iv: "srtp_cipher_set_iv E w c iv d = (st, w') \<Longrightarrow> auths w' = auths w"
  by (auto simp: srtp_cipher_set_iv_def split: prod.splits)

lemma auths_cipher_encrypt: "srtp_cipher_encrypt E w c buf = (st, w', out) \<Longrightarrow> auths w' = auths w"
  by (auto simp: srtp_cipher_encrypt_def split: prod.splits)

lemma auths_cipher_output: "srtp_cipher_output E w c n = (st, w', out) \<Longrightarrow> auths w' = auths w"
  by (auto simp: srtp_cipher_output_def split: prod.splits)

lemma auth_start_auths:
  "auth_start E w a = (st, w') \<Longrightarrow>
   auths w' a = (auths w a)\<lparr>auth_state := snd (a_start (aops E) (auths w a))\<rparr>"
  by (auto simp: auth_start_def set_auth_state_def split: prod.splits)

lemma auth_compute_tag:
  "auth_compute E w a buf = (st, w', tag) \<Longrightarrow>
   tag = fit (nat (out_len (auths w a))) (snd (snd (a_compute (aops E) (auths w a) buf)))"
  by (auto simp: auth_compute_def split: prod.splits)

lemma protect_rtcp_hmac_tag:
  assumes "srtp_protect_rtcp_hmac E w sref pk = (srtp_err_status_ok, w', pk')"
    and "ekt (stream_at (session w) sref) = None"
  shows "pkt_octet_len pk' = pkt_octet_len pk + (out_len (auths w (rtcp_auth (stream_at (session w) sref))) + 4) \<and>
    mem_read (pkt_hdr pk') (pkt_octet_len pk + 4) (out_len (auths w (rtcp_auth (stream_at (session w) sref))))
    = fit (nat (out_len (auths w (rtcp_auth (stream_at (session w) sref)))))
        (snd (snd (a_compute (aops E)
           ((auths w (rtcp_auth (stream_at (session w) sref)))
              \<lparr>auth_state := snd (a_start (aops E) (auths w (rtcp_auth (stream_at (session w) sref))))\<rparr>)
           (mem_read (pkt_hdr pk') 0 (pkt_octet_len pk + 4)))))"
  using assms
  unfolding srtp_protect_rtcp_hmac_def Let_def srtp_ekt_write_data_def
  by (auto split: prod.splits if_splits
      dest!: auths_cipher_set_iv auths_cipher_encrypt auths_cipher_output auth_start_auths auth_compute_tag)

subsection \<open>Validation, the empty session and the choice of the RTCP path\<close>

lemma validate_status:
  "srtp_validate_rtp_header le hdr n = srtp_err_status_ok \<or> srtp_validate_rtp_header le hdr n = srtp_err_status_bad_param"
  by (simp add: srtp_validate_rtp_header_def Let_def)

lemma validate_ok_len:
  assumes "srtp_validate_rtp_header le hdr n = srtp_err_status_ok"
  shows "12 \<le> n"
proof -
  have a: "0 \<le> hdr_cc hdr" by (simp add: hdr_cc_def)
  have b: "0 \<le> uint (ntohs le (xtn_hdr_length le hdr (12 + 4 * hdr_cc hdr)))" by simp
  show ?thesis using assms a b
    by (auto simp: srtp_validate_rtp_header_def Let_def split: if_splits)
qed

lemma create_empty:
  "srtp_create E w True [] =
     (if crypto_alloc E (n_allocs w)
      then (srtp_err_status_ok,
            (count_alloc w)\<lparr>session := \<lparr>stream_list = [], stream_template = None, user_data = None\<rparr>\<rparr>)
      else (srtp_err_status_alloc_fail, count_alloc w))"
  by (simp add: srtp_create_def)

lemma protect_empty:
  assumes "stream_list (session w) = []" "stream_template (session w) = None"
  shows "srtp_protect E w pk =
     (if srtp_validate_rtp_header (host_le E) (pkt_hdr pk) (pkt_octet_len pk) = srtp_err_status_ok
      then srtp_err_status_no_ctx else srtp_err_status_bad_param, w, pk)"
  using assms validate_status[of "host_le E" "pkt_hdr pk" "pkt_octet_len pk"]
    validate_ok_len[of "host_le E" "pkt_hdr pk" "pkt_octet_len pk"]
  by (auto simp: srtp_protect_def srtp_get_stream_def)

lemma unprotect_empty:
  assumes "stream_list (session w) = []" "stream_template (session w) = None"
  shows "srtp_unprotect E w pk =
     (if srtp_validate_rtp_header (host_le E) (pkt_hdr pk) (pkt_octet_len pk) = srtp_err_status_ok
      then srtp_err_status_no_ctx else srtp_err_status_bad_param, w, pk)"
  using assms validate_status[of "host_le E" "pkt_hdr pk" "pkt_octet_len pk"]
    validate_ok_len[of "host_le E" "pkt_hdr pk" "pkt_octet_len pk"]
  by (auto simp: srtp_unprotect_def srtp_get_stream_def)

lemma protect_rtcp_empty:
  assumes "stream_list (session w) = []" "stream_template (session w) = None"
  shows "srtp_protect_rtcp E w pk =
     (if 8 \<le> pkt_octet_len pk then srtp_err_status_no_ctx else srtp_err_status_bad_param, w, pk)"
  using assms
  by (auto simp: srtp_protect_rtcp_def rtcp_sender_stream_def srtp_get_stream_def)

lemma unprotect_rtcp_empty:
  assumes "stream_list (session w) = []" "stream_template (session w) = None"
  shows "srtp_unprotect_rtcp E w pk =
     (if 0 \<le> pkt_octet_len pk \<and> pkt_octet_len pk < 12
      then srtp_err_status_bad_param else srtp_err_status_no_ctx, w, pk)"
  using assms
  by (auto simp: srtp_unprotect_rtcp_def rtcp_receiver_stream_def srtp_get_stream_def)

lemma protect_rtcp_dispatch:
  assumes "rtcp_sender_stream E w pk = (srtp_err_status_ok, w1, sref)" and "8 \<le> pkt_octet_len pk"
  shows "srtp_protect_rtcp E w pk =
    (if algorithm (ciphers w1 (rtp_cipher (stream_at (session w1) sref))) = SRTP_AES_128_GCM \<or>
        algorithm (ciphers w1 (rtp_cipher (stream_at (session w1) sref))) = SRTP_AES_256_GCM
     then srtp_protect_rtcp_aead E w1 sref pk else srtp_protect_rtcp_hmac E w1 sref pk)"
  using assms by (simp add: srtp_protect_rtcp_def is_aead_def)

lemma unprotect_rtcp_dispatch:
  assumes "rtcp_receiver_stream E w pk = (srtp_err_status_ok, w1, sref)"
    and "8 + out_len (auths w1 (rtcp_auth (stream_at (session w1) sref))) + 4 \<le> pkt_octet_len pk"
    and "12 \<le> pkt_octet_len pk"
  shows "srtp_unprotect_rtcp E w pk =
    (if algorithm (ciphers w1 (rtp_cipher (stream_at (session w1) sref))) = SRTP_AES_128_GCM \<or>
        algorithm (ciphers w1 (rtp_cipher (stream_at (session w1) sref))) = SRTP_AES_256_GCM
     then srtp_unprotect_rtcp_aead E w1 sref pk else srtp_unprotect_rtcp_hmac E w1 sref pk)"
  using assms by (simp add: srtp_unprotect_rtcp_def is_aead_def Let_def)

lemma unprotect_rtcp_hmac_e_bit:
  assumes "(pkt_hdr pk (pkt_octet_len pk - (out_len (auths w (rtcp_auth (stream_at (session w) sref))) + 4))
              AND SRTCP_E_BYTE_BIT = SRTCP_E_BYTE_BIT)
           \<noteq> (rtcp_services (stream_at (session w) sref) = sec_serv_conf \<or>
               rtcp_services (stream_at (session w) sref) = sec_serv_conf_and_auth)"
  shows "srtp_unprotect_rtcp_hmac E w sref pk = (srtp_err_status_cant_check, w, pk)"
  using assms by (simp add: srtp_unprotect_rtcp_hmac_def Let_def)

subsection \<open>Evaluating the instance\<close>

lemmas create_eval = demo_env_def demo_cops_def demo_aops_def demo_xops_def demo_rops_def demo_lops_def
  demo_eops_def demo_stream_def demo_world_def demo_policy_def demo_session_def
  srtp_create_def srtp_stream_alloc_def srtp_stream_init_def srtp_stream_init_keys_def srtp_stream_init_keys_rtcp_def
  srtp_kdf_init_def srtp_kdf_generate_def srtp_kdf_clear_def count_alloc_def store_cipher_def store_auth_def
  set_cipher_state_def set_auth_state_def push_stream_def key_bytes_def Let_def
  fit_def be_cat_def be16_def be32_def be64_def replicate_numeral

lemma demo_session_keyed:
  "demo_session ssrc_specific SRTP_AES_ICM SRTP_AES_ICM sec_serv_conf_and_auth = demo_keyed SRTP_AES_ICM sec_serv_conf_and_auth"
  "demo_session ssrc_specific SRTP_AES_ICM SRTP_AES_ICM sec_serv_none = demo_keyed SRTP_AES_ICM sec_serv_none"
  "demo_session ssrc_specific SRTP_AES_128_GCM SRTP_AES_ICM sec_serv_auth = demo_keyed SRTP_AES_128_GCM sec_serv_auth"
  by (simp_all add: demo_keyed_def create_eval buf_write_def htonl_def host_bytes_def)

lemmas path_eval = demo_env_def demo_cops_def demo_aops_def demo_xops_def demo_rops_def demo_lops_def
  demo_eops_def demo_stream_def
  count_alloc_def set_cipher_state_def set_auth_state_def push_stream_def Let_def
  srtp_get_stream_def upd_stream_def pin_direction_def srtp_handle_event_def is_aead_def
  srtp_cipher_set_iv_def srtp_cipher_set_aad_def srtp_cipher_encrypt_def srtp_cipher_decrypt_def
  srtp_cipher_output_def srtp_cipher_get_tag_def auth_start_def auth_update_def auth_compute_def
  srtp_key_limit_update_def srtp_ekt_write_data_def srtp_ekt_octets_after_base_tag_def
  srtp_validate_rtp_header_def hdr_cc_def hdr_x_def hdr_seq_def hdr_ssrc_def rtcp_hdr_ssrc_def xtn_hdr_length_def
  rtp_enc_start_def rtp_iv_def rtcp_iv_def octet_string_is_eq_def serv_and_def
  mem_read_step mem_read_done mem_write_def mem_of_list_def fit_def buf_write_def
  be_cat_def be16_def be32_def be64_def host_bytes_def store16_def store32_def store64_def load16_def load32_def
  htons_def ntohs_def htonl_def ntohl_def be64_to_cpu_def SRTCP_E_BIT_def SRTCP_E_BYTE_BIT_def SRTCP_INDEX_MASK_def
  replicate_numeral

subsection \<open>The claims\<close>


text \<open>
  C8. The RTP and the RTCP profile helper return \<open>ok\<close> and the policy shown for the
  profiles aes128_cm_sha1_80, aes128_cm_sha1_32, null_sha1_80, aes256_cm_sha1_80 and
  aes256_cm_sha1_32, and return \<open>bad_param\<close>, with the policy untouched, for
  null_sha1_32. For RTP a 32-bit-tag profile gives a tag of 4 bytes; for RTCP it gives
  the policy of the 80-bit-tag profile of the same cipher, whose tag has 10 bytes.
\<close>

theorem profile_to_policy:
  "srtp_crypto_policy_set_from_profile_for_rtp p srtp_profile_aes128_cm_sha1_80 =
     (srtp_err_status_ok,
      \<lparr>cipher_type = SRTP_AES_ICM, cipher_key_len = 30, auth_type = SRTP_HMAC_SHA1,
       auth_key_len = 20, auth_tag_len = 10, sec_serv = sec_serv_conf_and_auth\<rparr>) \<and>
   srtp_crypto_policy_set_from_profile_for_rtp p srtp_profile_aes128_cm_sha1_32 =
     (srtp_err_status_ok,
      \<lparr>cipher_type = SRTP_AES_ICM, cipher_key_len = 30, auth_type = SRTP_HMAC_SHA1,
       auth_key_len = 20, auth_tag_len = 4, sec_serv = sec_serv_conf_and_auth\<rparr>) \<and>
   srtp_crypto_policy_set_from_profile_for_rtp p srtp_profile_null_sha1_80 =
     (srtp_err_status_ok,
      \<lparr>cipher_type = SRTP_NULL_CIPHER, cipher_key_len = 0, auth_type = SRTP_HMAC_SHA1,
       auth_key_len = 20, auth_tag_len = 10, sec_serv = sec_serv_auth\<rparr>) \<and>
   srtp_crypto_policy_set_from_profile_for_rtp p srtp_profile_aes256_cm_sha1_80 =
     (srtp_err_status_ok,
      \<lparr>cipher_type = SRTP_AES_ICM, cipher_key_len = 46, auth_type = SRTP_HMAC_SHA1,
       auth_key_len = 20, auth_tag_len = 10, sec_serv = sec_serv_conf_and_auth\<rparr>) \<and>
   srtp_crypto_policy_set_from_profile_for_rtp p srtp_profile_aes256_cm_sha1_32 =
     (srtp_err_status_ok,
      \<lparr>cipher_type = SRTP_AES_ICM, cipher_key_len = 46, auth_type = SRTP_HMAC_SHA1,
       auth_key_len = 20, auth_tag_len = 4, sec_serv = sec_serv_conf_and_auth\<rparr>) \<and>
   srtp_crypto_policy_set_from_profile_for_rtp p srtp_profile_null_sha1_32 = (srtp_err_status_bad_param, p) \<and>
   srtp_crypto_policy_set_from_profile_for_rtcp p srtp_profile_aes128_cm_sha1_80 =
     (srtp_err_status_ok,
      \<lparr>cipher_type = SRTP_AES_ICM, cipher_key_len = 30, auth_type = SRTP_HMAC_SHA1,
       auth_key_len = 20, auth_tag_len = 10, sec_serv = sec_serv_conf_and_auth\<rparr>) \<and>
   srtp_crypto_policy_set_from_profile_for_rtcp p srtp_profile_aes128_cm_sha1_32 =
     (srtp_err_status_ok,
      \<lparr>cipher_type = SRTP_AES_ICM, cipher_key_len = 30, auth_type = SRTP_HMAC_SHA1,
       auth_key_len = 20, auth_tag_len = 10, sec_serv = sec_serv_conf_and_auth\<rparr>) \<and>
   srtp_crypto_policy_set_from_profile_for_rtcp p srtp_profile_null_sha1_80 =
     (srtp_err_status_ok,
      \<lparr>cipher_type = SRTP_NULL_CIPHER, cipher_key_len = 0, auth_type = SRTP_HMAC_SHA1,
       auth_key_len = 20, auth_tag_len = 10, sec_serv = sec_serv_auth\<rparr>) \<and>
   srtp_crypto_policy_set_from_profile_for_rtcp p srtp_profile_aes256_cm_sha1_80 =
     (srtp_err_status_ok,
      \<lparr>cipher_type = SRTP_AES_ICM, cipher_key_len = 46, auth_type = SRTP_HMAC_SHA1,
       auth_key_len = 20, auth_tag_len = 10, sec_serv = sec_serv_conf_and_auth\<rparr>) \<and>
   srtp_crypto_policy_set_from_profile_for_rtcp p srtp_profile_aes256_cm_sha1_32 =
     (srtp_err_status_ok,
      \<lparr>cipher_type = SRTP_AES_ICM, cipher_key_len = 46, auth_type = SRTP_HMAC_SHA1,
       auth_key_len = 20, auth_tag_len = 10, sec_serv = sec_serv_conf_and_auth\<rparr>) \<and>
   srtp_crypto_policy_set_from_profile_for_rtcp p srtp_profile_null_sha1_32 = (srtp_err_status_bad_param, p)"
  by (simp add: srtp_crypto_policy_set_aes_cm_128_hmac_sha1_80_def
      srtp_crypto_policy_set_rtp_default_def srtp_crypto_policy_set_aes_cm_128_hmac_sha1_32_def
      srtp_crypto_policy_set_null_cipher_hmac_sha1_80_def
      srtp_crypto_policy_set_aes_cm_256_hmac_sha1_80_def
      srtp_crypto_policy_set_aes_cm_256_hmac_sha1_32_def)

lemmas ekt_eval = demo_template_def demo_keyed_ekt_def demo_keyed_def demo_env_ekt_def demo_eops_ekt_def
  rtp_pkt_def rtcp_pkt_def

lemma demo_template_created:
  "snd (srtp_create (demo_env True) demo_world True
          [demo_policy ssrc_any_inbound SRTP_AES_ICM SRTP_AES_ICM sec_serv_conf_and_auth 0]) = demo_template None"
  "snd (srtp_create demo_env_ekt demo_world True [ekt_policy ssrc_any_inbound]) = demo_template (Some ())"
  "snd (srtp_create demo_env_ekt demo_world True [ekt_policy ssrc_specific]) = demo_keyed_ekt"
  by (simp_all add: demo_template_def demo_keyed_ekt_def upd_stream_def demo_keyed_def ekt_policy_def
      demo_env_ekt_def demo_eops_ekt_def create_eval buf_write_def htonl_def host_bytes_def)

lemma demo_template_conditions:
  "template_pinned (session (demo_template None))" "template_without_ekt (session (demo_template None))"
  "stream_list (session (demo_template ek)) = []"
  "map_option ekt (stream_template (session (demo_template ek))) = Some ek"
  "map_option direction (stream_template (session (demo_template ek))) = Some dir_srtp_receiver"
  "map_option rtp_rdbx (stream_template (session (demo_template ek))) = Some (128, - 1)"
  by (simp_all add: template_pinned_def template_without_ekt_def demo_template_def demo_keyed_def)

lemma unprotect_template_auth_fail:
  "fst (srtp_unprotect (demo_env True) (demo_template None)
          (rtp_pkt [9, 9, 9, 9, 9, 9, 9, 9, 9, 9])) = srtp_err_status_auth_fail"
  by (simp add: ekt_eval srtp_unprotect_def srtp_unprotect_finish_def path_eval)

lemma unprotect_rtcp_template_auth_fail:
  "fst (srtp_unprotect_rtcp (demo_env True) (demo_template None)
          (rtcp_pkt [0x80, 0, 0, 1, 9, 9, 9, 9, 9, 9, 9, 9, 9, 9])) = srtp_err_status_auth_fail"
  by (simp add: ekt_eval srtp_unprotect_rtcp_def srtp_unprotect_rtcp_hmac_def rtcp_receiver_stream_def path_eval)

text \<open>
  C1 as it holds. A call of \<open>srtp_unprotect\<close>, and a call of \<open>srtp_unprotect_rtcp\<close>
  on a session whose template carries no EKT data, that returns an error leaves the
  session as it was: the stream list, the template, and in every stream the replay
  databases and the direction. The errors returned at or before the authentication
  check are among them. The template of the session, if it has one, has a direction,
  as in every session that \<open>srtp_create\<close> and \<open>srtp_add_stream\<close> build (lemmas
  \<open>create_pinned\<close> and \<open>add_stream_pinned\<close>).
\<close>

theorem receive_error_keeps_session:
  assumes "template_pinned (session w)"
  shows "(fst (srtp_unprotect E w pk) \<noteq> srtp_err_status_ok \<longrightarrow>
            session (fst (snd (srtp_unprotect E w pk))) = session w) \<and>
         (template_without_ekt (session w) \<and> fst (srtp_unprotect_rtcp E w rpk) \<noteq> srtp_err_status_ok \<longrightarrow>
            session (fst (snd (srtp_unprotect_rtcp E w rpk))) = session w)"
proof -
  obtain st w' pk' where a: "srtp_unprotect E w pk = (st, w', pk')"
    by (cases "srtp_unprotect E w pk")
  obtain st2 w2 pk2 where b: "srtp_unprotect_rtcp E w rpk = (st2, w2, pk2)"
    by (cases "srtp_unprotect_rtcp E w rpk")
  have "st \<noteq> srtp_err_status_ok \<Longrightarrow> session w' = session w"
    using unprotect_error[OF a _ assms] by simp
  moreover have "template_without_ekt (session w) \<Longrightarrow> st2 \<noteq> srtp_err_status_ok \<Longrightarrow> session w2 = session w"
    using unprotect_rtcp_error[OF b _ assms] by simp
  ultimately show ?thesis by (simp add: a b)
qed

theorem receive_error_keeps_session_witness:
  "stream_list (session (demo_template None)) = [] \<and>
   map_option direction (stream_template (session (demo_template None))) = Some dir_srtp_receiver \<and>
   fst (srtp_unprotect (demo_env True) (demo_template None)
          (rtp_pkt [9, 9, 9, 9, 9, 9, 9, 9, 9, 9])) = srtp_err_status_auth_fail \<and>
   session (fst (snd (srtp_unprotect (demo_env True) (demo_template None)
          (rtp_pkt [9, 9, 9, 9, 9, 9, 9, 9, 9, 9]))))
     = session (demo_template None) \<and>
   fst (srtp_unprotect_rtcp (demo_env True) (demo_template None)
          (rtcp_pkt [0x80, 0, 0, 1, 9, 9, 9, 9, 9, 9, 9, 9, 9, 9])) = srtp_err_status_auth_fail \<and>
   session (fst (snd (srtp_unprotect_rtcp (demo_env True) (demo_template None)
          (rtcp_pkt [0x80, 0, 0, 1, 9, 9, 9, 9, 9, 9, 9, 9, 9, 9]))))
     = session (demo_template None)"
  using receive_error_keeps_session [of "demo_template None" "demo_env True"
      "rtp_pkt [9, 9, 9, 9, 9, 9, 9, 9, 9, 9]" "rtcp_pkt [0x80, 0, 0, 1, 9, 9, 9, 9, 9, 9, 9, 9, 9, 9]"]
    unprotect_template_auth_fail unprotect_rtcp_template_auth_fail demo_template_conditions
  by simp

text \<open>
  C1 as it is stated fails for a template with EKT data: \<open>srtp_unprotect_rtcp\<close> hands
  the template to the EKT hook before it checks the tag, so a packet of a new SSRC
  with a wrong tag returns \<open>auth_fail\<close> and leaves the RTP replay database of the
  template changed.
\<close>

theorem unprotect_rtcp_ekt_template_primed:
  "snd (srtp_create demo_env_ekt demo_world True [ekt_policy ssrc_any_inbound]) = demo_template (Some ()) \<and>
   map_option rtp_rdbx (stream_template (session (demo_template (Some ())))) = Some (128, - 1) \<and>
   fst (srtp_unprotect_rtcp demo_env_ekt (demo_template (Some ()))
          (rtcp_pkt [1, 2, 3, 4, 9, 9, 9, 9, 9, 9, 9, 9, 9, 9, 0, 0, 0, 0, 0, 0, 0, 0, 0, 0,
                     0x80, 0, 0, 1, 0, 0, 0, 0, 0, 0, 0, 0, 0, 0])) = srtp_err_status_auth_fail \<and>
   map_option rtp_rdbx (stream_template (session (fst (snd (srtp_unprotect_rtcp demo_env_ekt (demo_template (Some ()))
          (rtcp_pkt [1, 2, 3, 4, 9, 9, 9, 9, 9, 9, 9, 9, 9, 9, 0, 0, 0, 0, 0, 0, 0, 0, 0, 0,
                     0x80, 0, 0, 1, 0, 0, 0, 0, 0, 0, 0, 0, 0, 0]))))))
     = Some (128, 65536)"
  by (simp add: demo_template_created demo_template_conditions)
     (simp add: ekt_eval srtp_unprotect_rtcp_def srtp_unprotect_rtcp_hmac_def rtcp_receiver_stream_def path_eval)

text \<open>
  C2. On a little-endian host \<open>srtp_calc_aead_iv_srtcp\<close> clears the top bit of the
  index after the swap to network order, which is bit 7 of its last byte: for the SSRC
  0xCAFEBABE, a salt of zeros and the index 128 the last four bytes of the IV are
  00 00 00 00, where the layout of the specification gives 00 00 00 80.
\<close>

theorem aead_iv_srtcp_little_endian:
  "take 12 (srtp_calc_aead_iv_srtcp True (demo_stream\<lparr>c_salt := [0, 0, 0, 0, 0, 0, 0, 0, 0, 0, 0, 0]\<rparr>) 0x80
              (mem_of_list [0x80, 0xC8, 0, 1, 0xCA, 0xFE, 0xBA, 0xBE]))
     = [0, 0, 0xCA, 0xFE, 0xBA, 0xBE, 0, 0, 0, 0, 0, 0] \<and>
   srtcp_aead_iv_spec [0xCA, 0xFE, 0xBA, 0xBE] [0, 0, 0, 0, 0, 0, 0, 0, 0, 0, 0, 0] 0x80
     = [0, 0, 0xCA, 0xFE, 0xBA, 0xBE, 0, 0, 0, 0, 0, 0x80] \<and>
   take 12 (srtp_calc_aead_iv_srtcp False (demo_stream\<lparr>c_salt := [0, 0, 0, 0, 0, 0, 0, 0, 0, 0, 0, 0]\<rparr>) 0x80
              (mem_of_list [0x80, 0xC8, 0, 1, 0xCA, 0xFE, 0xBA, 0xBE]))
     = [0, 0, 0xCA, 0xFE, 0xBA, 0xBE, 0, 0, 0, 0, 0, 0x80]"
  by (simp add: srtp_calc_aead_iv_srtcp_def srtcp_aead_iv_spec_def demo_stream_def buf_write_def
      store16_def store32_def htonl_def host_bytes_def be16_def be32_def be_cat_def
      mem_read_step mem_read_done mem_of_list_def mem_write_def fit_def replicate_numeral)

text \<open>
  C3. The AEAD path of \<open>srtp_unprotect_rtcp\<close> takes the E-bit of the packet as it
  comes: a stream whose RTP cipher is AES-128-GCM and whose RTCP service is
  authentication only accepts a packet with the E-bit set, where the same packet laid
  out for the HMAC path of an AES-ICM stream with that service returns \<open>cant_check\<close>.
\<close>

theorem unprotect_rtcp_aead_e_bit:
  "rtcp_services (hd (stream_list (session (demo_keyed SRTP_AES_128_GCM sec_serv_auth)))) = sec_serv_auth \<and>
   fst (srtp_unprotect_rtcp (demo_env True) (demo_keyed SRTP_AES_128_GCM sec_serv_auth)
          (rtcp_pkt [9, 9, 9, 9, 9, 9, 9, 9, 9, 9, 0x80, 0, 0, 1])) = srtp_err_status_ok \<and>
   fst (srtp_unprotect_rtcp (demo_env True) (demo_keyed SRTP_AES_ICM sec_serv_auth)
          (rtcp_pkt [0x80, 0, 0, 1, 9, 9, 9, 9, 9, 9, 9, 9, 9, 9])) = srtp_err_status_cant_check"
  by (simp add: demo_keyed_def rtcp_pkt_def srtp_unprotect_rtcp_def srtp_unprotect_rtcp_aead_def
      srtp_unprotect_rtcp_hmac_def rtcp_receiver_stream_def srtp_calc_aead_iv_srtcp_def path_eval)

lemma demo_init_keys:
  "fst (srtp_stream_init_keys (demo_env True) demo_allocated demo_allocated_stream
          [1, 2, 3, 4, 5, 6, 7, 8, 9, 10, 11, 12, 13, 14, 15, 16, 17, 18, 19, 20,
           21, 22, 23, 24, 25, 26, 27, 28, 29, 30]) = srtp_err_status_ok"
  "salt (fst (snd (srtp_stream_init_keys (demo_env True) demo_allocated demo_allocated_stream
          [1, 2, 3, 4, 5, 6, 7, 8, 9, 10, 11, 12, 13, 14, 15, 16, 17, 18, 19, 20,
           21, 22, 23, 24, 25, 26, 27, 28, 29, 30])))
     = [85, 85, 85, 85, 85, 85, 85, 85, 85, 85, 85, 85]"
  "fst (srtp_stream_init_keys_rtcp (demo_env True) demo_allocated demo_allocated_stream 2
          (replicate 256 0) 30) = srtp_err_status_ok"
  "c_salt (fst (snd (srtp_stream_init_keys_rtcp (demo_env True) demo_allocated demo_allocated_stream 2
          (replicate 256 0) 30)))
     = [85, 85, 85, 85, 85, 85, 85, 85, 85, 85, 85, 85]"
  by (simp_all add: demo_allocated_def demo_allocated_stream_def create_eval buf_write_def)

text \<open>
  C5. \<open>base_key_length\<close> is the combined length less 14 for the three AES-ICM ciphers,
  16 for AES-128-GCM, 32 for AES-256-GCM and the combined length for every other
  cipher. \<open>srtp_stream_init_keys\<close> takes it of the cipher type and the key length of the
  RTP cipher, and again of the RTCP cipher: when it returns \<open>ok\<close>, the key derivation
  has written that many bytes of cipher key at the start of the key buffer and, when
  the combined length exceeds the base length, combined length less base length bytes
  of salt right after them, and the salt of the stream is the first 12 bytes at that
  offset (the RTP salt from the whole function, the RTCP salt from its second half,
  which starts at the SRTCP keys).
\<close>

theorem key_schedule_lengths:
  "base_key_length SRTP_AES_128_ICM n = n - 14 \<and>
   base_key_length SRTP_AES_192_ICM n = n - 14 \<and>
   base_key_length SRTP_AES_256_ICM n = n - 14 \<and>
   base_key_length SRTP_AES_128_GCM n = 16 \<and>
   base_key_length SRTP_AES_256_GCM n = 32 \<and>
   base_key_length SRTP_NULL_CIPHER n = n \<and>
   base_key_length (SRTP_OTHER_CIPHER k) n = n \<and>
   (srtp_stream_init_keys E w s key = (srtp_err_status_ok, s', w') \<longrightarrow>
      salt s' =
        (let L = key_len (ciphers w (rtp_cipher s));
             B = base_key_length (cipher_type_id (ciphers w (rtp_cipher s))) L;
             tmp = buf_write (replicate 256 0) 0 (fit (nat L) key);
             kk = (if 30 < L \<or> 30 < key_len (ciphers w (rtcp_cipher s)) then 46 else 30);
             (kdf, w0) = snd (srtp_kdf_init E w SRTP_AES_ICM tmp kk);
             (w1, K1) = snd (srtp_kdf_generate E w0 kdf label_rtp_encryption tmp 0 B);
             K2 = snd (snd (srtp_kdf_generate E w1 kdf label_rtp_salt K1 (nat B) (L - B)))
         in if 0 < L - B then fit 12 (drop (nat B) K2) else salt s)) \<and>
   (srtp_stream_init_keys_rtcp E v t kdf tk m = (srtp_err_status_ok, t', v') \<longrightarrow>
      c_salt t' =
        (let B = base_key_length (cipher_type_id (ciphers v (rtcp_cipher t))) m;
             (v1, K1) = snd (srtp_kdf_generate E v kdf label_rtcp_encryption tk 0 B);
             K2 = snd (snd (srtp_kdf_generate E v1 kdf label_rtcp_salt K1 (nat B) (m - B)))
         in if 0 < m - B then fit 12 (drop (nat B) K2) else c_salt t))"
  using init_keys_salt[of E w s key s' w'] init_keys_rtcp_salts[of E v t kdf tk m t' v']
  by simp

theorem key_schedule_lengths_witness:
  "fst (srtp_stream_init_keys (demo_env True) demo_allocated demo_allocated_stream
          [1, 2, 3, 4, 5, 6, 7, 8, 9, 10, 11, 12, 13, 14, 15, 16, 17, 18, 19, 20,
           21, 22, 23, 24, 25, 26, 27, 28, 29, 30]) = srtp_err_status_ok \<and>
   salt (fst (snd (srtp_stream_init_keys (demo_env True) demo_allocated demo_allocated_stream
          [1, 2, 3, 4, 5, 6, 7, 8, 9, 10, 11, 12, 13, 14, 15, 16, 17, 18, 19, 20,
           21, 22, 23, 24, 25, 26, 27, 28, 29, 30])))
     = [85, 85, 85, 85, 85, 85, 85, 85, 85, 85, 85, 85] \<and>
   fst (srtp_stream_init_keys_rtcp (demo_env True) demo_allocated demo_allocated_stream 2
          (replicate 256 0) 30) = srtp_err_status_ok \<and>
   c_salt (fst (snd (srtp_stream_init_keys_rtcp (demo_env True) demo_allocated demo_allocated_stream 2
          (replicate 256 0) 30)))
     = [85, 85, 85, 85, 85, 85, 85, 85, 85, 85, 85, 85]"
  using key_schedule_lengths [where E = "demo_env True" and w = demo_allocated and s = demo_allocated_stream
      and key = "[1, 2, 3, 4, 5, 6, 7, 8, 9, 10, 11, 12, 13, 14, 15, 16, 17, 18, 19, 20,
           21, 22, 23, 24, 25, 26, 27, 28, 29, 30]"
      and s' = "fst (snd (srtp_stream_init_keys (demo_env True) demo_allocated demo_allocated_stream
          [1, 2, 3, 4, 5, 6, 7, 8, 9, 10, 11, 12, 13, 14, 15, 16, 17, 18, 19, 20,
           21, 22, 23, 24, 25, 26, 27, 28, 29, 30]))"
      and w' = "snd (snd (srtp_stream_init_keys (demo_env True) demo_allocated demo_allocated_stream
          [1, 2, 3, 4, 5, 6, 7, 8, 9, 10, 11, 12, 13, 14, 15, 16, 17, 18, 19, 20,
           21, 22, 23, 24, 25, 26, 27, 28, 29, 30]))"
      and v = demo_allocated and t = demo_allocated_stream and kdf = 2 and tk = "replicate 256 0" and m = 30
      and t' = "fst (snd (srtp_stream_init_keys_rtcp (demo_env True) demo_allocated demo_allocated_stream 2
          (replicate 256 0) 30))"
      and v' = "snd (snd (srtp_stream_init_keys_rtcp (demo_env True) demo_allocated demo_allocated_stream 2
          (replicate 256 0) 30))"]
    demo_init_keys
  by (simp add: prod_eq_iff)

lemma demo_rtcp_sender:
  "rtcp_sender_stream (demo_env True) (demo_keyed c serv) (rtcp_pkt []) =
     (srtp_err_status_ok, pin_direction dir_srtp_sender (in_list 0) (demo_keyed c serv), in_list 0)"
  "rtcp_sender_stream (demo_env True) (demo_keyed c serv) (rtcp_pkt [9, 9, 9, 9, 9, 9, 9, 9, 9, 9, 0x80, 0, 0, 1]) =
     (srtp_err_status_ok, pin_direction dir_srtp_sender (in_list 0) (demo_keyed c serv), in_list 0)"
  by (simp_all add: rtcp_sender_stream_def demo_keyed_def rtcp_pkt_def path_eval)

lemma demo_rtcp_receiver:
  "rtcp_receiver_stream (demo_env True) (demo_keyed c serv) (rtcp_pkt [9, 9, 9, 9, 9, 9, 9, 9, 9, 9, 0x80, 0, 0, 1]) =
     (srtp_err_status_ok, demo_keyed c serv, in_list 0)"
  by (simp add: rtcp_receiver_stream_def demo_keyed_def rtcp_pkt_def path_eval)

lemma demo_sender_stream:
  "stream_list (session (pin_direction dir_srtp_sender (in_list 0) (demo_keyed c serv))) ! 0 =
     (stream_list (session (demo_keyed c serv)) ! 0)\<lparr>direction := dir_srtp_sender\<rparr>"
  "auths (pin_direction dir_srtp_sender (in_list 0) (demo_keyed c serv)) = auths (demo_keyed c serv)"
  "ciphers (pin_direction dir_srtp_sender (in_list 0) (demo_keyed c serv)) = ciphers (demo_keyed c serv)"
  by (simp_all add: pin_direction_def demo_keyed_def upd_stream_def srtp_handle_event_def Let_def)

lemma demo_keyed_stream:
  "hd (stream_list (session (demo_keyed c serv))) = stream_list (session (demo_keyed c serv)) ! 0"
  "rtp_cipher (stream_list (session (demo_keyed c serv)) ! 0) = 0"
  "rtcp_cipher (stream_list (session (demo_keyed c serv)) ! 0) = Suc 0"
  "rtcp_auth (stream_list (session (demo_keyed c serv)) ! 0) = Suc 0"
  "rtcp_services (stream_list (session (demo_keyed c serv)) ! 0) = serv"
  "ekt (stream_list (session (demo_keyed c serv)) ! 0) = None"
  "algorithm (ciphers (demo_keyed c serv) 0) = c"
  "algorithm (ciphers (demo_keyed c serv) (Suc 0)) = SRTP_AES_ICM"
  "out_len (auths (demo_keyed c serv) (Suc 0)) = 10"
  "pkt_octet_len (rtcp_pkt rest) = 16 + int (length rest)"
  by (simp_all add: demo_keyed_def rtcp_pkt_def)

lemma protect_rtcp_demo_ok:
  "fst (srtp_protect_rtcp (demo_env True) (demo_keyed SRTP_AES_ICM sec_serv_none) (rtcp_pkt [])) = srtp_err_status_ok"
  by (simp add: demo_keyed_def rtcp_pkt_def srtp_protect_rtcp_def srtp_protect_rtcp_hmac_def
      rtcp_sender_stream_def path_eval)

text \<open>
  C6 as it holds. On the CTR+HMAC path, for a stream without EKT data, a call of
  \<open>srtp_protect_rtcp\<close> that returns \<open>ok\<close> has lengthened the packet by the tag length
  and the four bytes of the trailer, and the tag, written after the trailer at offset
  \<open>pkt_len + 4\<close>, is the output of the authentication function, started afresh, on the
  first \<open>pkt_len + 4\<close> bytes of the packet as it is returned: header, payload and
  trailer. Nothing is asked of the RTCP service mask.
\<close>

theorem protect_rtcp_hmac_authenticates:
  assumes "rtcp_sender_stream E w pk = (srtp_err_status_ok, w1, sref)"
    and "8 \<le> pkt_octet_len pk"
    and "algorithm (ciphers w1 (rtp_cipher (stream_at (session w1) sref))) \<noteq> SRTP_AES_128_GCM"
    and "algorithm (ciphers w1 (rtp_cipher (stream_at (session w1) sref))) \<noteq> SRTP_AES_256_GCM"
    and "ekt (stream_at (session w1) sref) = None"
    and "srtp_protect_rtcp E w pk = (srtp_err_status_ok, w', pk')"
  shows "pkt_octet_len pk' =
           pkt_octet_len pk + (out_len (auths w1 (rtcp_auth (stream_at (session w1) sref))) + 4) \<and>
         mem_read (pkt_hdr pk') (pkt_octet_len pk + 4)
             (out_len (auths w1 (rtcp_auth (stream_at (session w1) sref))))
         = fit (nat (out_len (auths w1 (rtcp_auth (stream_at (session w1) sref)))))
             (snd (snd (a_compute (aops E)
                ((auths w1 (rtcp_auth (stream_at (session w1) sref)))
                   \<lparr>auth_state := snd (a_start (aops E) (auths w1 (rtcp_auth (stream_at (session w1) sref))))\<rparr>)
                (mem_read (pkt_hdr pk') 0 (pkt_octet_len pk + 4)))))"
proof -
  from assms(1-4,6) have "srtp_protect_rtcp_hmac E w1 sref pk = (srtp_err_status_ok, w', pk')"
    by (simp add: protect_rtcp_dispatch)
  from protect_rtcp_hmac_tag[OF this assms(5)] show ?thesis .
qed

theorem protect_rtcp_hmac_authenticates_witness:
  "rtcp_services (hd (stream_list (session (demo_keyed SRTP_AES_ICM sec_serv_none)))) = sec_serv_none \<and>
   fst (srtp_protect_rtcp (demo_env True) (demo_keyed SRTP_AES_ICM sec_serv_none) (rtcp_pkt [])) = srtp_err_status_ok \<and>
   pkt_octet_len (snd (snd (srtp_protect_rtcp (demo_env True) (demo_keyed SRTP_AES_ICM sec_serv_none) (rtcp_pkt []))))
     = 30"
proof -
  have r: "srtp_protect_rtcp (demo_env True) (demo_keyed SRTP_AES_ICM sec_serv_none) (rtcp_pkt []) =
     (srtp_err_status_ok,
      fst (snd (srtp_protect_rtcp (demo_env True) (demo_keyed SRTP_AES_ICM sec_serv_none) (rtcp_pkt []))),
      snd (snd (srtp_protect_rtcp (demo_env True) (demo_keyed SRTP_AES_ICM sec_serv_none) (rtcp_pkt []))))"
    using protect_rtcp_demo_ok by (simp add: prod_eq_iff)
  from protect_rtcp_hmac_authenticates [OF demo_rtcp_sender(1) _ _ _ _ r]
  show ?thesis
    using protect_rtcp_demo_ok by (simp add: demo_sender_stream demo_keyed_stream)
qed

text \<open>
  C6 as it is stated fails for a stream with EKT data: \<open>srtp_protect_rtcp\<close> lets the EKT
  hook lengthen the packet before it computes the tag, so a successful call on a packet
  of 16 bytes with a 10-byte tag returns 54 bytes, not 30.
\<close>

theorem protect_rtcp_ekt_length:
  "snd (srtp_create demo_env_ekt demo_world True [ekt_policy ssrc_specific]) = demo_keyed_ekt \<and>
   out_len (auths demo_keyed_ekt (rtcp_auth (hd (stream_list (session demo_keyed_ekt))))) = 10 \<and>
   pkt_octet_len (rtcp_pkt []) = 16 \<and>
   fst (srtp_protect_rtcp demo_env_ekt demo_keyed_ekt (rtcp_pkt [])) = srtp_err_status_ok \<and>
   pkt_octet_len (snd (snd (srtp_protect_rtcp demo_env_ekt demo_keyed_ekt (rtcp_pkt [])))) = 54"
  by (simp add: demo_template_created)
     (simp add: ekt_eval srtp_protect_rtcp_def srtp_protect_rtcp_hmac_def rtcp_sender_stream_def path_eval)

text \<open>
  C9. Once the stream is found and the packet is long enough, \<open>srtp_protect_rtcp\<close> and
  \<open>srtp_unprotect_rtcp\<close> run the AEAD function exactly when the algorithm of the RTP
  cipher of the stream is AES-128-GCM or AES-256-GCM, and the CTR+HMAC rest of the
  function otherwise; the RTCP cipher is not looked at.
\<close>

theorem rtcp_dispatch_by_rtp_cipher:
  "(rtcp_sender_stream E w pk = (srtp_err_status_ok, w1, sref) \<and> 8 \<le> pkt_octet_len pk \<longrightarrow>
      srtp_protect_rtcp E w pk =
        (if algorithm (ciphers w1 (rtp_cipher (stream_at (session w1) sref))) = SRTP_AES_128_GCM \<or>
            algorithm (ciphers w1 (rtp_cipher (stream_at (session w1) sref))) = SRTP_AES_256_GCM
         then srtp_protect_rtcp_aead E w1 sref pk else srtp_protect_rtcp_hmac E w1 sref pk)) \<and>
   (rtcp_receiver_stream E w pk = (srtp_err_status_ok, w2, sref2) \<and>
    8 + out_len (auths w2 (rtcp_auth (stream_at (session w2) sref2))) + 4 \<le> pkt_octet_len pk \<and>
    12 \<le> pkt_octet_len pk \<longrightarrow>
      srtp_unprotect_rtcp E w pk =
        (if algorithm (ciphers w2 (rtp_cipher (stream_at (session w2) sref2))) = SRTP_AES_128_GCM \<or>
            algorithm (ciphers w2 (rtp_cipher (stream_at (session w2) sref2))) = SRTP_AES_256_GCM
         then srtp_unprotect_rtcp_aead E w2 sref2 pk else srtp_unprotect_rtcp_hmac E w2 sref2 pk))"
  using protect_rtcp_dispatch[of E w pk w1 sref] unprotect_rtcp_dispatch[of E w pk w2 sref2]
  by blast

theorem rtcp_dispatch_by_rtp_cipher_witness:
  "algorithm (ciphers (demo_keyed SRTP_AES_128_GCM sec_serv_auth)
      (rtp_cipher (hd (stream_list (session (demo_keyed SRTP_AES_128_GCM sec_serv_auth)))))) = SRTP_AES_128_GCM \<and>
   algorithm (ciphers (demo_keyed SRTP_AES_128_GCM sec_serv_auth)
      (rtcp_cipher (hd (stream_list (session (demo_keyed SRTP_AES_128_GCM sec_serv_auth)))))) = SRTP_AES_ICM \<and>
   srtp_protect_rtcp (demo_env True) (demo_keyed SRTP_AES_128_GCM sec_serv_auth)
       (rtcp_pkt [9, 9, 9, 9, 9, 9, 9, 9, 9, 9, 0x80, 0, 0, 1])
     = srtp_protect_rtcp_aead (demo_env True)
         (pin_direction dir_srtp_sender (in_list 0) (demo_keyed SRTP_AES_128_GCM sec_serv_auth)) (in_list 0)
         (rtcp_pkt [9, 9, 9, 9, 9, 9, 9, 9, 9, 9, 0x80, 0, 0, 1]) \<and>
   srtp_unprotect_rtcp (demo_env True) (demo_keyed SRTP_AES_128_GCM sec_serv_auth)
       (rtcp_pkt [9, 9, 9, 9, 9, 9, 9, 9, 9, 9, 0x80, 0, 0, 1])
     = srtp_unprotect_rtcp_aead (demo_env True) (demo_keyed SRTP_AES_128_GCM sec_serv_auth) (in_list 0)
         (rtcp_pkt [9, 9, 9, 9, 9, 9, 9, 9, 9, 9, 0x80, 0, 0, 1])"
  using rtcp_dispatch_by_rtp_cipher [of "demo_env True" "demo_keyed SRTP_AES_128_GCM sec_serv_auth"
      "rtcp_pkt [9, 9, 9, 9, 9, 9, 9, 9, 9, 9, 0x80, 0, 0, 1]"
      "pin_direction dir_srtp_sender (in_list 0) (demo_keyed SRTP_AES_128_GCM sec_serv_auth)" "in_list 0"
      "demo_keyed SRTP_AES_128_GCM sec_serv_auth" "in_list 0"]
  by (simp add: demo_rtcp_sender demo_rtcp_receiver demo_sender_stream demo_keyed_stream)

lemma demo_alloc:
  "srtp_stream_alloc (demo_env True) demo_world (demo_policy ty SRTP_AES_ICM SRTP_AES_ICM serv ws) =
     (srtp_err_status_ok, demo_allocated_stream, demo_allocated)"
  by (simp add: demo_allocated_def demo_allocated_stream_def create_eval)

lemma demo_init:
  "fst (srtp_stream_init (demo_env True) demo_allocated demo_allocated_stream
          (demo_policy ty SRTP_AES_ICM SRTP_AES_ICM serv 0)) = srtp_err_status_ok"
  "fst (srtp_stream_init (demo_env True) demo_allocated demo_allocated_stream
          (demo_policy ty SRTP_AES_ICM SRTP_AES_ICM serv 64)) = srtp_err_status_ok"
  "fst (srtp_stream_init (demo_env True) demo_allocated demo_allocated_stream
          (demo_policy ty SRTP_AES_ICM SRTP_AES_ICM serv 128)) = srtp_err_status_ok"
  "fst (srtp_stream_init (demo_env True) demo_allocated demo_allocated_stream
          (demo_policy ty SRTP_AES_ICM SRTP_AES_ICM serv 0x7FFF)) = srtp_err_status_ok"
  by (simp_all add: demo_allocated_def demo_allocated_stream_def create_eval buf_write_def htonl_def host_bytes_def)

lemma demo_policy_fields:
  "pol_window_size (demo_policy ty rc cc serv ws) = ws"
  "ssrc_type (pol_ssrc (demo_policy ty rc cc serv ws)) = ty"
  "pol_key (demo_policy ty rc cc serv ws) \<noteq> None"
  "(demo_policy ty rc cc serv ws)\<lparr>pol_window_size := n\<rparr> = demo_policy ty rc cc serv n"
  by (simp_all add: demo_policy_def)

lemma demo_rdbx_init:
  "rdbx_init (xops (demo_env le)) x ws = (if ws = 0 then srtp_err_status_bad_param else srtp_err_status_ok, (ws, - 1))"
  by (simp add: demo_env_def demo_xops_def)

text \<open>
  C4. \<open>srtp_stream_init\<close> returns \<open>bad_param\<close>, and changes nothing, for a window size
  that is not 0 and is below 64 or at least 0x8000; it treats the window size 0 as it
  treats 128; and for 0 or a size from 64 up to 0x7FFF it initialises the RTP replay
  database with 128 or with that size: a failure of the initialisation is the status
  of the call, and when the call returns \<open>ok\<close> the replay database of the stream is the
  one initialised with that size.
\<close>

theorem stream_init_window_size:
  "(pol_window_size p \<noteq> 0 \<and> (pol_window_size p < 64 \<or> 0x8000 \<le> pol_window_size p) \<longrightarrow>
      srtp_stream_init E w s p = (srtp_err_status_bad_param, s, w)) \<and>
   srtp_stream_init E w s (p\<lparr>pol_window_size := 0\<rparr>) = srtp_stream_init E w s (p\<lparr>pol_window_size := 128\<rparr>) \<and>
   (pol_window_size p = 0 \<or> 64 \<le> pol_window_size p \<and> pol_window_size p < 0x8000 \<longrightarrow>
      (fst (rdbx_init (xops E) (rtp_rdbx s) (if pol_window_size p = 0 then 128 else pol_window_size p))
         \<noteq> srtp_err_status_ok \<longrightarrow>
       fst (srtp_stream_init E w s p) =
         fst (rdbx_init (xops E) (rtp_rdbx s) (if pol_window_size p = 0 then 128 else pol_window_size p))) \<and>
      (fst (srtp_stream_init E w s p) = srtp_err_status_ok \<longrightarrow>
       rtp_rdbx (fst (snd (srtp_stream_init E w s p))) =
         snd (rdbx_init (xops E) (rtp_rdbx s) (if pol_window_size p = 0 then 128 else pol_window_size p))))"
proof -
  have a: "pol_window_size p \<noteq> 0 \<and> (pol_window_size p < 64 \<or> 0x8000 \<le> pol_window_size p) \<longrightarrow>
      srtp_stream_init E w s p = (srtp_err_status_bad_param, s, w)"
    using stream_init_reject[of p E w s] by blast
  have b: "fst (srtp_stream_init E w s p) = srtp_err_status_ok \<longrightarrow>
       rtp_rdbx (fst (snd (srtp_stream_init E w s p))) =
         snd (rdbx_init (xops E) (rtp_rdbx s) (if pol_window_size p = 0 then 128 else pol_window_size p))"
    using stream_init_rdbx_ok[of E w s p "fst (snd (srtp_stream_init E w s p))" "snd (snd (srtp_stream_init E w s p))"]
    by (cases "srtp_stream_init E w s p") auto
  from a b stream_init_default[of E w s p] stream_init_rdbx_fail[of p E s w]
  show ?thesis by blast
qed

theorem stream_init_window_size_witness:
  "srtp_stream_init (demo_env True) demo_allocated demo_allocated_stream
      (demo_policy ssrc_specific SRTP_AES_ICM SRTP_AES_ICM sec_serv_conf_and_auth 63)
     = (srtp_err_status_bad_param, demo_allocated_stream, demo_allocated) \<and>
   srtp_stream_init (demo_env True) demo_allocated demo_allocated_stream
      (demo_policy ssrc_specific SRTP_AES_ICM SRTP_AES_ICM sec_serv_conf_and_auth 0x8000)
     = (srtp_err_status_bad_param, demo_allocated_stream, demo_allocated) \<and>
   srtp_stream_init (demo_env True) demo_allocated demo_allocated_stream
      (demo_policy ssrc_specific SRTP_AES_ICM SRTP_AES_ICM sec_serv_conf_and_auth 0)
     = srtp_stream_init (demo_env True) demo_allocated demo_allocated_stream
      (demo_policy ssrc_specific SRTP_AES_ICM SRTP_AES_ICM sec_serv_conf_and_auth 128) \<and>
   rtp_rdbx (fst (snd (srtp_stream_init (demo_env True) demo_allocated demo_allocated_stream
      (demo_policy ssrc_specific SRTP_AES_ICM SRTP_AES_ICM sec_serv_conf_and_auth 0)))) = (128, - 1) \<and>
   rtp_rdbx (fst (snd (srtp_stream_init (demo_env True) demo_allocated demo_allocated_stream
      (demo_policy ssrc_specific SRTP_AES_ICM SRTP_AES_ICM sec_serv_conf_and_auth 64)))) = (64, - 1) \<and>
   rtp_rdbx (fst (snd (srtp_stream_init (demo_env True) demo_allocated demo_allocated_stream
      (demo_policy ssrc_specific SRTP_AES_ICM SRTP_AES_ICM sec_serv_conf_and_auth 0x7FFF)))) = (0x7FFF, - 1)"
  using
    stream_init_window_size [of "demo_policy ssrc_specific SRTP_AES_ICM SRTP_AES_ICM sec_serv_conf_and_auth 63"
      "demo_env True" demo_allocated demo_allocated_stream]
    stream_init_window_size [of "demo_policy ssrc_specific SRTP_AES_ICM SRTP_AES_ICM sec_serv_conf_and_auth 0x8000"
      "demo_env True" demo_allocated demo_allocated_stream]
    stream_init_window_size [of "demo_policy ssrc_specific SRTP_AES_ICM SRTP_AES_ICM sec_serv_conf_and_auth 0"
      "demo_env True" demo_allocated demo_allocated_stream]
    stream_init_window_size [of "demo_policy ssrc_specific SRTP_AES_ICM SRTP_AES_ICM sec_serv_conf_and_auth 64"
      "demo_env True" demo_allocated demo_allocated_stream]
    stream_init_window_size [of "demo_policy ssrc_specific SRTP_AES_ICM SRTP_AES_ICM sec_serv_conf_and_auth 0x7FFF"
      "demo_env True" demo_allocated demo_allocated_stream]
  by (simp add: demo_policy_fields demo_rdbx_init demo_init)


text \<open>
  C7. When the policy has a key and the allocation and the initialisation of the
  stream succeed, \<open>srtp_add_stream\<close> puts the new stream at the head of the stream
  list for a specific SSRC; for an inbound or outbound wildcard it installs the stream
  as the template, as a receiver or as a sender, when the session has no template, and
  returns \<open>bad_param\<close> and leaves the session as it was when it has one; for an
  undefined SSRC type it returns \<open>bad_param\<close> and leaves the session as it was.
\<close>

theorem add_stream_by_ssrc_type:
  assumes alloc: "srtp_stream_alloc E w p = (srtp_err_status_ok, tmp, w1)"
      and init: "srtp_stream_init E w1 tmp p = (srtp_err_status_ok, tmp', w2)"
      and key: "pol_key p \<noteq> None"
  shows "session w2 = session w \<and>
    (ssrc_type (pol_ssrc p) = ssrc_specific \<longrightarrow>
       srtp_add_stream E (Some w) (Some p) = (srtp_err_status_ok, Some (push_stream tmp' w2)) \<and>
       stream_list (session (push_stream tmp' w2)) = tmp' # stream_list (session w) \<and>
       stream_template (session (push_stream tmp' w2)) = stream_template (session w)) \<and>
    (ssrc_type (pol_ssrc p) = ssrc_any_inbound \<longrightarrow>
       (stream_template (session w) = None \<longrightarrow>
          srtp_add_stream E (Some w) (Some p) =
            (srtp_err_status_ok,
             Some (w2\<lparr>session := (session w)\<lparr>stream_template := Some (tmp'\<lparr>direction := dir_srtp_receiver\<rparr>)\<rparr>\<rparr>))) \<and>
       (stream_template (session w) \<noteq> None \<longrightarrow>
          srtp_add_stream E (Some w) (Some p) = (srtp_err_status_bad_param, Some w2))) \<and>
    (ssrc_type (pol_ssrc p) = ssrc_any_outbound \<longrightarrow>
       (stream_template (session w) = None \<longrightarrow>
          srtp_add_stream E (Some w) (Some p) =
            (srtp_err_status_ok,
             Some (w2\<lparr>session := (session w)\<lparr>stream_template := Some (tmp'\<lparr>direction := dir_srtp_sender\<rparr>)\<rparr>\<rparr>))) \<and>
       (stream_template (session w) \<noteq> None \<longrightarrow>
          srtp_add_stream E (Some w) (Some p) = (srtp_err_status_bad_param, Some w2))) \<and>
    (ssrc_type (pol_ssrc p) = ssrc_undefined \<longrightarrow>
       srtp_add_stream E (Some w) (Some p) = (srtp_err_status_bad_param, Some w2))"
proof -
  have s1: "session w1 = session w" using alloc by (rule stream_alloc_session)
  have s2: "session w2 = session w1" using init by (rule stream_init_keeps)
  show ?thesis using alloc init key s1 s2
    by (auto simp: push_stream_def)
qed

lemma demo_init_pair:
  "srtp_stream_init (demo_env True) demo_allocated demo_allocated_stream
      (demo_policy ty SRTP_AES_ICM SRTP_AES_ICM serv 0) =
   (srtp_err_status_ok,
    fst (snd (srtp_stream_init (demo_env True) demo_allocated demo_allocated_stream
      (demo_policy ty SRTP_AES_ICM SRTP_AES_ICM serv 0))),
    snd (snd (srtp_stream_init (demo_env True) demo_allocated demo_allocated_stream
      (demo_policy ty SRTP_AES_ICM SRTP_AES_ICM serv 0))))"
  using demo_init(1)[of ty serv] by (simp add: prod_eq_iff)

lemma demo_template_session:
  "stream_template (session (demo_session ssrc_any_inbound SRTP_AES_ICM SRTP_AES_ICM sec_serv_conf_and_auth)) \<noteq> None"
  "fst (srtp_stream_alloc (demo_env True)
          (demo_session ssrc_any_inbound SRTP_AES_ICM SRTP_AES_ICM sec_serv_conf_and_auth)
          (demo_policy ssrc_any_outbound SRTP_AES_ICM SRTP_AES_ICM sec_serv_conf_and_auth 0)) = srtp_err_status_ok"
  "fst (srtp_stream_init (demo_env True)
          (snd (snd (srtp_stream_alloc (demo_env True)
             (demo_session ssrc_any_inbound SRTP_AES_ICM SRTP_AES_ICM sec_serv_conf_and_auth)
             (demo_policy ssrc_any_outbound SRTP_AES_ICM SRTP_AES_ICM sec_serv_conf_and_auth 0))))
          (fst (snd (srtp_stream_alloc (demo_env True)
             (demo_session ssrc_any_inbound SRTP_AES_ICM SRTP_AES_ICM sec_serv_conf_and_auth)
             (demo_policy ssrc_any_outbound SRTP_AES_ICM SRTP_AES_ICM sec_serv_conf_and_auth 0))))
          (demo_policy ssrc_any_outbound SRTP_AES_ICM SRTP_AES_ICM sec_serv_conf_and_auth 0)) = srtp_err_status_ok"
  by (simp_all add: create_eval buf_write_def htonl_def host_bytes_def)

theorem add_stream_by_ssrc_type_witness:
  "fst (srtp_add_stream (demo_env True) (Some demo_world)
         (Some (demo_policy ssrc_specific SRTP_AES_ICM SRTP_AES_ICM sec_serv_conf_and_auth 0))) = srtp_err_status_ok \<and>
   length (stream_list (session (the (snd (srtp_add_stream (demo_env True) (Some demo_world)
         (Some (demo_policy ssrc_specific SRTP_AES_ICM SRTP_AES_ICM sec_serv_conf_and_auth 0))))))) = 1 \<and>
   fst (srtp_add_stream (demo_env True) (Some demo_world)
         (Some (demo_policy ssrc_any_inbound SRTP_AES_ICM SRTP_AES_ICM sec_serv_conf_and_auth 0))) = srtp_err_status_ok \<and>
   stream_template (session (the (snd (srtp_add_stream (demo_env True) (Some demo_world)
         (Some (demo_policy ssrc_any_inbound SRTP_AES_ICM SRTP_AES_ICM sec_serv_conf_and_auth 0)))))) \<noteq> None \<and>
   fst (srtp_add_stream (demo_env True)
         (Some (demo_session ssrc_any_inbound SRTP_AES_ICM SRTP_AES_ICM sec_serv_conf_and_auth))
         (Some (demo_policy ssrc_any_outbound SRTP_AES_ICM SRTP_AES_ICM sec_serv_conf_and_auth 0)))
     = srtp_err_status_bad_param \<and>
   fst (srtp_add_stream (demo_env True) (Some demo_world)
         (Some (demo_policy ssrc_undefined SRTP_AES_ICM SRTP_AES_ICM sec_serv_conf_and_auth 0))) = srtp_err_status_bad_param"
proof -
  let ?W = "demo_session ssrc_any_inbound SRTP_AES_ICM SRTP_AES_ICM sec_serv_conf_and_auth"
  let ?p = "demo_policy ssrc_any_outbound SRTP_AES_ICM SRTP_AES_ICM sec_serv_conf_and_auth 0"
  let ?A = "srtp_stream_alloc (demo_env True) ?W ?p"
  let ?I = "srtp_stream_init (demo_env True) (snd (snd ?A)) (fst (snd ?A)) ?p"
  have a: "?A = (srtp_err_status_ok, fst (snd ?A), snd (snd ?A))"
    using demo_template_session(2) by (simp add: prod_eq_iff)
  have i: "?I = (srtp_err_status_ok, fst (snd ?I), snd (snd ?I))"
    using demo_template_session(3) by (simp add: prod_eq_iff)
  from add_stream_by_ssrc_type [OF a i demo_policy_fields(3)] demo_template_session(1)
  have second: "fst (srtp_add_stream (demo_env True) (Some ?W) (Some ?p)) = srtp_err_status_bad_param"
    by (simp add: demo_policy_fields)
  from second
    add_stream_by_ssrc_type [OF demo_alloc demo_init_pair demo_policy_fields(3),
      of ssrc_specific sec_serv_conf_and_auth]
    add_stream_by_ssrc_type [OF demo_alloc demo_init_pair demo_policy_fields(3),
      of ssrc_any_inbound sec_serv_conf_and_auth]
    add_stream_by_ssrc_type [OF demo_alloc demo_init_pair demo_policy_fields(3),
      of ssrc_undefined sec_serv_conf_and_auth]
  show ?thesis
    by (simp add: demo_policy_fields demo_world_def)
qed

lemma demo_validate:
  "srtp_validate_rtp_header True (pkt_hdr (rtp_pkt [])) (pkt_octet_len (rtp_pkt [])) = srtp_err_status_ok"
  "srtp_validate_rtp_header True (mem_of_list [0x80, 0, 0, 1, 0, 0, 0, 0]) 8 = srtp_err_status_bad_param"
  by (simp_all add: rtp_pkt_def path_eval)

lemma demo_env_fields:
  "host_le (demo_env le) = le" "crypto_alloc (demo_env le) n"
  by (simp_all add: demo_env_def)

text \<open>
  C10 as it holds. When the allocation of the context succeeds, \<open>srtp_create\<close> with no
  policy returns \<open>ok\<close> and a session with no stream, no template and no user data. On
  that session \<open>srtp_protect\<close> and \<open>srtp_unprotect\<close> change nothing and return
  \<open>no_ctx\<close> for a packet that passes \<open>srtp_validate_rtp_header\<close>, and \<open>bad_param\<close> for
  one that does not.
\<close>

theorem create_without_policy:
  assumes "crypto_alloc E (n_allocs w)"
  shows "fst (srtp_create E w True []) = srtp_err_status_ok \<and>
     session (snd (srtp_create E w True [])) = \<lparr>stream_list = [], stream_template = None, user_data = None\<rparr> \<and>
     srtp_protect E (snd (srtp_create E w True [])) pk =
       (if srtp_validate_rtp_header (host_le E) (pkt_hdr pk) (pkt_octet_len pk) = srtp_err_status_ok
        then srtp_err_status_no_ctx else srtp_err_status_bad_param, snd (srtp_create E w True []), pk) \<and>
     srtp_unprotect E (snd (srtp_create E w True [])) pk =
       (if srtp_validate_rtp_header (host_le E) (pkt_hdr pk) (pkt_octet_len pk) = srtp_err_status_ok
        then srtp_err_status_no_ctx else srtp_err_status_bad_param, snd (srtp_create E w True []), pk)"
proof -
  have c: "srtp_create E w True [] =
     (srtp_err_status_ok,
      (count_alloc w)\<lparr>session := \<lparr>stream_list = [], stream_template = None, user_data = None\<rparr>\<rparr>)"
    using assms by (simp add: create_empty)
  show ?thesis
    by (simp add: c protect_empty unprotect_empty)
qed

theorem create_without_policy_witness:
  "fst (srtp_create (demo_env True) demo_world True []) = srtp_err_status_ok \<and>
   fst (srtp_protect (demo_env True) (snd (srtp_create (demo_env True) demo_world True [])) (rtp_pkt []))
     = srtp_err_status_no_ctx \<and>
   fst (srtp_unprotect (demo_env True) (snd (srtp_create (demo_env True) demo_world True [])) (rtp_pkt []))
     = srtp_err_status_no_ctx"
  using create_without_policy [of "demo_env True" demo_world "rtp_pkt []"]
  by (simp add: demo_env_fields demo_validate)

text \<open>
  C10 as it is stated fails for a packet that does not pass the validation of the
  header: on the empty session \<open>srtp_protect\<close> returns \<open>bad_param\<close>, not \<open>no_ctx\<close>, for
  a packet of eight bytes.
\<close>

theorem protect_short_packet_bad_param:
  "fst (srtp_create (demo_env True) demo_world True []) = srtp_err_status_ok \<and>
   fst (srtp_protect (demo_env True) (snd (srtp_create (demo_env True) demo_world True []))
          \<lparr>pkt_hdr = mem_of_list [0x80, 0, 0, 1, 0, 0, 0, 0], pkt_octet_len = 8\<rparr>)
     = srtp_err_status_bad_param"
  by (simp add: create_empty demo_env_fields protect_empty demo_validate)

end
